theory Spec2Isabelle
  imports Complex_Main "HOL-Library.List_Lexorder" "HOL-Library.Char_ord" "HOL-Library.Product_Lexorder"
begin

section \<open>JavaScript strings and numbers\<close>

text \<open>
  Strings are lists of 8-bit characters; the model covers ASCII input. White space is the
  ASCII part of what \<^verbatim>\<open>String.prototype.trim\<close> and the regular expression class
  \<^verbatim>\<open>\s\<close> accept; \<^verbatim>\<open>\d\<close> is the ten ASCII digits.
\<close>

definition isSpace :: "char \<Rightarrow> bool" where
  "isSpace c = (c \<in> set [CHR '' '', CHR 0x09, CHR 0x0A, CHR 0x0B, CHR 0x0C, CHR 0x0D])"

definition isDigit :: "char \<Rightarrow> bool" where
  "isDigit c = (c \<in> set ''0123456789'')"

definition digitVal :: "char \<Rightarrow> nat" where
  "digitVal c = of_char c - 48"

definition digitsVal :: "string \<Rightarrow> nat" where
  "digitsVal ds = foldl (\<lambda>a c. 10 * a + digitVal c) 0 ds"

definition trim :: "string \<Rightarrow> string" where
  "trim s = rev (dropWhile isSpace (rev (dropWhile isSpace s)))"

definition toLowerCase :: "string \<Rightarrow> string" where
  "toLowerCase s =
     map (\<lambda>c. case map_of (zip ''ABCDEFGHIJKLMNOPQRSTUVWXYZ'' ''abcdefghijklmnopqrstuvwxyz'') c of
                 Some d \<Rightarrow> d | None \<Rightarrow> c) s"

definition toUpperCase :: "string \<Rightarrow> string" where
  "toUpperCase s =
     map (\<lambda>c. case map_of (zip ''abcdefghijklmnopqrstuvwxyz'' ''ABCDEFGHIJKLMNOPQRSTUVWXYZ'') c of
                 Some d \<Rightarrow> d | None \<Rightarrow> c) s"

text \<open>\<^verbatim>\<open>s.split(sep)\<close> for a one-character separator: \<^verbatim>\<open>"".split("/")\<close> is \<^verbatim>\<open>[""]\<close>.\<close>

fun splitChar :: "char \<Rightarrow> string \<Rightarrow> string list" where
  "splitChar sep [] = [[]]"
| "splitChar sep (c # cs) =
     (if c = sep then [] # splitChar sep cs
      else (case splitChar sep cs of r # rs \<Rightarrow> (c # r) # rs | [] \<Rightarrow> [[c]]))"

text \<open>\<^verbatim>\<open>s.split(/\s+/)\<close>: the flag says that the previous character was white space.\<close>

fun splitWsAux :: "bool \<Rightarrow> string \<Rightarrow> string list" where
  "splitWsAux inws [] = [[]]"
| "splitWsAux inws (c # cs) =
     (if isSpace c then (if inws then splitWsAux True cs else [] # splitWsAux True cs)
      else (case splitWsAux False cs of r # rs \<Rightarrow> (c # r) # rs | [] \<Rightarrow> [[c]]))"

definition splitWs :: "string \<Rightarrow> string list" where
  "splitWs s = splitWsAux False s"

fun join :: "string \<Rightarrow> string list \<Rightarrow> string" where
  "join sep [] = []"
| "join sep [x] = x"
| "join sep (x # y # ys) = x @ sep @ join sep (y # ys)"

definition startsWith :: "string \<Rightarrow> string \<Rightarrow> bool" where
  "startsWith s p = (take (length p) s = p)"

fun includesStr :: "string \<Rightarrow> string \<Rightarrow> bool" where
  "includesStr [] sub = (sub = [])"
| "includesStr (c # cs) sub = (startsWith (c # cs) sub \<or> includesStr cs sub)"

definition padStart2 :: "string \<Rightarrow> string" where
  "padStart2 s = replicate (2 - length s) (CHR ''0'') @ s"

fun toStr :: "nat \<Rightarrow> string" where
  "toStr n = (if n < 10 then [''0123456789'' ! n]
              else toStr (n div 10) @ [''0123456789'' ! (n mod 10)])"

text \<open>\<^verbatim>\<open>x || null\<close> on a string: the empty string is falsy.\<close>

definition orNull :: "string \<Rightarrow> string option" where
  "orNull s = (if s = [] then None else Some s)"

text \<open>
  A JavaScript number as \<^verbatim>\<open>parseFloat\<close> returns it. Finite values are kept exact
  (a rational): the rounding of IEEE doubles and their overflow are not modelled.
\<close>

datatype number = NaN | Num rat | PosInfinity | NegInfinity

definition isNaN :: "number \<Rightarrow> bool" where
  "isNaN x = (x = NaN)"

definition pow10 :: "int \<Rightarrow> rat" where
  "pow10 e = (if 0 \<le> e then 10 ^ nat e else 1 / 10 ^ nat (- e))"

text \<open>The exponent part of a decimal literal; a dangling \<^verbatim>\<open>e\<close> or sign is not consumed.\<close>

definition exponentPart :: "string \<Rightarrow> int" where
  "exponentPart s =
     (case s of
        [] \<Rightarrow> 0
      | c # r \<Rightarrow>
          if c = CHR ''e'' \<or> c = CHR ''E'' then
            (case r of
               [] \<Rightarrow> 0
             | d # r' \<Rightarrow>
                 if d = CHR ''-'' then
                   (if takeWhile isDigit r' = [] then 0 else - int (digitsVal (takeWhile isDigit r')))
                 else if d = CHR ''+'' then int (digitsVal (takeWhile isDigit r'))
                 else int (digitsVal (takeWhile isDigit r)))
          else 0)"

text \<open>
  \<^verbatim>\<open>parseFloat\<close>: leading white space, an optional sign, then \<^verbatim>\<open>Infinity\<close> or the
  longest prefix that is a decimal literal; \<^verbatim>\<open>NaN\<close> when there is none.
\<close>

definition parseFloat :: "string \<Rightarrow> number" where
  "parseFloat s =
     (let s1 = dropWhile isSpace s;
          neg = startsWith s1 ''-'';
          s2 = (if startsWith s1 ''-'' \<or> startsWith s1 ''+'' then tl s1 else s1)
      in if startsWith s2 ''Infinity'' then (if neg then NegInfinity else PosInfinity)
         else
           (let ip = takeWhile isDigit s2;
                r1 = dropWhile isDigit s2;
                fp = (if startsWith r1 ''.'' then takeWhile isDigit (tl r1) else []);
                r2 = (if startsWith r1 ''.'' then dropWhile isDigit (tl r1) else r1)
            in if ip = [] \<and> fp = [] then NaN
               else
                 (let m = of_nat (digitsVal ip) + of_nat (digitsVal fp) / 10 ^ length fp;
                      v = m * pow10 (exponentPart r2)
                  in Num (if neg then - v else v))))"

text \<open>\<^verbatim>\<open>parseInt(s, 10)\<close>; \<open>None\<close> is \<^verbatim>\<open>NaN\<close>.\<close>

definition parseInt :: "string \<Rightarrow> int option" where
  "parseInt s =
     (let s1 = dropWhile isSpace s;
          neg = startsWith s1 ''-'';
          s2 = (if startsWith s1 ''-'' \<or> startsWith s1 ''+'' then tl s1 else s1);
          ds = takeWhile isDigit s2
      in if ds = [] then None
         else Some (if neg then - int (digitsVal ds) else int (digitsVal ds)))"

section \<open>The line parser (pages/BulkEntry/utils/parser.ts)\<close>

datatype EntryType = sale | expense | bill | payment

text \<open>
  The data of an entry, over the type of its amount: the parser produces JavaScript
  numbers; the store operations below are modelled for finite amounts, with exact arithmetic.
\<close>

record 'n EntryData =
  entry_id :: string
  date :: string
  amount :: 'n
  payment_mode :: "string option"
  party_name :: "string option"
  staff_name :: "string option"
  description :: "string option"
  billNumber :: "string option"
  hasGST :: nat
  expense_category :: "string option"

record 'n ParsedEntry =
  entry_type :: EntryType
  data :: "'n EntryData"

text \<open>An element of the list \<^verbatim>\<open>parseEntries\<close> returns.\<close>

datatype ParseResult = Entry "number ParsedEntry" | ParseError string string

definition STANDARD_EXPENSES :: "string list" where
  "STANDARD_EXPENSES =
     [''Home'', ''Rent'', ''Petty'', ''Food'', ''Poly'', ''GP'', ''Repair'', ''Labour'', ''Transport'']"

subsection \<open>Inline dates\<close>

text \<open>
  A regular expression is a matcher anchored at the head of its argument: it returns the
  captured group and the text after the match. \<^verbatim>\<open>\d{1,2}\<close> is always followed by a slash
  here, so taking the digits greedily loses no match.
\<close>

definition digits12 :: "string \<Rightarrow> (string \<times> string) option" where
  "digits12 s =
     (case s of
        [] \<Rightarrow> None
      | a # r \<Rightarrow>
          if \<not> isDigit a then None
          else (case r of
                  [] \<Rightarrow> Some ([a], [])
                | b # r' \<Rightarrow> if isDigit b then Some ([a, b], r') else Some ([a], r)))"

definition expect :: "char \<Rightarrow> string \<Rightarrow> string option" where
  "expect c s = (case s of [] \<Rightarrow> None | x # r \<Rightarrow> if x = c then Some r else None)"

text \<open>\<^verbatim>\<open>(\d{1,2}\/\d{1,2}\/\d{2})\)\<close>\<close>

definition dateCore :: "string \<Rightarrow> (string \<times> string) option" where
  "dateCore s =
     (case digits12 s of
        None \<Rightarrow> None
      | Some (d, r1) \<Rightarrow>
          (case expect (CHR ''/'') r1 of
             None \<Rightarrow> None
           | Some r2 \<Rightarrow>
               (case digits12 r2 of
                  None \<Rightarrow> None
                | Some (m, r3) \<Rightarrow>
                    (case expect (CHR ''/'') r3 of
                       None \<Rightarrow> None
                     | Some r4 \<Rightarrow>
                         (case r4 of
                            y1 # y2 # r5 \<Rightarrow>
                              if isDigit y1 \<and> isDigit y2 then
                                (case expect (CHR '')'') r5 of
                                   None \<Rightarrow> None
                                 | Some r6 \<Rightarrow> Some (d @ ''/'' @ m @ ''/'' @ [y1, y2], r6))
                              else None
                          | _ \<Rightarrow> None)))))"

text \<open>\<^verbatim>\<open>/\(date:\s*(\d{1,2}\/\d{1,2}\/\d{2})\)/\<close>\<close>

definition datePattern1 :: "string \<Rightarrow> (string \<times> string) option" where
  "datePattern1 s =
     (if startsWith s ''(date:'' then dateCore (dropWhile isSpace (drop 6 s)) else None)"

text \<open>\<^verbatim>\<open>/\((\d{1,2}\/\d{1,2}\/\d{2})\)/\<close>\<close>

definition datePattern2 :: "string \<Rightarrow> (string \<times> string) option" where
  "datePattern2 s = (if startsWith s ''('' then dateCore (drop 1 s) else None)"

definition datePatterns :: "(string \<Rightarrow> (string \<times> string) option) list" where
  "datePatterns = [datePattern1, datePattern2]"

text \<open>
  \<^verbatim>\<open>line.match(pattern)\<close>: the leftmost match, as the text before it, the captured group
  and the text after it.
\<close>

fun matchFirst ::
  "(string \<Rightarrow> (string \<times> string) option) \<Rightarrow> string \<Rightarrow> string \<Rightarrow> (string \<times> string \<times> string) option"
where
  "matchFirst p pre [] = (case p [] of Some (cap, post) \<Rightarrow> Some (rev pre, cap, post) | None \<Rightarrow> None)"
| "matchFirst p pre (c # cs) =
     (case p (c # cs) of
        Some (cap, post) \<Rightarrow> Some (rev pre, cap, post)
      | None \<Rightarrow> matchFirst p (c # pre) cs)"

text \<open>The first part of the date that \<^verbatim>\<open>parseInt\<close> does not read, if any.\<close>

fun firstNaNPart :: "string list \<Rightarrow> string option" where
  "firstNaNPart [] = None"
| "firstNaNPart (p # ps) = (if parseInt (trim p) = None then Some p else firstNaNPart ps)"

text \<open>\<^verbatim>\<open>!x\<close> on a destructured number: \<^verbatim>\<open>undefined\<close> and 0 are falsy.\<close>

definition falsyNum :: "int option \<Rightarrow> bool" where
  "falsyNum x = (x = None \<or> x = Some 0)"

definition nthOpt :: "int option list \<Rightarrow> nat \<Rightarrow> int option" where
  "nthOpt xs i = (if i < length xs then xs ! i else None)"

text \<open>\<^verbatim>\<open>formatDate\<close>; \<open>Inl\<close> is the message of the error it throws.\<close>

definition formatDate :: "string \<Rightarrow> string + string" where
  "formatDate d =
     (let cleanDate = trim d;
          parts = splitChar (CHR ''/'') cleanDate;
          pre = ''Invalid date format - use DD/MM/YY: ''
      in case firstNaNPart parts of
           Some part \<Rightarrow> Inl (pre @ ''Invalid date part: '' @ part)
         | None \<Rightarrow>
             (let nums = map (\<lambda>p. parseInt (trim p)) parts;
                  day = nthOpt nums 0; month = nthOpt nums 1; year = nthOpt nums 2
              in if falsyNum day \<or> falsyNum month \<or> falsyNum year then Inl (pre @ ''Missing date parts'')
                 else if the day < 1 \<or> the day > 31 then Inl (pre @ ''Invalid day'')
                 else if the month < 1 \<or> the month > 12 then Inl (pre @ ''Invalid month'')
                 else if the year < 0 \<or> the year > 99 then Inl (pre @ ''Invalid year'')
                 else Inr (''20'' @ padStart2 (toStr (nat (the year))) @ ''-''
                           @ padStart2 (toStr (nat (the month))) @ ''-''
                           @ padStart2 (toStr (nat (the day))))))"

text \<open>
  The loop over \<^verbatim>\<open>datePatterns\<close> in \<^verbatim>\<open>parseEntries\<close>: the result is
  \<^verbatim>\<open>(entryDate, lineWithoutDate)\<close>. An error of \<^verbatim>\<open>formatDate\<close> is caught and logged,
  and the loop goes on to the next pattern.
\<close>

fun extractDate ::
  "(string \<Rightarrow> (string \<times> string) option) list \<Rightarrow> string \<Rightarrow> string \<Rightarrow> string \<times> string"
where
  "extractDate [] selectedDate trimmedLine = (selectedDate, trimmedLine)"
| "extractDate (p # ps) selectedDate trimmedLine =
     (case matchFirst p [] trimmedLine of
        None \<Rightarrow> extractDate ps selectedDate trimmedLine
      | Some (before, cap, after) \<Rightarrow>
          (case formatDate cap of
             Inr d \<Rightarrow> (d, trim (before @ after))
           | Inl _ \<Rightarrow> extractDate ps selectedDate trimmedLine))"

subsection \<open>The entry shapes\<close>

text \<open>
  Each shape parser returns \<open>Inl\<close> with the message of the error it throws. The first
  argument is the value \<^verbatim>\<open>generateId()\<close> returns for this entry.
\<close>

text \<open>\<^verbatim>\<open>/^\d+\.$/.test(w)\<close>\<close>

definition isSaleNumber :: "string \<Rightarrow> bool" where
  "isSaleNumber w =
     (w \<noteq> [] \<and> last w = CHR ''.'' \<and> butlast w \<noteq> [] \<and> list_all isDigit (butlast w))"

text \<open>\<^verbatim>\<open>s.replace(/^\(|\)$/g, '')\<close>\<close>

definition stripOuterParens :: "string \<Rightarrow> string" where
  "stripOuterParens s =
     (let s1 = (case s of [] \<Rightarrow> [] | c # r \<Rightarrow> if c = CHR ''('' then r else s)
      in if s1 \<noteq> [] \<and> last s1 = CHR '')'' then butlast s1 else s1)"

text \<open>\<^verbatim>\<open>s.replace(/[()]/g, '')\<close>\<close>

definition removeParens :: "string \<Rightarrow> string" where
  "removeParens s = filter (\<lambda>c. c \<noteq> CHR ''('' \<and> c \<noteq> CHR '')'') s"

definition parseSaleEntry :: "string \<Rightarrow> string list \<Rightarrow> string \<Rightarrow> string + number ParsedEntry" where
  "parseSaleEntry newId parts entryDate =
     (if length parts < 2 then Inl ''Invalid sale entry format''
      else
        (let amt = parseFloat (parts ! 1)
         in if isNaN amt then Inl ''Invalid amount in sale entry''
            else
              (let mode = (if length parts > 2
                           then (if toLowerCase (parts ! 2) = ''net'' then ''digital'' else ''credit'')
                           else ''cash'');
                   pname = (if length parts > 2
                            then (if toLowerCase (parts ! 2) = ''net''
                                  then orNull (trim (join '' '' (drop 3 parts)))
                                  else orNull (trim (stripOuterParens (join '' '' (drop 2 parts)))))
                            else None)
               in Inr \<lparr>entry_type = sale,
                       data = \<lparr>entry_id = newId, date = entryDate, amount = amt,
                               payment_mode = Some mode, party_name = pname, staff_name = None,
                               description = None, billNumber = None, hasGST = 0,
                               expense_category = None\<rparr>\<rparr>)))"

text \<open>
  The scan for the amount in \<^verbatim>\<open>parseBillEntry\<close>, from index \<open>i\<close>: the first part
  without a slash that \<^verbatim>\<open>parseFloat\<close> reads. \<open>None\<close> is \<^verbatim>\<open>amountIndex === -1\<close>.
\<close>

fun findAmount :: "nat \<Rightarrow> string list \<Rightarrow> (nat \<times> number) option" where
  "findAmount i [] = None"
| "findAmount i (p # ps) =
     (if \<not> includesStr p ''/'' \<and> \<not> isNaN (parseFloat p) then Some (i, parseFloat p)
      else findAmount (Suc i) ps)"

text \<open>\<^verbatim>\<open>xs.findIndex(f)\<close>; \<open>None\<close> is \<^verbatim>\<open>-1\<close>.\<close>

fun findIndex :: "('a \<Rightarrow> bool) \<Rightarrow> 'a list \<Rightarrow> nat option" where
  "findIndex f [] = None"
| "findIndex f (x # xs) =
     (if f x then Some 0 else (case findIndex f xs of None \<Rightarrow> None | Some i \<Rightarrow> Some (Suc i)))"

definition parseBillEntry :: "string \<Rightarrow> string list \<Rightarrow> string \<Rightarrow> string \<Rightarrow> string + number ParsedEntry" where
  "parseBillEntry newId parts entryDate line =
     (if length parts < 2 then Inl ''Invalid bill entry format''
      else
        (case findAmount 1 (drop 1 parts) of
           None \<Rightarrow> Inl ''Invalid amount in bill entry''
         | Some (amountIndex, amt) \<Rightarrow>
             (let billNo = (if amountIndex > 1
                            then Some (trim (removeParens (join '' '' (take (amountIndex - 1) (drop 1 parts)))))
                            else None);
                  remainingParts = drop (amountIndex + 1) parts;
                  descr = (if amountIndex < length parts - 1
                           then (case findIndex (\<lambda>p. toUpperCase p = ''GR'') remainingParts of
                                   None \<Rightarrow> None
                                 | Some grIndex \<Rightarrow>
                                     if grIndex + 1 < length remainingParts
                                     then Some (''GR '' @ remainingParts ! (grIndex + 1))
                                     else None)
                           else None);
                  gst = (if amountIndex < length parts - 1
                         then (if list_ex (\<lambda>p. toUpperCase p = ''GST'') remainingParts then 1 else 0)
                         else 0)
              in Inr \<lparr>entry_type = bill,
                      data = \<lparr>entry_id = newId, date = entryDate, amount = amt,
                              payment_mode = None, party_name = Some (trim (parts ! 0)),
                              staff_name = None, description = descr, billNumber = billNo,
                              hasGST = gst, expense_category = None\<rparr>\<rparr>)))"

definition expenseCategoryOf :: "string \<Rightarrow> string" where
  "expenseCategoryOf d =
     (if d = ''gp'' then ''goods_purchase''
      else if d = ''home'' then ''home''
      else if d = ''rent'' then ''rent''
      else if d = ''petty'' then ''petty''
      else if d = ''poly'' then ''poly''
      else if d = ''food'' then ''food''
      else ''petty'')"

definition parseExpenseEntry :: "string \<Rightarrow> string list \<Rightarrow> string \<Rightarrow> string \<Rightarrow> string + number ParsedEntry" where
  "parseExpenseEntry newId parts entryDate line =
     (if length parts < 2 then Inl ''Invalid expense entry format''
      else
        (let amt = parseFloat (parts ! 1)
         in if isNaN amt then Inl ''Invalid amount in expense entry''
            else
              (let descr = toLowerCase (parts ! 0)
               in Inr \<lparr>entry_type = expense,
                       data = \<lparr>entry_id = newId, date = entryDate, amount = amt,
                               payment_mode = None, party_name = None, staff_name = None,
                               description = Some descr, billNumber = None,
                               hasGST = (if includesStr (toUpperCase line) ''GST'' then 1 else 0),
                               expense_category = Some (expenseCategoryOf descr)\<rparr>\<rparr>)))"

definition parseStaffExpenseEntry :: "string \<Rightarrow> string list \<Rightarrow> string \<Rightarrow> string + number ParsedEntry" where
  "parseStaffExpenseEntry newId parts entryDate =
     (if length parts < 3 then Inl ''Invalid staff expense format''
      else
        (let amt = parseFloat (parts ! 2);
             cat = (if toLowerCase (parts ! 1) = ''sal'' then ''salary'' else ''advance'')
         in if isNaN amt then Inl ''Invalid amount in staff expense''
            else Inr \<lparr>entry_type = expense,
                      data = \<lparr>entry_id = newId, date = entryDate, amount = amt,
                              payment_mode = None, party_name = None,
                              staff_name = Some (parts ! 0), description = Some cat,
                              billNumber = None, hasGST = 0, expense_category = Some cat\<rparr>\<rparr>))"

definition parsePartyPaymentEntry ::
  "string \<Rightarrow> string list \<Rightarrow> string \<Rightarrow> string \<Rightarrow> string + number ParsedEntry"
where
  "parsePartyPaymentEntry newId parts entryDate line =
     (if length parts < 3 then Inl ''Invalid party payment format''
      else
        (let amt = parseFloat (parts ! 1)
         in if isNaN amt then Inl ''Invalid amount in party payment''
            else
              (let descr =
                     (case findIndex (\<lambda>p. toLowerCase p = ''party'') parts of
                        None \<Rightarrow> None
                      | Some partyIndex \<Rightarrow>
                          if length parts > partyIndex + 1 then
                            (let nonGstParts =
                                   filter (\<lambda>p. toUpperCase p \<noteq> ''GST'') (drop (partyIndex + 1) parts)
                             in if length nonGstParts > 0 then Some (trim (join '' '' nonGstParts))
                                else None)
                          else None)
               in Inr \<lparr>entry_type = payment,
                       data = \<lparr>entry_id = newId, date = entryDate, amount = amt,
                               payment_mode = None, party_name = Some (parts ! 0),
                               staff_name = None, description = descr, billNumber = None,
                               hasGST = (if includesStr (toUpperCase line) ''GST'' then 1 else 0),
                               expense_category = Some ''party_payment''\<rparr>\<rparr>)))"

definition parseRandomExpenseEntry ::
  "string \<Rightarrow> string list \<Rightarrow> string \<Rightarrow> string \<Rightarrow> string + number ParsedEntry"
where
  "parseRandomExpenseEntry newId parts entryDate line =
     (if length parts < 2 then Inl ''Invalid expense format''
      else
        (let amt = parseFloat (parts ! 1)
         in if isNaN amt then Inl ''Invalid amount''
            else Inr \<lparr>entry_type = expense,
                      data = \<lparr>entry_id = newId, date = entryDate, amount = amt,
                              payment_mode = None, party_name = None, staff_name = None,
                              description = Some (toLowerCase (parts ! 0)), billNumber = None,
                              hasGST = (if includesStr (toUpperCase line) ''GST'' then 1 else 0),
                              expense_category = Some ''petty''\<rparr>\<rparr>))"

subsection \<open>Dispatch and the batch loop\<close>

text \<open>
  The chain of conditions in the body of the loop of \<^verbatim>\<open>parseEntries\<close>:
  \<open>Inr None\<close> is \<^verbatim>\<open>entry === null\<close>, \<open>Inl\<close> an error thrown by a shape parser.
\<close>

definition dispatch :: "string \<Rightarrow> string list \<Rightarrow> string \<Rightarrow> string \<Rightarrow> string + number ParsedEntry option" where
  "dispatch newId parts entryDate lineWithoutDate =
     (let firstWord = (case parts of [] \<Rightarrow> [] | w # _ \<Rightarrow> w)
      in if isSaleNumber firstWord then map_sum (\<lambda>m. m) Some (parseSaleEntry newId parts entryDate)
         else if length parts > 2
                 \<and> (toLowerCase (parts ! 1) = ''sal'' \<or> toLowerCase (parts ! 1) = ''adv'')
           then map_sum (\<lambda>m. m) Some (parseStaffExpenseEntry newId parts entryDate)
         else if length parts \<ge> 3 \<and> toLowerCase (parts ! 2) = ''party''
           then map_sum (\<lambda>m. m) Some (parsePartyPaymentEntry newId parts entryDate lineWithoutDate)
         else if length parts \<ge> 2 then
           (if firstWord \<in> set STANDARD_EXPENSES
            then map_sum (\<lambda>m. m) Some (parseExpenseEntry newId parts entryDate lineWithoutDate)
            else if list_ex (\<lambda>part. \<not> isNaN (parseFloat part)) parts
            then map_sum (\<lambda>m. m) Some (parseBillEntry newId parts entryDate lineWithoutDate)
            else map_sum (\<lambda>m. m) Some (parseRandomExpenseEntry newId parts entryDate lineWithoutDate))
         else Inr None)"

text \<open>One iteration of the loop, with its \<^verbatim>\<open>try\<close>/\<^verbatim>\<open>catch\<close>, for a trimmed non-empty line.\<close>

definition parseLine :: "string \<Rightarrow> string \<Rightarrow> string \<Rightarrow> ParseResult" where
  "parseLine newId selectedDate trimmedLine =
     (let (entryDate, lineWithoutDate) = extractDate datePatterns selectedDate trimmedLine;
          parts = splitWs lineWithoutDate
      in case dispatch newId parts entryDate lineWithoutDate of
           Inl msg \<Rightarrow> ParseError msg trimmedLine
         | Inr None \<Rightarrow> ParseError ''Unrecognized entry format'' trimmedLine
         | Inr (Some e) \<Rightarrow> Entry e)"

text \<open>
  The loop of \<^verbatim>\<open>parseEntries\<close> with its accumulator \<^verbatim>\<open>entries\<close>. \<open>gen k\<close> is the
  value \<^verbatim>\<open>generateId()\<close> returns while the \<open>k\<close>-th processed line is parsed (each line
  calls it at most once).
\<close>

fun parseLoop :: "(nat \<Rightarrow> string) \<Rightarrow> string \<Rightarrow> nat \<Rightarrow> string list \<Rightarrow> ParseResult list \<Rightarrow> ParseResult list"
where
  "parseLoop gen selectedDate k [] entries = entries"
| "parseLoop gen selectedDate k (line # rest) entries =
     (let trimmedLine = trim line
      in if trimmedLine = [] then parseLoop gen selectedDate k rest entries
         else parseLoop gen selectedDate (Suc k) rest
                (entries @ [parseLine (gen k) selectedDate trimmedLine]))"

definition parseEntries :: "(nat \<Rightarrow> string) \<Rightarrow> string \<Rightarrow> string \<Rightarrow> ParseResult list" where
  "parseEntries gen text selectedDate =
     parseLoop gen selectedDate 0 (filter (\<lambda>line. trim line \<noteq> []) (splitChar (CHR 0x0A) text)) []"

text \<open>
  The condition under which the chain of \<open>dispatch\<close> reaches \<^verbatim>\<open>parseBillEntry\<close>:
  no earlier rule matches and some part reads as a number.
\<close>

definition billDispatched :: "string list \<Rightarrow> bool" where
  "billDispatched parts =
     (length parts \<ge> 2 \<and> \<not> isSaleNumber (parts ! 0)
      \<and> \<not> (length parts > 2 \<and> (toLowerCase (parts ! 1) = ''sal'' \<or> toLowerCase (parts ! 1) = ''adv''))
      \<and> \<not> (length parts \<ge> 3 \<and> toLowerCase (parts ! 2) = ''party'')
      \<and> parts ! 0 \<notin> set STANDARD_EXPENSES
      \<and> list_ex (\<lambda>part. \<not> isNaN (parseFloat part)) parts)"

section \<open>The store (lib/db)\<close>

text \<open>
  The tables of the SQLite schema that the ledger code reads and writes, with the columns it
  uses. A table is the list of its rows in insertion order. Amounts and balances are exact
  rationals. \<open>created_at\<close> and the clock \<open>now\<close> count seconds; the text timestamps of
  SQLite are ordered the same way. The column \<^verbatim>\<open>updated_at\<close> is written but never
  read by this code, and is left out.
\<close>

record Party =
  p_id :: string
  p_name :: string
  credit_limit :: rat
  current_balance :: rat

record Staff =
  s_id :: string
  s_name :: string
  current_advance :: rat

record Transaction =
  tx_id :: string
  tx_date :: string
  tx_type :: EntryType
  tx_amount :: rat
  tx_payment_mode :: "string option"
  tx_expense_category :: "string option"
  has_gst :: nat
  bill_number :: "string option"
  tx_description :: "string option"
  party_id :: "string option"
  staff_id :: "string option"
  running_balance :: "rat option"
  created_at :: nat

text \<open>
  \<open>snapshot\<close> holds the tables as they were at \<^verbatim>\<open>BEGIN TRANSACTION\<close> while a
  transaction is open. \<open>now\<close> is the value of \<^verbatim>\<open>CURRENT_TIMESTAMP\<close>, taken as constant
  during one operation.
\<close>

record Store =
  parties :: "Party list"
  staff :: "Staff list"
  transactions :: "Transaction list"
  snapshot :: "(Party list \<times> Staff list \<times> Transaction list) option"
  now :: nat

datatype DbError = InvalidDateFormat | ConstraintFailed | NoTransaction | NestedTransaction

definition begin_transaction :: "Store \<Rightarrow> DbError + Store" where
  "begin_transaction s =
     (case snapshot s of
        Some _ \<Rightarrow> Inl NestedTransaction
      | None \<Rightarrow> Inr (s\<lparr>snapshot := Some (parties s, staff s, transactions s)\<rparr>))"

definition commit :: "Store \<Rightarrow> DbError + Store" where
  "commit s = (case snapshot s of None \<Rightarrow> Inl NoTransaction | Some _ \<Rightarrow> Inr (s\<lparr>snapshot := None\<rparr>))"

definition rollback :: "Store \<Rightarrow> DbError + Store" where
  "rollback s =
     (case snapshot s of
        None \<Rightarrow> Inl NoTransaction
      | Some (ps, st, ts) \<Rightarrow>
          Inr (s\<lparr>parties := ps, staff := st, transactions := ts, snapshot := None\<rparr>))"

text \<open>
  The \<^verbatim>\<open>catch\<close> block of an operation: \<^verbatim>\<open>ROLLBACK\<close>, then the error is thrown
  again. The result of an operation is what it returns or throws, with the store it leaves.
\<close>

definition rollbackAndThrow :: "DbError \<Rightarrow> Store \<Rightarrow> (DbError + 'a) \<times> Store" where
  "rollbackAndThrow e s = (case rollback s of Inl e' \<Rightarrow> (Inl e', s) | Inr s' \<Rightarrow> (Inl e, s'))"

text \<open>\<^verbatim>\<open>INSERT INTO transactions\<close>: \<^verbatim>\<open>id\<close> is the primary key.\<close>

definition insertTransaction :: "Transaction \<Rightarrow> Store \<Rightarrow> DbError + Store" where
  "insertTransaction row s =
     (if tx_id row \<in> set (map tx_id (transactions s)) then Inl ConstraintFailed
      else Inr (s\<lparr>transactions := transactions s @ [row]\<rparr>))"

text \<open>\<^verbatim>\<open>INSERT INTO parties (id, name)\<close>: the other columns take their defaults.\<close>

definition insertParty :: "string \<Rightarrow> string \<Rightarrow> Store \<Rightarrow> DbError + Store" where
  "insertParty newId nm s =
     (if newId \<in> set (map p_id (parties s)) then Inl ConstraintFailed
      else Inr (s\<lparr>parties := parties s
                   @ [\<lparr>p_id = newId, p_name = nm, credit_limit = 0, current_balance = 0\<rparr>]\<rparr>))"

text \<open>\<^verbatim>\<open>UPDATE parties SET current_balance = current_balance + ? WHERE id = ?\<close>\<close>

definition addToBalance :: "string \<Rightarrow> rat \<Rightarrow> Store \<Rightarrow> Store" where
  "addToBalance pid x s =
     s\<lparr>parties := map (\<lambda>p. if p_id p = pid then p\<lparr>current_balance := current_balance p + x\<rparr> else p)
                       (parties s)\<rparr>"

text \<open>\<^verbatim>\<open>UPDATE parties SET current_balance = ? WHERE id = ?\<close>\<close>

definition setBalance :: "string \<Rightarrow> rat \<Rightarrow> Store \<Rightarrow> Store" where
  "setBalance pid x s =
     s\<lparr>parties := map (\<lambda>p. if p_id p = pid then p\<lparr>current_balance := x\<rparr> else p) (parties s)\<rparr>"

text \<open>\<^verbatim>\<open>UPDATE staff SET current_advance = current_advance + ? WHERE id = ?\<close>\<close>

definition addToAdvance :: "string \<Rightarrow> rat \<Rightarrow> Store \<Rightarrow> Store" where
  "addToAdvance sid x s =
     s\<lparr>staff := map (\<lambda>m. if s_id m = sid then m\<lparr>current_advance := current_advance m + x\<rparr> else m)
                     (staff s)\<rparr>"

text \<open>\<^verbatim>\<open>UPDATE transactions SET running_balance = ? WHERE id = ?\<close>\<close>

definition setRunningBalance :: "string \<Rightarrow> rat \<Rightarrow> Transaction list \<Rightarrow> Transaction list" where
  "setRunningBalance i x ts =
     map (\<lambda>t. if tx_id t = i then t\<lparr>running_balance := Some x\<rparr> else t) ts"

text \<open>A value used as a condition, or in \<^verbatim>\<open>x || null\<close>: the empty string counts as absent.\<close>

definition truthy :: "string option \<Rightarrow> string option" where
  "truthy x = (case x of None \<Rightarrow> None | Some v \<Rightarrow> if v = [] then None else Some v)"

section \<open>Ledger operations (lib/db/operations.ts)\<close>

text \<open>\<^verbatim>\<open>/^\d{4}-\d{2}-\d{2}$/\<close>\<close>

definition isSQLDate :: "string \<Rightarrow> bool" where
  "isSQLDate d =
     (length d = 10 \<and> list_all isDigit (take 4 d) \<and> d ! 4 = CHR ''-''
      \<and> list_all isDigit (take 2 (drop 5 d)) \<and> d ! 7 = CHR ''-''
      \<and> list_all isDigit (drop 8 d))"

definition convertToSQLDate :: "string \<Rightarrow> DbError + string" where
  "convertToSQLDate d =
     (if isSQLDate d then Inr d
      else (case splitChar (CHR ''/'') d of
              [day, month, year] \<Rightarrow>
                Inr (''20'' @ trim year @ ''-'' @ padStart2 (trim month) @ ''-'' @ padStart2 (trim day))
            | _ \<Rightarrow> Inl InvalidDateFormat))"

text \<open>
  The kind of a stored row as the query of \<^verbatim>\<open>checkDuplicateTransaction\<close> tests it:
  \<^verbatim>\<open>(type = 'expense' AND expense_category = 'party_payment') OR (type = ?)\<close>.
\<close>

definition typeClause :: "EntryType \<Rightarrow> Transaction \<Rightarrow> bool" where
  "typeClause ty t =
     ((tx_type t = expense \<and> tx_expense_category t = Some ''party_payment'') \<or> tx_type t = ty)"

text \<open>The condition on \<^verbatim>\<open>bill_number\<close> that is appended to the query.\<close>

definition billClause :: "EntryType \<Rightarrow> string option \<Rightarrow> Transaction \<Rightarrow> bool" where
  "billClause ty billNo t =
     (if ty = bill \<and> truthy billNo \<noteq> None then (bill_number t = billNo \<or> bill_number t = None)
      else if ty = bill then bill_number t = None
      else True)"

text \<open>\<^verbatim>\<open>created_at >= datetime("now", "-1 day")\<close>\<close>

definition inWindow :: "Store \<Rightarrow> Transaction \<Rightarrow> bool" where
  "inWindow s t = (now s \<le> created_at t + 86400)"

definition checkDuplicateTransaction ::
  "Store \<Rightarrow> string option \<Rightarrow> string \<Rightarrow> rat \<Rightarrow> EntryType \<Rightarrow> string option \<Rightarrow> DbError + bool"
where
  "checkDuplicateTransaction s partyId d amt ty billNo =
     (case truthy partyId of
        None \<Rightarrow> Inr False
      | Some pid \<Rightarrow>
          (case convertToSQLDate d of
             Inl e \<Rightarrow> Inl e
           | Inr sqlDate \<Rightarrow>
               Inr (filter (\<lambda>t. party_id t = Some pid \<and> tx_date t = sqlDate \<and> tx_amount t = amt
                                \<and> typeClause ty t \<and> billClause ty billNo t \<and> inWindow s t)
                      (transactions s) \<noteq> [])))"

text \<open>
  The query of \<^verbatim>\<open>recalculatePartyBalance\<close>: the bills and party payments of the party,
  \<^verbatim>\<open>ORDER BY date ASC, created_at ASC\<close>, as rows
  \<^verbatim>\<open>(id, type, amount, expense_category)\<close>. Rows that agree on both keys keep their
  table order.
\<close>

definition isLedgerRow :: "string \<Rightarrow> Transaction \<Rightarrow> bool" where
  "isLedgerRow pid t =
     (party_id t = Some pid
      \<and> (tx_type t = bill \<or> (tx_type t = expense \<and> tx_expense_category t = Some ''party_payment'')))"

definition selectLedger :: "string \<Rightarrow> Transaction list \<Rightarrow> (string \<times> EntryType \<times> rat \<times> string option) list" where
  "selectLedger pid ts =
     map (\<lambda>t. (tx_id t, tx_type t, tx_amount t, tx_expense_category t))
       (sort_key (\<lambda>t. (tx_date t, created_at t)) (filter (isLedgerRow pid) ts))"

text \<open>One step of the accumulator \<^verbatim>\<open>runningBalance\<close>.\<close>

definition stepBalance :: "rat \<Rightarrow> EntryType \<times> rat \<times> string option \<Rightarrow> rat" where
  "stepBalance rb r =
     (case r of (ty, amt, cat) \<Rightarrow>
        if ty = bill then rb + amt
        else if ty = expense \<and> cat = Some ''party_payment'' then rb - amt
        else rb)"

text \<open>The loop over the selected rows: it returns the final accumulator and the table.\<close>

fun recalcLoop ::
  "(string \<times> EntryType \<times> rat \<times> string option) list \<Rightarrow> rat \<Rightarrow> Transaction list
     \<Rightarrow> rat \<times> Transaction list"
where
  "recalcLoop [] runningBalance ts = (runningBalance, ts)"
| "recalcLoop ((i, r) # rows) runningBalance ts =
     recalcLoop rows (stepBalance runningBalance r) (setRunningBalance i (stepBalance runningBalance r) ts)"

definition recalculatePartyBalance :: "string \<Rightarrow> Store \<Rightarrow> rat \<times> Store" where
  "recalculatePartyBalance partyId s =
     (let rows = selectLedger partyId (transactions s)
      in if rows = [] then (0, s)
         else (case recalcLoop rows 0 (transactions s) of
                 (runningBalance, ts) \<Rightarrow>
                   (runningBalance, setBalance partyId runningBalance (s\<lparr>transactions := ts\<rparr>))))"

text \<open>
  The comparator of the sort in \<^verbatim>\<open>processBulkEntries\<close> converts both dates, so with two
  or more entries an entry whose date does not convert makes the sort throw. \<open>getTime\<close>
  stands for \<^verbatim>\<open>new Date(d).getTime()\<close>; the sort is stable.
\<close>

definition sortEntries :: "(string \<Rightarrow> int) \<Rightarrow> rat ParsedEntry list \<Rightarrow> DbError + rat ParsedEntry list" where
  "sortEntries getTime entries =
     (if length entries \<ge> 2 \<and> list_ex (\<lambda>e. isl (convertToSQLDate (date (data e)))) entries
      then Inl InvalidDateFormat
      else Inr (sort_key (\<lambda>e. case convertToSQLDate (date (data e)) of
                                 Inr d \<Rightarrow> getTime d | Inl _ \<Rightarrow> 0) entries))"

text \<open>
  The body of the loop of \<^verbatim>\<open>processBulkEntries\<close>. \<open>gen k\<close> is the \<open>k\<close>-th value of
  \<^verbatim>\<open>generateId()\<close>; the step returns the number of values drawn so far.
\<close>

definition bulkStep ::
  "(nat \<Rightarrow> string) \<Rightarrow> nat \<Rightarrow> string option \<Rightarrow> rat ParsedEntry \<Rightarrow> Store \<Rightarrow> (DbError + nat) \<times> Store"
where
  "bulkStep gen k partyId entry s =
     (case checkDuplicateTransaction s (truthy partyId) (date (data entry)) (amount (data entry))
             (entry_type entry) (billNumber (data entry)) of
        Inl e \<Rightarrow> (Inl e, s)
      | Inr isDuplicate \<Rightarrow>
          if isDuplicate then (Inr k, s)
          else
            (case convertToSQLDate (date (data entry)) of
               Inl e \<Rightarrow> (Inl e, s)
             | Inr sqlDate \<Rightarrow>
                 if entry_type entry = payment then
                   (case insertTransaction
                           \<lparr>tx_id = gen k, tx_date = sqlDate, tx_type = expense,
                            tx_amount = amount (data entry), tx_payment_mode = None,
                            tx_expense_category = Some ''party_payment'',
                            has_gst = (if hasGST (data entry) \<noteq> 0 then 1 else 0),
                            bill_number = None,
                            tx_description = truthy (description (data entry)),
                            party_id = truthy partyId, staff_id = None,
                            running_balance = None, created_at = now s\<rparr> s of
                      Inl e \<Rightarrow> (Inl e, s)
                    | Inr s1 \<Rightarrow>
                        (Inr (Suc k),
                         (case truthy partyId of
                            Some pid \<Rightarrow> addToBalance pid (- amount (data entry)) s1
                          | None \<Rightarrow> s1)))
                 else if entry_type entry = bill then
                   (case insertTransaction
                           \<lparr>tx_id = gen k, tx_date = sqlDate, tx_type = bill,
                            tx_amount = amount (data entry), tx_payment_mode = None,
                            tx_expense_category = None,
                            has_gst = (if hasGST (data entry) \<noteq> 0 then 1 else 0),
                            bill_number = truthy (billNumber (data entry)),
                            tx_description = truthy (description (data entry)),
                            party_id = truthy partyId, staff_id = None,
                            running_balance = None, created_at = now s\<rparr> s of
                      Inl e \<Rightarrow> (Inl e, s)
                    | Inr s1 \<Rightarrow>
                        (Inr (Suc k),
                         (case truthy partyId of
                            Some pid \<Rightarrow> addToBalance pid (amount (data entry)) s1
                          | None \<Rightarrow> s1)))
                 else (Inr k, s)))"

fun bulkLoop ::
  "(nat \<Rightarrow> string) \<Rightarrow> nat \<Rightarrow> string option \<Rightarrow> rat ParsedEntry list \<Rightarrow> Store \<Rightarrow> (DbError + nat) \<times> Store"
where
  "bulkLoop gen k partyId [] s = (Inr k, s)"
| "bulkLoop gen k partyId (entry # rest) s =
     (case bulkStep gen k partyId entry s of
        (Inl e, s1) \<Rightarrow> (Inl e, s1)
      | (Inr k1, s1) \<Rightarrow> bulkLoop gen k1 partyId rest s1)"

definition processBulkEntries ::
  "(string \<Rightarrow> int) \<Rightarrow> (nat \<Rightarrow> string) \<Rightarrow> string option \<Rightarrow> rat ParsedEntry list \<Rightarrow> Store
     \<Rightarrow> (DbError + unit) \<times> Store"
where
  "processBulkEntries getTime gen partyId entries s =
     (case begin_transaction s of
        Inl e \<Rightarrow> (Inl e, s)
      | Inr s0 \<Rightarrow>
          (case sortEntries getTime entries of
             Inl e \<Rightarrow> rollbackAndThrow e s0
           | Inr sortedEntries \<Rightarrow>
               (case bulkLoop gen 0 partyId sortedEntries s0 of
                  (Inl e, s1) \<Rightarrow> rollbackAndThrow e s1
                | (Inr _, s1) \<Rightarrow>
                    (let s2 = (case truthy partyId of
                                 Some pid \<Rightarrow> snd (recalculatePartyBalance pid s1)
                               | None \<Rightarrow> s1)
                     in case commit s2 of
                          Inl e \<Rightarrow> rollbackAndThrow e s2
                        | Inr s3 \<Rightarrow> (Inr (), s3)))))"

section \<open>Applying a batch (pages/BulkEntry/index.tsx)\<close>

text \<open>
  The party lookup of \<^verbatim>\<open>handleSubmit\<close>: \<^verbatim>\<open>SELECT id FROM parties WHERE name = ?\<close>
  compares the names as they are; when no row matches, a party is inserted under \<open>newId\<close>.
\<close>

definition resolveParty :: "string \<Rightarrow> string option \<Rightarrow> Store \<Rightarrow> (DbError + string option) \<times> Store" where
  "resolveParty newId pname s =
     (case truthy pname of
        None \<Rightarrow> (Inr None, s)
      | Some nm \<Rightarrow>
          (case find (\<lambda>p. p_name p = nm) (parties s) of
             Some p \<Rightarrow> (Inr (Some (p_id p)), s)
           | None \<Rightarrow>
               (case insertParty newId nm s of
                  Inl e \<Rightarrow> (Inl e, s)
                | Inr s1 \<Rightarrow> (Inr (Some newId), s1))))"

text \<open>
  The party lookup of \<^verbatim>\<open>handleAddSale\<close> in pages/Sales.tsx:
  \<^verbatim>\<open>SELECT id FROM parties WHERE LOWER(name) = LOWER(?)\<close>.
\<close>

definition lookupPartySales :: "string \<Rightarrow> Store \<Rightarrow> string option" where
  "lookupPartySales nm s =
     map_option p_id (find (\<lambda>p. toLowerCase (p_name p) = toLowerCase nm) (parties s))"

text \<open>\<^verbatim>\<open>SELECT id FROM staff WHERE name = ?\<close>: a missing staff member is not created.\<close>

definition resolveStaff :: "string option \<Rightarrow> Store \<Rightarrow> string option" where
  "resolveStaff sname s =
     (case truthy sname of
        None \<Rightarrow> None
      | Some nm \<Rightarrow> map_option s_id (find (\<lambda>m. s_name m = nm) (staff s)))"

definition processSaleEntry :: "rat ParsedEntry \<Rightarrow> string option \<Rightarrow> Store \<Rightarrow> DbError + Store" where
  "processSaleEntry entry partyId s =
     (case insertTransaction
             \<lparr>tx_id = entry_id (data entry), tx_date = date (data entry), tx_type = sale,
              tx_amount = amount (data entry),
              tx_payment_mode = truthy (payment_mode (data entry)),
              tx_expense_category = None, has_gst = 0, bill_number = None, tx_description = None,
              party_id = partyId, staff_id = None, running_balance = None, created_at = now s\<rparr> s of
        Inl e \<Rightarrow> Inl e
      | Inr s1 \<Rightarrow>
          (case truthy partyId of
             Some pid \<Rightarrow>
               if payment_mode (data entry) = Some ''credit''
               then Inr (addToBalance pid (amount (data entry)) s1) else Inr s1
           | None \<Rightarrow> Inr s1))"

definition getExpenseCategory :: "string option \<Rightarrow> string" where
  "getExpenseCategory d =
     (case truthy d of
        None \<Rightarrow> ''petty''
      | Some x \<Rightarrow>
          (let category = toLowerCase x
           in if category = ''goods_purchase'' \<or> category = ''gp'' then ''goods_purchase''
              else if category = ''salary'' then ''salary''
              else if category = ''advance'' then ''advance''
              else if category = ''home'' then ''home''
              else if category = ''rent'' then ''rent''
              else if category = ''petty'' then ''petty''
              else if category = ''poly'' then ''poly''
              else if category = ''food'' then ''food''
              else ''petty''))"

definition processExpenseEntry ::
  "rat ParsedEntry \<Rightarrow> string option \<Rightarrow> string option \<Rightarrow> Store \<Rightarrow> DbError + Store"
where
  "processExpenseEntry entry staffId partyId s =
     (let expenseCategory = getExpenseCategory (description (data entry))
      in case insertTransaction
                \<lparr>tx_id = entry_id (data entry), tx_date = date (data entry), tx_type = expense,
                 tx_amount = amount (data entry), tx_payment_mode = None,
                 tx_expense_category = Some expenseCategory,
                 has_gst = (if hasGST (data entry) \<noteq> 0 then 1 else 0), bill_number = None,
                 tx_description = truthy (description (data entry)),
                 party_id = None, staff_id = staffId, running_balance = None,
                 created_at = now s\<rparr> s of
           Inl e \<Rightarrow> Inl e
         | Inr s1 \<Rightarrow>
             (case truthy staffId of
                Some sid \<Rightarrow>
                  if expenseCategory = ''advance''
                  then Inr (addToAdvance sid (amount (data entry)) s1) else Inr s1
              | None \<Rightarrow> Inr s1))"

definition processBillEntry :: "rat ParsedEntry \<Rightarrow> string option \<Rightarrow> Store \<Rightarrow> DbError + Store" where
  "processBillEntry entry partyId s =
     (case insertTransaction
             \<lparr>tx_id = entry_id (data entry), tx_date = date (data entry), tx_type = bill,
              tx_amount = amount (data entry), tx_payment_mode = None,
              tx_expense_category = None,
              has_gst = (if hasGST (data entry) \<noteq> 0 then 1 else 0),
              bill_number = truthy (billNumber (data entry)),
              tx_description = truthy (description (data entry)),
              party_id = partyId, staff_id = None, running_balance = None, created_at = now s\<rparr> s of
        Inl e \<Rightarrow> Inl e
      | Inr s1 \<Rightarrow>
          (case truthy partyId of
             Some pid \<Rightarrow> Inr (addToBalance pid (amount (data entry)) s1)
           | None \<Rightarrow> Inr s1))"

definition processPaymentEntry :: "rat ParsedEntry \<Rightarrow> string option \<Rightarrow> Store \<Rightarrow> DbError + Store" where
  "processPaymentEntry entry partyId s =
     (case insertTransaction
             \<lparr>tx_id = entry_id (data entry), tx_date = date (data entry), tx_type = expense,
              tx_amount = amount (data entry), tx_payment_mode = None,
              tx_expense_category = Some ''party_payment'',
              has_gst = (if hasGST (data entry) \<noteq> 0 then 1 else 0), bill_number = None,
              tx_description = truthy (description (data entry)),
              party_id = partyId, staff_id = None, running_balance = None, created_at = now s\<rparr> s of
        Inl e \<Rightarrow> Inl e
      | Inr s1 \<Rightarrow>
          (case truthy partyId of
             Some pid \<Rightarrow> Inr (addToBalance pid (- amount (data entry)) s1)
           | None \<Rightarrow> Inr s1))"

text \<open>The \<^verbatim>\<open>switch\<close> on the type of the entry.\<close>

definition processEntry ::
  "rat ParsedEntry \<Rightarrow> string option \<Rightarrow> string option \<Rightarrow> Store \<Rightarrow> DbError + Store"
where
  "processEntry entry staffId partyId s =
     (case entry_type entry of
        sale \<Rightarrow> processSaleEntry entry partyId s
      | expense \<Rightarrow> processExpenseEntry entry staffId partyId s
      | bill \<Rightarrow> processBillEntry entry partyId s
      | payment \<Rightarrow> processPaymentEntry entry partyId s)"

text \<open>
  The body of the loop of \<^verbatim>\<open>handleSubmit\<close> for one entry; \<open>newId\<close> is the id a new
  party would get.
\<close>

definition submitStep :: "string \<Rightarrow> rat ParsedEntry \<Rightarrow> Store \<Rightarrow> (DbError + unit) \<times> Store" where
  "submitStep newId entry s =
     (case resolveParty newId (party_name (data entry)) s of
        (Inl e, s1) \<Rightarrow> (Inl e, s1)
      | (Inr partyId, s1) \<Rightarrow>
          (case processEntry entry (resolveStaff (staff_name (data entry)) s1) partyId s1 of
             Inl e \<Rightarrow> (Inl e, s1)
           | Inr s2 \<Rightarrow> (Inr (), s2)))"

fun submitLoop ::
  "(nat \<Rightarrow> string) \<Rightarrow> nat \<Rightarrow> rat ParsedEntry list \<Rightarrow> Store \<Rightarrow> (DbError + unit) \<times> Store"
where
  "submitLoop gen k [] s = (Inr (), s)"
| "submitLoop gen k (entry # rest) s =
     (case submitStep (gen k) entry s of
        (Inl e, s1) \<Rightarrow> (Inl e, s1)
      | (Inr _, s1) \<Rightarrow> submitLoop gen (Suc k) rest s1)"

text \<open>
  The transaction of \<^verbatim>\<open>handleSubmit\<close>, after the validation and duplicate gates: every
  entry is applied, then \<^verbatim>\<open>COMMIT\<close>; any error rolls back.
\<close>

definition submitEntries ::
  "(nat \<Rightarrow> string) \<Rightarrow> rat ParsedEntry list \<Rightarrow> Store \<Rightarrow> (DbError + unit) \<times> Store"
where
  "submitEntries gen validEntries s =
     (case begin_transaction s of
        Inl e \<Rightarrow> (Inl e, s)
      | Inr s0 \<Rightarrow>
          (case submitLoop gen 0 validEntries s0 of
             (Inl e, s1) \<Rightarrow> rollbackAndThrow e s1
           | (Inr _, s1) \<Rightarrow>
               (case commit s1 of
                  Inl e \<Rightarrow> rollbackAndThrow e s1
                | Inr s2 \<Rightarrow> (Inr (), s2))))"

section \<open>Notions used to state the properties\<close>

text \<open>
  The running balance that the loop of \<open>recalculatePartyBalance\<close> leaves on the rows
  whose id is \<open>i\<close>: the value of its last update of that id, if there is one.
\<close>

fun lastWrite :: "(string \<times> EntryType \<times> rat \<times> string option) list \<Rightarrow> rat \<Rightarrow> string \<Rightarrow> rat option" where
  "lastWrite [] rb i = None"
| "lastWrite ((j, r) # rows) rb i =
     (case lastWrite rows (stepBalance rb r) i of
        Some v \<Rightarrow> Some v
      | None \<Rightarrow> if i = j then Some (stepBalance rb r) else None)"

text \<open>
  A stored row of the kind of an entry: a Payment is stored as an expense of category
  \<open>party_payment\<close>, every other kind under its own type.
\<close>

definition sameKind :: "EntryType \<Rightarrow> Transaction \<Rightarrow> bool" where
  "sameKind ty t =
     (if ty = payment then tx_type t = expense \<and> tx_expense_category t = Some ''party_payment''
      else tx_type t = ty)"

text \<open>
  The duplicate policy in the words of the specification: a stored transaction of the same
  party, date, amount and kind, created within the window, and for a Bill with a bill
  number that matches the submitted one, or both absent.
\<close>

definition specDuplicate ::
  "Store \<Rightarrow> string option \<Rightarrow> string \<Rightarrow> rat \<Rightarrow> EntryType \<Rightarrow> string option \<Rightarrow> bool"
where
  "specDuplicate s partyId sqlDate amt ty billNo =
     (truthy partyId \<noteq> None
      \<and> list_ex (\<lambda>t. party_id t = truthy partyId \<and> tx_date t = sqlDate \<and> tx_amount t = amt
                      \<and> sameKind ty t \<and> inWindow s t
                      \<and> (if ty = bill then bill_number t = truthy billNo else True))
           (transactions s))"

text \<open>
  The adjustment of the balance of the party that the specification gives for an entry:
  the amount for a Bill, minus the amount for a Payment, the amount for a Sale on credit.
\<close>

definition balanceDelta :: "rat ParsedEntry \<Rightarrow> rat" where
  "balanceDelta entry =
     (case entry_type entry of
        bill \<Rightarrow> amount (data entry)
      | payment \<Rightarrow> - amount (data entry)
      | sale \<Rightarrow> if payment_mode (data entry) = Some ''credit'' then amount (data entry) else 0
      | expense \<Rightarrow> 0)"

text \<open>
  The row that stands for a Bill or a Payment entry of an import for the party \<open>partyId\<close>,
  created at the time \<open>created\<close>: a row of the kind of the entry, with the party, the
  amount, the converted date and the description of the entry, and for a Bill its bill
  number. The id and the running balance of the row are left open.
\<close>

definition postedRow :: "string option \<Rightarrow> nat \<Rightarrow> rat ParsedEntry \<Rightarrow> Transaction \<Rightarrow> bool" where
  "postedRow partyId created entry t =
     ((entry_type entry = bill \<or> entry_type entry = payment)
      \<and> sameKind (entry_type entry) t
      \<and> party_id t = truthy partyId
      \<and> tx_amount t = amount (data entry)
      \<and> convertToSQLDate (date (data entry)) = Inr (tx_date t)
      \<and> bill_number t = (if entry_type entry = bill then truthy (billNumber (data entry)) else None)
      \<and> tx_description t = truthy (description (data entry))
      \<and> created_at t = created)"

text \<open>
  A row that the duplicate check of an import for the party \<open>partyId\<close> matches against an
  entry, the window apart: the conditions of the query of \<open>checkDuplicateTransaction\<close> on
  the party, the amount, the date, the kind and the bill number.
\<close>

definition duplicateOf :: "string option \<Rightarrow> rat ParsedEntry \<Rightarrow> Transaction \<Rightarrow> bool" where
  "duplicateOf partyId entry t =
     (party_id t = truthy partyId
      \<and> tx_amount t = amount (data entry)
      \<and> convertToSQLDate (date (data entry)) = Inr (tx_date t)
      \<and> typeClause (entry_type entry) t
      \<and> billClause (entry_type entry) (billNumber (data entry)) t)"

section \<open>Properties of the parser\<close>

declare toStr.simps [simp del]

lemmas str_defs = startsWith_def isSpace_def isDigit_def digitsVal_def digitVal_def trim_def
  toLowerCase_def toUpperCase_def splitWs_def orNull_def padStart2_def
lemmas num_defs = parseFloat_def parseInt_def pow10_def exponentPart_def isNaN_def
lemmas date_defs = datePatterns_def datePattern1_def datePattern2_def dateCore_def digits12_def
  expect_def formatDate_def falsyNum_def nthOpt_def
lemmas shape_defs = dispatch_def isSaleNumber_def STANDARD_EXPENSES_def parseSaleEntry_def
  parseBillEntry_def parseExpenseEntry_def parseStaffExpenseEntry_def parsePartyPaymentEntry_def
  parseRandomExpenseEntry_def removeParens_def stripOuterParens_def expenseCategoryOf_def

lemma parseLoop_append:
  "parseLoop gen sel k ls acc =
     acc @ map (\<lambda>(i, l). parseLine (gen i) sel (trim l))
             (enumerate k (filter (\<lambda>l. trim l \<noteq> []) ls))"
  by (induction ls arbitrary: k acc) (simp_all add: Let_def)

lemma dispatch_unmatched:
  "\<not> isSaleNumber w \<Longrightarrow> dispatch newId [w] d l = Inr None"
  by (simp add: dispatch_def)

lemma findAmount_not_NaN: "findAmount i ps = Some (j, a) \<Longrightarrow> a \<noteq> NaN"
  by (induction ps arbitrary: i) (auto simp: isNaN_def split: if_splits)

lemma parseSaleEntry_amount: "parseSaleEntry n ps d = Inr e \<Longrightarrow> amount (data e) \<noteq> NaN"
  by (auto simp: parseSaleEntry_def Let_def isNaN_def split: if_splits)

lemma parseBillEntry_amount: "parseBillEntry n ps d l = Inr e \<Longrightarrow> amount (data e) \<noteq> NaN"
  by (auto simp: parseBillEntry_def Let_def split: if_splits option.splits dest: findAmount_not_NaN)

lemma parseExpenseEntry_amount: "parseExpenseEntry n ps d l = Inr e \<Longrightarrow> amount (data e) \<noteq> NaN"
  by (auto simp: parseExpenseEntry_def Let_def isNaN_def split: if_splits)

lemma parseStaffExpenseEntry_amount: "parseStaffExpenseEntry n ps d = Inr e \<Longrightarrow> amount (data e) \<noteq> NaN"
  by (auto simp: parseStaffExpenseEntry_def Let_def isNaN_def split: if_splits)

lemma parsePartyPaymentEntry_amount: "parsePartyPaymentEntry n ps d l = Inr e \<Longrightarrow> amount (data e) \<noteq> NaN"
  by (auto simp: parsePartyPaymentEntry_def Let_def isNaN_def split: if_splits)

lemma parseRandomExpenseEntry_amount: "parseRandomExpenseEntry n ps d l = Inr e \<Longrightarrow> amount (data e) \<noteq> NaN"
  by (auto simp: parseRandomExpenseEntry_def Let_def isNaN_def split: if_splits)

lemma map_sum_Inr_Some: "map_sum f Some x = Inr (Some e) \<longleftrightarrow> x = Inr e"
  by (cases x) auto

lemma dispatch_amount: "dispatch n ps d l = Inr (Some e) \<Longrightarrow> amount (data e) \<noteq> NaN"
  unfolding dispatch_def Let_def
  by (auto simp: map_sum_Inr_Some split: if_splits
      dest: parseSaleEntry_amount parseBillEntry_amount parseExpenseEntry_amount
        parseStaffExpenseEntry_amount parsePartyPaymentEntry_amount parseRandomExpenseEntry_amount)

lemma findAmount_first:
  "i < length ps \<Longrightarrow> \<not> includesStr (ps ! i) ''/'' \<Longrightarrow> \<not> isNaN (parseFloat (ps ! i))
   \<Longrightarrow> (\<forall>j<i. includesStr (ps ! j) ''/'' \<or> isNaN (parseFloat (ps ! j)))
   \<Longrightarrow> findAmount k ps = Some (k + i, parseFloat (ps ! i))"
proof (induction ps arbitrary: k i)
  case Nil
  then show ?case by simp
next
  case (Cons p ps)
  show ?case
  proof (cases i)
    case 0
    with Cons.prems show ?thesis by simp
  next
    case (Suc i')
    have skip: "includesStr p ''/'' \<or> isNaN (parseFloat p)"
      using Cons.prems(4) Suc by force
    have "findAmount (Suc k) ps = Some (Suc k + i', parseFloat (ps ! i'))"
      using Cons.prems Suc by (intro Cons.IH) auto
    with skip Suc show ?thesis by auto
  qed
qed

lemma findAmount_none:
  "(\<forall>j<length ps. includesStr (ps ! j) ''/'' \<or> isNaN (parseFloat (ps ! j))) \<Longrightarrow> findAmount k ps = None"
proof (induction ps arbitrary: k)
  case Nil
  then show ?case by simp
next
  case (Cons p ps)
  have "includesStr p ''/'' \<or> isNaN (parseFloat p)" using Cons.prems by force
  moreover have "findAmount (Suc k) ps = None"
    using Cons.prems by (intro Cons.IH) force
  ultimately show ?case by auto
qed

lemma dispatch_bill:
  "billDispatched parts \<Longrightarrow>
   dispatch newId parts entryDate line = map_sum (\<lambda>m. m) Some (parseBillEntry newId parts entryDate line)"
  by (cases parts) (auto simp: billDispatched_def dispatch_def)

lemma parseBillEntry_found:
  assumes "2 \<le> length parts" "1 \<le> i" "i < length parts"
    "\<not> includesStr (parts ! i) ''/''" "\<not> isNaN (parseFloat (parts ! i))"
    "\<forall>j. 1 \<le> j \<and> j < i \<longrightarrow> includesStr (parts ! j) ''/'' \<or> isNaN (parseFloat (parts ! j))"
  shows "parseBillEntry newId parts entryDate line =
     Inr \<lparr>entry_type = bill,
          data = \<lparr>entry_id = newId, date = entryDate, amount = parseFloat (parts ! i),
                  payment_mode = None, party_name = Some (trim (parts ! 0)), staff_name = None,
                  description =
                    (case findIndex (\<lambda>p. toUpperCase p = ''GR'') (drop (i + 1) parts) of
                       None \<Rightarrow> None
                     | Some g \<Rightarrow>
                         if g + 1 < length (drop (i + 1) parts)
                         then Some (''GR '' @ drop (i + 1) parts ! (g + 1)) else None),
                  billNumber =
                    (if i > 1 then Some (trim (removeParens (join '' '' (take (i - 1) (drop 1 parts)))))
                     else None),
                  hasGST = (if list_ex (\<lambda>p. toUpperCase p = ''GST'') (drop (i + 1) parts) then 1 else 0),
                  expense_category = None\<rparr>\<rparr>"
proof -
  obtain i' where i': "i = Suc i'" using assms(2) by (cases i) auto
  have fa: "findAmount 1 (drop 1 parts) = Some (1 + i', parseFloat (drop 1 parts ! i'))"
  proof (rule findAmount_first)
    show "i' < length (drop 1 parts)" using assms(3) i' by simp
    show "\<not> includesStr (drop 1 parts ! i') ''/''" using assms(3,4) i' by simp
    show "\<not> isNaN (parseFloat (drop 1 parts ! i'))" using assms(3,5) i' by simp
    show "\<forall>j<i'. includesStr (drop 1 parts ! j) ''/'' \<or> isNaN (parseFloat (drop 1 parts ! j))"
    proof (intro allI impI)
      fix j assume "j < i'"
      then have "1 \<le> Suc j \<and> Suc j < i" using i' by simp
      then have "includesStr (parts ! Suc j) ''/'' \<or> isNaN (parseFloat (parts ! Suc j))"
        using assms(6) by blast
      moreover have "drop 1 parts ! j = parts ! Suc j" using assms(3) i' \<open>j < i'\<close> by simp
      ultimately show "includesStr (drop 1 parts ! j) ''/'' \<or> isNaN (parseFloat (drop 1 parts ! j))"
        by simp
    qed
  qed
  have nth: "drop 1 parts ! i' = parts ! i" using assms(3) i' by simp
  have last: "\<not> i < length parts - 1 \<Longrightarrow> drop (i + 1) parts = []" using assms(3) by simp
  show ?thesis
    using assms(1) fa nth last unfolding i'
    by (cases "Suc i' < length parts - 1") (simp_all add: parseBillEntry_def Let_def cong: option.case_cong if_cong)
qed

lemma parseBillEntry_none:
  assumes "2 \<le> length parts"
    "\<forall>j. 1 \<le> j \<and> j < length parts \<longrightarrow> includesStr (parts ! j) ''/'' \<or> isNaN (parseFloat (parts ! j))"
  shows "parseBillEntry newId parts entryDate line = Inl ''Invalid amount in bill entry''"
proof -
  have "findAmount 1 (drop 1 parts) = None"
  proof (rule findAmount_none, intro allI impI)
    fix j assume "j < length (drop 1 parts)"
    then have "1 \<le> Suc j \<and> Suc j < length parts" by simp
    then have "includesStr (parts ! Suc j) ''/'' \<or> isNaN (parseFloat (parts ! Suc j))"
      using assms(2) by blast
    moreover have "drop 1 parts ! j = parts ! Suc j" using \<open>j < length (drop 1 parts)\<close> by simp
    ultimately show "includesStr (drop 1 parts ! j) ''/'' \<or> isNaN (parseFloat (drop 1 parts ! j))"
      by simp
  qed
  then show ?thesis using assms(1) by (simp add: parseBillEntry_def)
qed

lemmas parse_defs = parseLine_def str_defs num_defs date_defs shape_defs

subsection \<open>One result per line\<close>

text \<open>
  C4. \<open>parseEntries\<close> returns one result for each non-blank line of the text, in the order
  of the lines: the \<open>k\<close>-th result is the result of the \<open>k\<close>-th non-blank line alone, an
  entry or an error element, so no line aborts or reorders the batch. The function is total:
  every error thrown while a line is parsed ends as an error element. A line whose text
  (after the inline date) is a single word that is not a sale number matches no shape and
  yields the error \<open>Unrecognized entry format\<close>.
\<close>

theorem parseEntries_one_result_per_line:
  "parseEntries gen text selectedDate =
     map (\<lambda>(k, line). parseLine (gen k) selectedDate (trim line))
       (enumerate 0 (filter (\<lambda>line. trim line \<noteq> []) (splitChar (CHR 0x0A) text)))
   \<and> length (parseEntries gen text selectedDate) =
       length (filter (\<lambda>line. trim line \<noteq> []) (splitChar (CHR 0x0A) text))
   \<and> (\<forall>newId line w.
         splitWs (snd (extractDate datePatterns selectedDate line)) = [w] \<and> \<not> isSaleNumber w
         \<longrightarrow> parseLine newId selectedDate line = ParseError ''Unrecognized entry format'' line)"
proof -
  have eq: "parseEntries gen text selectedDate =
     map (\<lambda>(k, line). parseLine (gen k) selectedDate (trim line))
       (enumerate 0 (filter (\<lambda>line. trim line \<noteq> []) (splitChar (CHR 0x0A) text)))"
    by (simp add: parseEntries_def parseLoop_append)
  have len: "length (parseEntries gen text selectedDate) =
       length (filter (\<lambda>line. trim line \<noteq> []) (splitChar (CHR 0x0A) text))"
    by (simp add: eq)
  have un: "parseLine newId selectedDate line = ParseError ''Unrecognized entry format'' line"
    if "splitWs (snd (extractDate datePatterns selectedDate line)) = [w] \<and> \<not> isSaleNumber w"
    for newId line w
    using that by (auto simp: parseLine_def Let_def dispatch_unmatched split: prod.splits)
  from eq len un show ?thesis by blast
qed

theorem parseEntries_one_result_per_line_witness:
  "splitWs (snd (extractDate datePatterns ''2025-01-20'' ''hello'')) = [''hello'']
   \<and> \<not> isSaleNumber ''hello''
   \<and> parseLine ''id'' ''2025-01-20'' ''hello'' = ParseError ''Unrecognized entry format'' ''hello''
   \<and> length (parseEntries (\<lambda>k. ''id'') (''hello'' @ [CHR 0x0A, CHR 0x0A] @ ''1. 5'') ''2025-01-20'') = 2"
proof -
  have h: "splitWs (snd (extractDate datePatterns ''2025-01-20'' ''hello'')) = [''hello'']
      \<and> \<not> isSaleNumber ''hello''"
    by (simp add: date_defs str_defs isSaleNumber_def)
  have n: "length (filter (\<lambda>line. trim line \<noteq> [])
      (splitChar (CHR 0x0A) (''hello'' @ [CHR 0x0A, CHR 0x0A] @ ''1. 5''))) = 2"
    by (simp add: str_defs)
  from parseEntries_one_result_per_line
      [of "\<lambda>k. ''id''" "''hello'' @ [CHR 0x0A, CHR 0x0A] @ ''1. 5''" "''2025-01-20''"] h n
  show ?thesis by metis
qed

subsection \<open>The amount of an entry\<close>

text \<open>
  C10, as the code has it. Every entry that the parser returns has an amount that
  \<^verbatim>\<open>parseFloat\<close> read as a number: a line for which no rule finds such an amount yields
  an error element. The parser tests only \<^verbatim>\<open>isNaN\<close>; it does not test the sign of the
  amount or whether it is finite.
\<close>

theorem parsed_amount_is_a_number:
  "parseLine newId selectedDate line = Entry e \<Longrightarrow> amount (data e) \<noteq> NaN"
  by (auto simp: parseLine_def Let_def split: prod.splits sum.splits option.splits dest: dispatch_amount)

theorem parsed_amount_is_a_number_witness:
  "parseLine ''id'' ''2025-01-20'' ''1. 23500'' =
     Entry \<lparr>entry_type = sale,
            data = \<lparr>entry_id = ''id'', date = ''2025-01-20'', amount = Num 23500,
                    payment_mode = Some ''cash'', party_name = None, staff_name = None,
                    description = None, billNumber = None, hasGST = 0, expense_category = None\<rparr>\<rparr>
   \<and> Num 23500 \<noteq> NaN"
proof -
  have h: "parseLine ''id'' ''2025-01-20'' ''1. 23500'' =
     Entry \<lparr>entry_type = sale,
            data = \<lparr>entry_id = ''id'', date = ''2025-01-20'', amount = Num 23500,
                    payment_mode = Some ''cash'', party_name = None, staff_name = None,
                    description = None, billNumber = None, hasGST = 0, expense_category = None\<rparr>\<rparr>"
    by (simp add: parse_defs)
  from parsed_amount_is_a_number [OF h] h show ?thesis by simp
qed

text \<open>
  The sale line \<open>1. -500\<close> is parsed into an entry whose amount is \<open>-500\<close>: an amount that
  is not positive does not make the parser emit an error.
\<close>

theorem negative_amount_is_parsed:
  "parseLine ''id'' ''2025-01-20'' ''1. -500'' =
     Entry \<lparr>entry_type = sale,
            data = \<lparr>entry_id = ''id'', date = ''2025-01-20'', amount = Num (- 500),
                    payment_mode = Some ''cash'', party_name = None, staff_name = None,
                    description = None, billNumber = None, hasGST = 0, expense_category = None\<rparr>\<rparr>"
  by (simp add: parse_defs)

subsection \<open>The Bill rule\<close>

text \<open>
  C8, as the code has it. For the parts of a line that reaches the Bill rule: when \<open>i\<close> is
  the first index after 0 of a part without a slash that reads as a number, the result is a
  Bill entry with part 0 as party name, that part as amount, the parts strictly between
  them, joined and without parentheses, as bill number (none when there are no such parts),
  the part after the first \<open>GR\<close> that follows the amount as description \<open>GR value\<close>, and
  \<open>hasGST\<close> set iff a part \<open>GST\<close> follows the amount (both words in any case). When no
  part after index 0 is such an amount, the line yields the error
  \<open>Invalid amount in bill entry\<close>. The line
  \<open>PendalKarigar SV2029 73173 GR 302 GST\<close> yields party \<open>PendalKarigar\<close>, bill number
  \<open>SV2029\<close>, amount 73173, description \<open>GR 302\<close> and \<open>hasGST\<close> set.
\<close>

theorem bill_rule:
  "(billDispatched parts \<longrightarrow>
     ((1 \<le> i \<and> i < length parts \<and> \<not> includesStr (parts ! i) ''/''
         \<and> \<not> isNaN (parseFloat (parts ! i))
         \<and> (\<forall>j. 1 \<le> j \<and> j < i \<longrightarrow> includesStr (parts ! j) ''/'' \<or> isNaN (parseFloat (parts ! j)))
       \<longrightarrow> dispatch newId parts entryDate line =
           Inr (Some \<lparr>entry_type = bill,
                  data = \<lparr>entry_id = newId, date = entryDate, amount = parseFloat (parts ! i),
                    payment_mode = None, party_name = Some (trim (parts ! 0)), staff_name = None,
                    description =
                      (case findIndex (\<lambda>p. toUpperCase p = ''GR'') (drop (i + 1) parts) of
                         None \<Rightarrow> None
                       | Some g \<Rightarrow>
                           if g + 1 < length (drop (i + 1) parts)
                           then Some (''GR '' @ drop (i + 1) parts ! (g + 1)) else None),
                    billNumber =
                      (if i > 1
                       then Some (trim (removeParens (join '' '' (take (i - 1) (drop 1 parts)))))
                       else None),
                    hasGST =
                      (if list_ex (\<lambda>p. toUpperCase p = ''GST'') (drop (i + 1) parts) then 1 else 0),
                    expense_category = None\<rparr>\<rparr>))
      \<and> ((\<forall>j. 1 \<le> j \<and> j < length parts
               \<longrightarrow> includesStr (parts ! j) ''/'' \<or> isNaN (parseFloat (parts ! j)))
         \<longrightarrow> dispatch newId parts entryDate line = Inl ''Invalid amount in bill entry'')))
   \<and> parseLine newId selectedDate ''PendalKarigar SV2029 73173 GR 302 GST'' =
       Entry \<lparr>entry_type = bill,
              data = \<lparr>entry_id = newId, date = selectedDate, amount = Num 73173,
                      payment_mode = None, party_name = Some ''PendalKarigar'',
                      staff_name = None, description = Some ''GR 302'',
                      billNumber = Some ''SV2029'', hasGST = 1, expense_category = None\<rparr>\<rparr>"
  (is "(_ \<longrightarrow> ((?H1 \<longrightarrow> ?C1) \<and> (?H2 \<longrightarrow> ?C2))) \<and> ?EX")
proof -
  have ex: ?EX
    by (simp add: parse_defs)
  have found: ?C1 if d: "billDispatched parts" and h: ?H1
  proof -
    have len: "2 \<le> length parts" using d by (simp add: billDispatched_def)
    from h have h1: "1 \<le> i" and h2: "i < length parts"
      and h3: "\<not> includesStr (parts ! i) ''/''" and h4: "\<not> isNaN (parseFloat (parts ! i))"
      and h5: "\<forall>j. 1 \<le> j \<and> j < i \<longrightarrow> includesStr (parts ! j) ''/'' \<or> isNaN (parseFloat (parts ! j))"
      by blast+
    show ?thesis
      unfolding dispatch_bill [OF d] parseBillEntry_found [OF len h1 h2 h3 h4 h5] by simp
  qed
  have none: ?C2 if d: "billDispatched parts" and h: ?H2
  proof -
    have len: "2 \<le> length parts" using d by (simp add: billDispatched_def)
    show ?thesis
      unfolding dispatch_bill [OF d] parseBillEntry_none [OF len h] by simp
  qed
  from ex found none show ?thesis by blast
qed

theorem bill_rule_witness:
  "billDispatched [''PendalKarigar'', ''SV2029'', ''73173'', ''GR'', ''302'', ''GST'']
   \<and> dispatch ''id'' [''PendalKarigar'', ''SV2029'', ''73173'', ''GR'', ''302'', ''GST'']
         ''2025-01-20'' ''PendalKarigar SV2029 73173 GR 302 GST'' =
       Inr (Some \<lparr>entry_type = bill,
              data = \<lparr>entry_id = ''id'', date = ''2025-01-20'', amount = Num 73173,
                      payment_mode = None, party_name = Some ''PendalKarigar'',
                      staff_name = None, description = Some ''GR 302'',
                      billNumber = Some ''SV2029'', hasGST = 1, expense_category = None\<rparr>\<rparr>)
   \<and> billDispatched [''5'', ''abc'']
   \<and> dispatch ''id'' [''5'', ''abc''] ''2025-01-20'' ''5 abc'' = Inl ''Invalid amount in bill entry''"
proof -
  let ?ps = "[''PendalKarigar'', ''SV2029'', ''73173'', ''GR'', ''302'', ''GST'']"
  have d1: "billDispatched ?ps"
    by (simp add: billDispatched_def isSaleNumber_def STANDARD_EXPENSES_def str_defs num_defs)
  have a1: "(1::nat) \<le> 2 \<and> 2 < length ?ps \<and> \<not> includesStr (?ps ! 2) ''/''
      \<and> \<not> isNaN (parseFloat (?ps ! 2))"
    by (simp add: str_defs num_defs)
  have b1: "\<forall>j. 1 \<le> j \<and> j < (2::nat) \<longrightarrow> includesStr (?ps ! j) ''/'' \<or> isNaN (parseFloat (?ps ! j))"
  proof (intro allI impI)
    fix j :: nat assume "1 \<le> j \<and> j < 2"
    then have "j = 1" by simp
    then show "includesStr (?ps ! j) ''/'' \<or> isNaN (parseFloat (?ps ! j))"
      by (simp add: str_defs num_defs)
  qed
  have r1: "dispatch ''id'' ?ps ''2025-01-20'' ''PendalKarigar SV2029 73173 GR 302 GST'' =
       Inr (Some \<lparr>entry_type = bill,
              data = \<lparr>entry_id = ''id'', date = ''2025-01-20'', amount = Num 73173,
                      payment_mode = None, party_name = Some ''PendalKarigar'',
                      staff_name = None, description = Some ''GR 302'',
                      billNumber = Some ''SV2029'', hasGST = 1, expense_category = None\<rparr>\<rparr>)"
    using bill_rule [of ?ps 2 "''id''" "''2025-01-20''" "''PendalKarigar SV2029 73173 GR 302 GST''"]
      d1 a1 b1
    by (simp add: str_defs num_defs removeParens_def)
  have d2: "billDispatched [''5'', ''abc'']"
    by (simp add: billDispatched_def isSaleNumber_def STANDARD_EXPENSES_def str_defs num_defs)
  have b2: "\<forall>j. 1 \<le> j \<and> j < length [''5'', ''abc'']
      \<longrightarrow> includesStr ([''5'', ''abc''] ! j) ''/'' \<or> isNaN (parseFloat ([''5'', ''abc''] ! j))"
  proof (intro allI impI)
    fix j :: nat assume "1 \<le> j \<and> j < length [''5'', ''abc'']"
    then have "j = 1" by simp
    then show "includesStr ([''5'', ''abc''] ! j) ''/'' \<or> isNaN (parseFloat ([''5'', ''abc''] ! j))"
      by (simp add: str_defs num_defs)
  qed
  have r2: "dispatch ''id'' [''5'', ''abc''] ''2025-01-20'' ''5 abc'' = Inl ''Invalid amount in bill entry''"
    using bill_rule [of "[''5'', ''abc'']" 0 "''id''" "''2025-01-20''" "''5 abc''"] d2 b2
    by blast
  from d1 r1 d2 r2 show ?thesis by blast
qed

text \<open>
  The line \<open>SAJ 12/5\<close> reaches the Bill rule, since \<open>12/5\<close> reads as the number 12, but
  no part without a slash reads as a number: the parser returns an error element, not a
  Bill entry.
\<close>

theorem bill_rule_without_amount:
  "billDispatched (splitWs ''SAJ 12/5'')
   \<and> parseLine ''id'' ''2025-01-20'' ''SAJ 12/5'' = ParseError ''Invalid amount in bill entry'' ''SAJ 12/5''"
  by (simp add: billDispatched_def parse_defs)

subsection \<open>Inline dates\<close>

lemma isDigit_not_sep:
  "isDigit c \<Longrightarrow> c \<noteq> CHR ''/'' \<and> \<not> isSpace c \<and> c \<noteq> CHR ''-'' \<and> c \<noteq> CHR ''+''"
  by (auto simp: isDigit_def isSpace_def)

lemma digits_no_slash: "list_all isDigit s \<Longrightarrow> CHR ''/'' \<notin> set s"
  using isDigit_not_sep by (auto simp: list_all_iff)

lemma splitChar_no_sep: "sep \<notin> set s \<Longrightarrow> splitChar sep s = [s]"
  by (induction s) auto

lemma splitChar_append: "sep \<notin> set a \<Longrightarrow> splitChar sep (a @ sep # b) = a # splitChar sep b"
  by (induction a) auto

lemma dropWhile_isSpace_id: "s = [] \<or> \<not> isSpace (hd s) \<Longrightarrow> dropWhile isSpace s = s"
  by (cases s) auto

lemma trim_id:
  assumes "s \<noteq> []" "\<not> isSpace (hd s)" "\<not> isSpace (last s)"
  shows "trim s = s"
proof -
  have 1: "dropWhile isSpace s = s" using assms(2) by (rule_tac dropWhile_isSpace_id) simp
  have "hd (rev s) = last s" using assms(1) by (simp add: hd_rev)
  then have 2: "dropWhile isSpace (rev s) = rev s"
    using assms(3) by (rule_tac dropWhile_isSpace_id) simp
  show ?thesis unfolding trim_def 1 2 by simp
qed

lemma trim_digits: "list_all isDigit s \<Longrightarrow> trim s = s"
proof (cases s)
  case Nil
  then show ?thesis by (simp add: trim_def)
next
  case (Cons c cs)
  assume d: "list_all isDigit s"
  have h: "\<not> isSpace (hd s)" using d Cons isDigit_not_sep by auto
  have "last s \<in> set s" using Cons by simp
  then have l: "\<not> isSpace (last s)" using d isDigit_not_sep by (auto simp: list_all_iff)
  show ?thesis using Cons h l by (intro trim_id) simp_all
qed

lemma parseInt_digits:
  assumes "ds \<noteq> []" "list_all isDigit ds"
  shows "parseInt ds = Some (int (digitsVal ds))"
proof -
  obtain c cs where ds: "ds = c # cs" using assms(1) by (cases ds) auto
  have c: "isDigit c" using assms(2) ds by simp
  have 1: "dropWhile isSpace ds = ds" using c ds isDigit_not_sep by simp
  have 2: "\<not> startsWith ds ''-''" "\<not> startsWith ds ''+''"
    using c ds isDigit_not_sep by (auto simp: startsWith_def)
  have 3: "takeWhile isDigit ds = ds" using assms(2) by (simp add: takeWhile_eq_all_conv list_all_iff)
  show ?thesis using assms(1) by (simp add: parseInt_def 1 2 3)
qed

lemma digits12_Some:
  "digits12 s = Some (d, r) \<Longrightarrow> d \<noteq> [] \<and> list_all isDigit d \<and> length d \<le> 2"
  by (auto simp: digits12_def split: list.splits if_splits)

lemma dateCore_Some:
  assumes "dateCore s = Some (cap, rest)"
  shows "\<exists>d m y. cap = d @ ''/'' @ m @ ''/'' @ y \<and> d \<noteq> [] \<and> list_all isDigit d \<and> length d \<le> 2
           \<and> m \<noteq> [] \<and> list_all isDigit m \<and> length m \<le> 2 \<and> list_all isDigit y \<and> length y = 2"
proof -
  from assms obtain d r1 where 1: "digits12 s = Some (d, r1)"
    by (auto simp: dateCore_def split: option.splits)
  from assms 1 obtain r2 where 2: "expect (CHR ''/'') r1 = Some r2"
    by (auto simp: dateCore_def split: option.splits)
  from assms 1 2 obtain m r3 where 3: "digits12 r2 = Some (m, r3)"
    by (auto simp: dateCore_def split: option.splits)
  from assms 1 2 3 obtain r4 where 4: "expect (CHR ''/'') r3 = Some r4"
    by (auto simp: dateCore_def split: option.splits)
  from assms 1 2 3 4 obtain y1 y2 r5 where 5: "r4 = y1 # y2 # r5" "isDigit y1" "isDigit y2"
    "cap = d @ ''/'' @ m @ ''/'' @ [y1, y2]"
    by (auto simp: dateCore_def split: option.splits list.splits if_splits)
  show ?thesis
    using digits12_Some [OF 1] digits12_Some [OF 3] 5
    by (intro exI [of _ d] exI [of _ m] exI [of _ "[y1, y2]"]) simp
qed

lemma matchFirst_Some:
  "matchFirst p pre s = Some (b, cap, a) \<Longrightarrow> \<exists>v. p v = Some (cap, a)"
  by (induction s arbitrary: pre) (auto split: option.splits)

lemma datePattern_Some:
  assumes "p = datePattern1 \<or> p = datePattern2" "p v = Some (cap, a)"
  shows "\<exists>u. dateCore u = Some (cap, a)"
  using assms by (auto simp: datePattern1_def datePattern2_def split: if_splits)

lemma digitVal_digit: "isDigit c \<Longrightarrow> digitVal c < 10 \<and> ''0123456789'' ! digitVal c = c"
  by (auto simp: isDigit_def digitVal_def)

lemma toStr_small: "n < 10 \<Longrightarrow> toStr n = [''0123456789'' ! n]"
  by (subst toStr.simps) simp

lemma toStr_two:
  assumes "a < 10" "b < 10"
  shows "toStr (10 * a + b) = (if a = 0 then [''0123456789'' ! b] else [''0123456789'' ! a, ''0123456789'' ! b])"
proof (cases "a = 0")
  case True
  then show ?thesis using assms by (simp add: toStr_small)
next
  case False
  have "(10 * a + b) div 10 = a" "(10 * a + b) mod 10 = b" using assms by auto
  then show ?thesis using False assms by (subst toStr.simps) (simp add: toStr_small)
qed

lemma pad_one_digit: "isDigit c \<Longrightarrow> padStart2 (toStr (digitsVal [c])) = padStart2 [c]"
  using digitVal_digit [of c] by (simp add: digitsVal_def padStart2_def toStr_small)

lemma pad_two_digits:
  assumes "isDigit a" "isDigit b"
  shows "padStart2 (toStr (digitsVal [a, b])) = [a, b]"
proof -
  have v: "digitsVal [a, b] = 10 * digitVal a + digitVal b" by (simp add: digitsVal_def)
  have da: "digitVal a < 10" "''0123456789'' ! digitVal a = a"
    using digitVal_digit [OF assms(1)] by simp_all
  have db: "digitVal b < 10" "''0123456789'' ! digitVal b = b"
    using digitVal_digit [OF assms(2)] by simp_all
  have z: "digitVal a = 0 \<Longrightarrow> a = CHR ''0''" using da(2) by simp
  show ?thesis
    unfolding v toStr_two [OF da(1) db(1)] using da(2) db(2) z
    by (cases "digitVal a = 0") (simp_all add: padStart2_def)
qed

lemma pad_roundtrip:
  assumes "list_all isDigit m" "m \<noteq> []" "length m \<le> 2"
  shows "padStart2 (toStr (digitsVal m)) = padStart2 m"
proof -
  from assms consider a where "m = [a]" | a b where "m = [a, b]"
    by (cases m; cases "tl m") auto
  then show ?thesis
  proof cases
    case 1
    then show ?thesis using assms pad_one_digit by simp
  next
    case 2
    then show ?thesis using assms pad_two_digits by (simp add: padStart2_def)
  qed
qed

lemma digitsVal_two_le: "list_all isDigit m \<Longrightarrow> length m \<le> 2 \<Longrightarrow> digitsVal m \<le> 99"
proof -
  assume a: "list_all isDigit m" "length m \<le> 2"
  then consider "m = []" | c where "m = [c]" | c d where "m = [c, d]"
    by (cases m; cases "tl m") auto
  then show ?thesis
  proof cases
    case 1 then show ?thesis by (simp add: digitsVal_def)
  next
    case 2 then show ?thesis using a digitVal_digit [of c] by (simp add: digitsVal_def)
  next
    case 3 then show ?thesis using a digitVal_digit [of c] digitVal_digit [of d]
      by (simp add: digitsVal_def)
  qed
qed

lemma formatDate_parts:
  assumes d: "d \<noteq> []" "list_all isDigit d" "length d \<le> 2"
      and m: "m \<noteq> []" "list_all isDigit m" "length m \<le> 2"
      and y: "list_all isDigit y" "length y = 2"
  shows "formatDate (d @ ''/'' @ m @ ''/'' @ y) =
     (if digitsVal d = 0 \<or> digitsVal m = 0 \<or> digitsVal y = 0
      then Inl ''Invalid date format - use DD/MM/YY: Missing date parts''
      else if 31 < digitsVal d then Inl ''Invalid date format - use DD/MM/YY: Invalid day''
      else if 12 < digitsVal m then Inl ''Invalid date format - use DD/MM/YY: Invalid month''
      else Inr (''20'' @ y @ ''-'' @ padStart2 m @ ''-'' @ padStart2 d))"
proof -
  define c where "c = d @ ''/'' @ m @ ''/'' @ y"
  have yne: "y \<noteq> []" using y by auto
  have hd: "\<not> isSpace (hd c)"
    using d isDigit_not_sep unfolding c_def by (cases d) auto
  have lst: "\<not> isSpace (last c)"
  proof -
    have "last c = last y" using yne unfolding c_def by simp
    moreover have "last y \<in> set y" using yne by simp
    ultimately show ?thesis using y isDigit_not_sep by (auto simp: list_all_iff)
  qed
  have cne: "c \<noteq> []" using d unfolding c_def by simp
  have tr: "trim c = c" using cne hd lst by (rule trim_id)
  have sp: "splitChar (CHR ''/'') c = [d, m, y]"
    using digits_no_slash [OF d(2)] digits_no_slash [OF m(2)] digits_no_slash [OF y(1)]
    unfolding c_def by (simp add: splitChar_append splitChar_no_sep)
  have pi: "parseInt (trim d) = Some (int (digitsVal d))" "parseInt (trim m) = Some (int (digitsVal m))"
    "parseInt (trim y) = Some (int (digitsVal y))"
    using d m y yne by (simp_all add: trim_digits parseInt_digits)
  have y99: "digitsVal y \<le> 99" using y by (simp add: digitsVal_two_le)
  have py: "padStart2 (toStr (digitsVal y)) = y"
    using pad_roundtrip [of y] y yne by (simp add: padStart2_def)
  have "formatDate c =
     (if digitsVal d = 0 \<or> digitsVal m = 0 \<or> digitsVal y = 0
      then Inl ''Invalid date format - use DD/MM/YY: Missing date parts''
      else if 31 < digitsVal d then Inl ''Invalid date format - use DD/MM/YY: Invalid day''
      else if 12 < digitsVal m then Inl ''Invalid date format - use DD/MM/YY: Invalid month''
      else Inr (''20'' @ y @ ''-'' @ padStart2 m @ ''-'' @ padStart2 d))"
    using y99
    by (simp add: formatDate_def Let_def tr sp pi py falsyNum_def nthOpt_def
        pad_roundtrip [OF d(2) d(1) d(3)] pad_roundtrip [OF m(2) m(1) m(3)])
  then show ?thesis unfolding c_def .
qed

lemma extractDate_cases:
  assumes mt: "matchFirst p [] line = Some (before, cap, after)"
      and p: "p = datePattern1 \<or> p = datePattern2"
      and sp: "splitChar (CHR ''/'') cap = [dd, mm, yy]"
  shows "extractDate (p # ps) selectedDate line =
     (if 1 \<le> digitsVal dd \<and> digitsVal dd \<le> 31 \<and> 1 \<le> digitsVal mm \<and> digitsVal mm \<le> 12
         \<and> 1 \<le> digitsVal yy
      then (''20'' @ yy @ ''-'' @ padStart2 mm @ ''-'' @ padStart2 dd, trim (before @ after))
      else extractDate ps selectedDate line)"
proof -
  from matchFirst_Some [OF mt] obtain v where "p v = Some (cap, after)" by blast
  with datePattern_Some [OF p] obtain u where "dateCore u = Some (cap, after)" by blast
  from dateCore_Some [OF this] obtain d m y where
    c: "cap = d @ ''/'' @ m @ ''/'' @ y" and d: "d \<noteq> []" "list_all isDigit d" "length d \<le> 2"
    and m: "m \<noteq> []" "list_all isDigit m" "length m \<le> 2" and y: "list_all isDigit y" "length y = 2"
    by blast
  have "splitChar (CHR ''/'') cap = [d, m, y]"
    using digits_no_slash [OF d(2)] digits_no_slash [OF m(2)] digits_no_slash [OF y(1)]
    unfolding c by (simp add: splitChar_append splitChar_no_sep)
  with sp have eq: "dd = d" "mm = m" "yy = y" by simp_all
  have f: "formatDate cap =
     (if digitsVal d = 0 \<or> digitsVal m = 0 \<or> digitsVal y = 0
      then Inl ''Invalid date format - use DD/MM/YY: Missing date parts''
      else if 31 < digitsVal d then Inl ''Invalid date format - use DD/MM/YY: Invalid day''
      else if 12 < digitsVal m then Inl ''Invalid date format - use DD/MM/YY: Invalid month''
      else Inr (''20'' @ y @ ''-'' @ padStart2 m @ ''-'' @ padStart2 d))"
    unfolding c by (rule formatDate_parts [OF d m y])
  show ?thesis
    unfolding eq by (simp add: mt f)
qed

lemma parseSaleEntry_date: "parseSaleEntry n ps d = Inr e \<Longrightarrow> date (data e) = d"
  by (auto simp: parseSaleEntry_def Let_def split: if_splits)

lemma parseBillEntry_date: "parseBillEntry n ps d l = Inr e \<Longrightarrow> date (data e) = d"
  by (auto simp: parseBillEntry_def Let_def split: if_splits option.splits)

lemma parseExpenseEntry_date: "parseExpenseEntry n ps d l = Inr e \<Longrightarrow> date (data e) = d"
  by (auto simp: parseExpenseEntry_def Let_def split: if_splits)

lemma parseStaffExpenseEntry_date: "parseStaffExpenseEntry n ps d = Inr e \<Longrightarrow> date (data e) = d"
  by (auto simp: parseStaffExpenseEntry_def Let_def split: if_splits)

lemma parsePartyPaymentEntry_date: "parsePartyPaymentEntry n ps d l = Inr e \<Longrightarrow> date (data e) = d"
  by (auto simp: parsePartyPaymentEntry_def Let_def split: if_splits)

lemma parseRandomExpenseEntry_date: "parseRandomExpenseEntry n ps d l = Inr e \<Longrightarrow> date (data e) = d"
  by (auto simp: parseRandomExpenseEntry_def Let_def split: if_splits)

lemma dispatch_date: "dispatch n ps d l = Inr (Some e) \<Longrightarrow> date (data e) = d"
  unfolding dispatch_def Let_def
  by (auto simp: map_sum_Inr_Some split: if_splits
      dest: parseSaleEntry_date parseBillEntry_date parseExpenseEntry_date
        parseStaffExpenseEntry_date parsePartyPaymentEntry_date parseRandomExpenseEntry_date)

lemma map_sum_Inl_id: "map_sum (\<lambda>m. m) f x = Inl msg \<longleftrightarrow> x = Inl msg"
  by (cases x) auto

lemma dispatch_error:
  "dispatch n ps d l = Inl msg \<Longrightarrow> msg \<in> set
     [''Invalid sale entry format'', ''Invalid amount in sale entry'',
      ''Invalid bill entry format'', ''Invalid amount in bill entry'',
      ''Invalid expense entry format'', ''Invalid amount in expense entry'',
      ''Invalid staff expense format'', ''Invalid amount in staff expense'',
      ''Invalid party payment format'', ''Invalid amount in party payment'',
      ''Invalid expense format'', ''Invalid amount'']"
  unfolding dispatch_def Let_def
  by (auto simp: map_sum_Inl_id parseSaleEntry_def parseBillEntry_def parseExpenseEntry_def
        parseStaffExpenseEntry_def parsePartyPaymentEntry_def parseRandomExpenseEntry_def Let_def
      split: if_splits option.splits)

lemma parseLine_error:
  assumes "parseLine newId selectedDate line = ParseError msg l"
  shows "\<not> startsWith msg ''Invalid date format''"
proof -
  from assms have "msg = ''Unrecognized entry format'' \<or> msg \<in> set
     [''Invalid sale entry format'', ''Invalid amount in sale entry'',
      ''Invalid bill entry format'', ''Invalid amount in bill entry'',
      ''Invalid expense entry format'', ''Invalid amount in expense entry'',
      ''Invalid staff expense format'', ''Invalid amount in staff expense'',
      ''Invalid party payment format'', ''Invalid amount in party payment'',
      ''Invalid expense format'', ''Invalid amount'']"
    by (auto simp: parseLine_def Let_def split: prod.splits sum.splits option.splits
        dest: dispatch_error)
  then show ?thesis by (auto simp: startsWith_def)
qed

lemma parseLine_extract:
  assumes "extractDate datePatterns selectedDate line = (d, l)"
  shows "parseLine newId selectedDate line =
           (case dispatch newId (splitWs l) d l of
              Inl msg \<Rightarrow> ParseError msg line
            | Inr None \<Rightarrow> ParseError ''Unrecognized entry format'' line
            | Inr (Some e) \<Rightarrow> Entry e)"
    and "parseLine newId selectedDate line = Entry e \<Longrightarrow> date (data e) = d"
  using assms
  by (auto simp: parseLine_def Let_def split: sum.splits option.splits dest: dispatch_date)

text \<open>
  C9, as the code has it. When the first date pattern that matches the line (the form
  \<open>(date: D/M/YY)\<close> before the form \<open>(D/M/YY)\<close>) captures day \<open>dd\<close>, month \<open>mm\<close> and
  year \<open>yy\<close>: if the day is in 1..31, the month in 1..12 and the year is not 00, the
  date of the line is \<open>20yy-mm-dd\<close> (month and day padded to two digits) in place of the
  default date, the token is removed from the line before it is split into parts, and the
  result of the line is the result of the dispatch on the parts of the stripped line with that
  date, so every entry parsed from the line carries the date of the token. If the day is
  outside 1..31 or the month outside 1..12, the error of \<open>formatDate\<close> is caught: the token
  is not used as a date and stays in the line as ordinary text; the second pattern is tried
  when the first one failed, and when no other pattern matches, the whole line is split into
  parts and every entry parsed from it carries the default date. In both cases an error
  element of the line never has a date message. The default date is an argument of each
  line's parse, so a token changes the date of its own line only.
\<close>

theorem inline_date_token:
  assumes "matchFirst datePattern1 [] line = Some (before, cap, after)
           \<or> (matchFirst datePattern1 [] line = None
               \<and> matchFirst datePattern2 [] line = Some (before, cap, after))"
      and "splitChar (CHR ''/'') cap = [dd, mm, yy]"
  shows "(1 \<le> digitsVal dd \<and> digitsVal dd \<le> 31 \<and> 1 \<le> digitsVal mm \<and> digitsVal mm \<le> 12
          \<and> digitsVal yy \<noteq> 0 \<longrightarrow>
            extractDate datePatterns selectedDate line =
              (''20'' @ yy @ ''-'' @ padStart2 mm @ ''-'' @ padStart2 dd, trim (before @ after))
            \<and> parseLine newId selectedDate line =
                (case dispatch newId (splitWs (trim (before @ after)))
                        (''20'' @ yy @ ''-'' @ padStart2 mm @ ''-'' @ padStart2 dd)
                        (trim (before @ after)) of
                   Inl msg \<Rightarrow> ParseError msg line
                 | Inr None \<Rightarrow> ParseError ''Unrecognized entry format'' line
                 | Inr (Some e) \<Rightarrow> Entry e)
            \<and> (\<forall>e. parseLine newId selectedDate line = Entry e \<longrightarrow>
                  date (data e) = ''20'' @ yy @ ''-'' @ padStart2 mm @ ''-'' @ padStart2 dd))
         \<and> (digitsVal dd < 1 \<or> 31 < digitsVal dd \<or> digitsVal mm < 1 \<or> 12 < digitsVal mm \<longrightarrow>
              extractDate datePatterns selectedDate line =
                (if matchFirst datePattern1 [] line = None then (selectedDate, line)
                 else extractDate [datePattern2] selectedDate line)
              \<and> (matchFirst datePattern1 [] line = None \<or> matchFirst datePattern2 [] line = None \<longrightarrow>
                    parseLine newId selectedDate line =
                      (case dispatch newId (splitWs line) selectedDate line of
                         Inl msg \<Rightarrow> ParseError msg line
                       | Inr None \<Rightarrow> ParseError ''Unrecognized entry format'' line
                       | Inr (Some e) \<Rightarrow> Entry e)
                    \<and> (\<forall>e. parseLine newId selectedDate line = Entry e \<longrightarrow>
                          date (data e) = selectedDate)))
         \<and> (\<forall>msg l. parseLine newId selectedDate line = ParseError msg l \<longrightarrow>
               \<not> startsWith msg ''Invalid date format'')"
proof -
  let ?ok = "1 \<le> digitsVal dd \<and> digitsVal dd \<le> 31 \<and> 1 \<le> digitsVal mm \<and> digitsVal mm \<le> 12
         \<and> 1 \<le> digitsVal yy"
  let ?tok = "''20'' @ yy @ ''-'' @ padStart2 mm @ ''-'' @ padStart2 dd"
  have ex: "extractDate datePatterns selectedDate line =
     (if ?ok then (?tok, trim (before @ after))
      else if matchFirst datePattern1 [] line = None then (selectedDate, line)
      else extractDate [datePattern2] selectedDate line)"
    using assms(1)
  proof
    assume mt: "matchFirst datePattern1 [] line = Some (before, cap, after)"
    show ?thesis
      unfolding datePatterns_def
      using extractDate_cases [OF mt _ assms(2), of "[datePattern2]" selectedDate] mt by simp
  next
    assume h: "matchFirst datePattern1 [] line = None
               \<and> matchFirst datePattern2 [] line = Some (before, cap, after)"
    then have mt: "matchFirst datePattern2 [] line = Some (before, cap, after)" by simp
    show ?thesis
      unfolding datePatterns_def
      using extractDate_cases [OF mt _ assms(2), of "[]" selectedDate] h by simp
  qed
  have valid: "extractDate datePatterns selectedDate line = (?tok, trim (before @ after))"
    if "1 \<le> digitsVal dd \<and> digitsVal dd \<le> 31 \<and> 1 \<le> digitsVal mm \<and> digitsVal mm \<le> 12
          \<and> digitsVal yy \<noteq> 0"
    using that ex by simp
  have invalid: "extractDate datePatterns selectedDate line =
                (if matchFirst datePattern1 [] line = None then (selectedDate, line)
                 else extractDate [datePattern2] selectedDate line)"
    if "digitsVal dd < 1 \<or> 31 < digitsVal dd \<or> digitsVal mm < 1 \<or> 12 < digitsVal mm"
    using that ex by auto
  have kept: "extractDate datePatterns selectedDate line = (selectedDate, line)"
    if "digitsVal dd < 1 \<or> 31 < digitsVal dd \<or> digitsVal mm < 1 \<or> 12 < digitsVal mm"
      and "matchFirst datePattern1 [] line = None \<or> matchFirst datePattern2 [] line = None"
    using invalid [OF that(1)] that(2) by auto
  show ?thesis
    using valid invalid kept parseLine_extract [of selectedDate line _ _ newId]
      parseLine_error [of newId selectedDate line]
    by (intro conjI impI allI) auto
qed

theorem inline_date_token_witness:
  "matchFirst datePattern1 [] ''SAJ (date: 13/12/24) 33201'' = Some (''SAJ '', ''13/12/24'', '' 33201'')
   \<and> splitChar (CHR ''/'') ''13/12/24'' = [''13'', ''12'', ''24'']
   \<and> digitsVal ''13'' = 13 \<and> digitsVal ''12'' = 12 \<and> digitsVal ''24'' = 24
   \<and> extractDate datePatterns ''2025-01-20'' ''SAJ (date: 13/12/24) 33201'' = (''2024-12-13'', ''SAJ  33201'')
   \<and> parseLine ''id'' ''2025-01-20'' ''SAJ (date: 13/12/24) 33201'' =
       Entry \<lparr>entry_type = bill,
              data = \<lparr>entry_id = ''id'', date = ''2024-12-13'', amount = Num 33201,
                      payment_mode = None, party_name = Some ''SAJ'', staff_name = None,
                      description = None, billNumber = None, hasGST = 0,
                      expense_category = None\<rparr>\<rparr>
   \<and> matchFirst datePattern1 [] ''X (45/1/25) 7'' = None
   \<and> matchFirst datePattern2 [] ''X (45/1/25) 7'' = Some (''X '', ''45/1/25'', '' 7'')
   \<and> splitChar (CHR ''/'') ''45/1/25'' = [''45'', ''1'', ''25'']
   \<and> digitsVal ''45'' = 45
   \<and> extractDate datePatterns ''2025-01-20'' ''X (45/1/25) 7'' = (''2025-01-20'', ''X (45/1/25) 7'')
   \<and> parseLine ''id'' ''2025-01-20'' ''X (45/1/25) 7'' =
       Entry \<lparr>entry_type = bill,
              data = \<lparr>entry_id = ''id'', date = ''2025-01-20'', amount = Num 7,
                      payment_mode = None, party_name = Some ''X'', staff_name = None,
                      description = None, billNumber = Some ''45/1/25'', hasGST = 0,
                      expense_category = None\<rparr>\<rparr>
   \<and> matchFirst datePattern1 [] ''hello (1/2/24)'' = None
   \<and> matchFirst datePattern2 [] ''hello (1/2/24)'' = Some (''hello '', ''1/2/24'', [])
   \<and> splitChar (CHR ''/'') ''1/2/24'' = [''1'', ''2'', ''24'']
   \<and> parseLine ''id'' ''2025-01-20'' ''hello (1/2/24)'' =
        ParseError ''Unrecognized entry format'' ''hello (1/2/24)''
   \<and> \<not> startsWith ''Unrecognized entry format'' ''Invalid date format''"
proof -
  let ?sel = "''2025-01-20''"
  let ?lineA = "''SAJ (date: 13/12/24) 33201''"
  let ?lineB = "''X (45/1/25) 7''"
  let ?lineC = "''hello (1/2/24)''"
  have m1: "matchFirst datePattern1 [] ?lineA = Some (''SAJ '', ''13/12/24'', '' 33201'')"
    by (simp add: date_defs str_defs)
  have s1: "splitChar (CHR ''/'') ''13/12/24'' = [''13'', ''12'', ''24'']" by simp
  have v1: "digitsVal ''13'' = 13 \<and> digitsVal ''12'' = 12 \<and> digitsVal ''24'' = 24"
    by (simp add: str_defs)
  have ok1: "1 \<le> digitsVal ''13'' \<and> digitsVal ''13'' \<le> 31 \<and> 1 \<le> digitsVal ''12''
      \<and> digitsVal ''12'' \<le> 12 \<and> digitsVal ''24'' \<noteq> 0"
    using v1 by simp
  note t1 = inline_date_token [OF disjI1 [OF m1] s1, of ?sel "''id''"]
  from t1 ok1 have "extractDate datePatterns ?sel ?lineA =
      (''20'' @ ''24'' @ ''-'' @ padStart2 ''12'' @ ''-'' @ padStart2 ''13'', trim (''SAJ '' @ '' 33201''))"
    by blast
  then have r1: "extractDate datePatterns ?sel ?lineA = (''2024-12-13'', ''SAJ  33201'')"
    by (simp add: str_defs)
  from t1 ok1 have "parseLine ''id'' ?sel ?lineA =
      (case dispatch ''id'' (splitWs (trim (''SAJ '' @ '' 33201'')))
              (''20'' @ ''24'' @ ''-'' @ padStart2 ''12'' @ ''-'' @ padStart2 ''13'')
              (trim (''SAJ '' @ '' 33201'')) of
         Inl msg \<Rightarrow> ParseError msg ?lineA
       | Inr None \<Rightarrow> ParseError ''Unrecognized entry format'' ?lineA
       | Inr (Some e) \<Rightarrow> Entry e)"
    by blast
  then have p1: "parseLine ''id'' ?sel ?lineA =
       Entry \<lparr>entry_type = bill,
              data = \<lparr>entry_id = ''id'', date = ''2024-12-13'', amount = Num 33201,
                      payment_mode = None, party_name = Some ''SAJ'', staff_name = None,
                      description = None, billNumber = None, hasGST = 0,
                      expense_category = None\<rparr>\<rparr>"
    by (simp add: str_defs num_defs shape_defs)
  have m2a: "matchFirst datePattern1 [] ?lineB = None"
    by (simp add: date_defs str_defs)
  have m2b: "matchFirst datePattern2 [] ?lineB = Some (''X '', ''45/1/25'', '' 7'')"
    by (simp add: date_defs str_defs)
  have s2: "splitChar (CHR ''/'') ''45/1/25'' = [''45'', ''1'', ''25'']" by simp
  have v2: "digitsVal ''45'' = 45" by (simp add: str_defs)
  have bad2: "digitsVal ''45'' < 1 \<or> 31 < digitsVal ''45'' \<or> digitsVal ''1'' < 1 \<or> 12 < digitsVal ''1''"
    using v2 by simp
  note t2 = inline_date_token [OF disjI2 [OF conjI [OF m2a m2b]] s2, of ?sel "''id''"]
  from t2 bad2 have "extractDate datePatterns ?sel ?lineB =
      (if matchFirst datePattern1 [] ?lineB = None then (?sel, ?lineB)
       else extractDate [datePattern2] ?sel ?lineB)"
    by blast
  then have r2: "extractDate datePatterns ?sel ?lineB = (?sel, ?lineB)"
    by (simp only: m2a if_True HOL.simp_thms)
  from t2 bad2 m2a have "parseLine ''id'' ?sel ?lineB =
      (case dispatch ''id'' (splitWs ?lineB) ?sel ?lineB of
         Inl msg \<Rightarrow> ParseError msg ?lineB
       | Inr None \<Rightarrow> ParseError ''Unrecognized entry format'' ?lineB
       | Inr (Some e) \<Rightarrow> Entry e)"
    by blast
  then have p2: "parseLine ''id'' ?sel ?lineB =
       Entry \<lparr>entry_type = bill,
              data = \<lparr>entry_id = ''id'', date = ''2025-01-20'', amount = Num 7,
                      payment_mode = None, party_name = Some ''X'', staff_name = None,
                      description = None, billNumber = Some ''45/1/25'', hasGST = 0,
                      expense_category = None\<rparr>\<rparr>"
    by (simp add: str_defs num_defs shape_defs)
  have m3a: "matchFirst datePattern1 [] ?lineC = None"
    by (simp add: date_defs str_defs)
  have m3b: "matchFirst datePattern2 [] ?lineC = Some (''hello '', ''1/2/24'', [])"
    by (simp add: date_defs str_defs)
  have s3: "splitChar (CHR ''/'') ''1/2/24'' = [''1'', ''2'', ''24'']" by simp
  have ok3: "1 \<le> digitsVal ''1'' \<and> digitsVal ''1'' \<le> 31 \<and> 1 \<le> digitsVal ''2''
      \<and> digitsVal ''2'' \<le> 12 \<and> digitsVal ''24'' \<noteq> 0"
    by (simp add: str_defs)
  note t3 = inline_date_token [OF disjI2 [OF conjI [OF m3a m3b]] s3, of ?sel "''id''"]
  from t3 ok3 have "parseLine ''id'' ?sel ?lineC =
      (case dispatch ''id'' (splitWs (trim (''hello '' @ [])))
              (''20'' @ ''24'' @ ''-'' @ padStart2 ''2'' @ ''-'' @ padStart2 ''1'')
              (trim (''hello '' @ [])) of
         Inl msg \<Rightarrow> ParseError msg ?lineC
       | Inr None \<Rightarrow> ParseError ''Unrecognized entry format'' ?lineC
       | Inr (Some e) \<Rightarrow> Entry e)"
    by blast
  then have p3: "parseLine ''id'' ?sel ?lineC = ParseError ''Unrecognized entry format'' ?lineC"
    by (simp add: str_defs num_defs shape_defs)
  have e3: "\<not> startsWith ''Unrecognized entry format'' ''Invalid date format''"
    using t3 p3 by blast
  from m1 s1 v1 r1 p1 m2a m2b s2 v2 r2 p2 m3a m3b s3 p3 e3 show ?thesis by blast
qed

text \<open>
  The line \<open>SAJ (date: 45/13/24) 33201\<close> has an inline date token with day 45 and month
  13. It does not yield an error element: it is parsed as a Bill entry with the default
  date, and the text of the token becomes the bill number.
\<close>

theorem invalid_inline_date_is_kept_as_text:
  "parseLine ''id'' ''2025-01-20'' ''SAJ (date: 45/13/24) 33201'' =
     Entry \<lparr>entry_type = bill,
            data = \<lparr>entry_id = ''id'', date = ''2025-01-20'', amount = Num 33201,
                    payment_mode = None, party_name = Some ''SAJ'', staff_name = None,
                    description = None, billNumber = Some ''date: 45/13/24'', hasGST = 0,
                    expense_category = None\<rparr>\<rparr>"
  by (simp add: parse_defs toStr.simps)

section \<open>Properties of the ledger operations\<close>

lemmas db_defs = begin_transaction_def commit_def rollback_def rollbackAndThrow_def
  insertTransaction_def insertParty_def addToBalance_def setBalance_def addToAdvance_def
  setRunningBalance_def truthy_def isSQLDate_def convertToSQLDate_def typeClause_def billClause_def
  inWindow_def checkDuplicateTransaction_def isLedgerRow_def selectLedger_def stepBalance_def
  recalculatePartyBalance_def sortEntries_def bulkStep_def processBulkEntries_def
lemmas submit_defs = resolveParty_def resolveStaff_def processSaleEntry_def getExpenseCategory_def
  processExpenseEntry_def processBillEntry_def processPaymentEntry_def processEntry_def
  submitStep_def submitEntries_def

lemma insort_key_map:
  "insort_key k (g x) (map g ys) = map g (insort_key (\<lambda>x. k (g x)) x ys)"
  by (induction ys) auto

lemma sort_key_map: "sort_key k (map g xs) = map g (sort_key (\<lambda>x. k (g x)) xs)"
  by (induction xs) (auto simp: insort_key_map)

lemma recalcLoop_eq:
  "recalcLoop rows rb ts =
     (foldl (\<lambda>b (j, r). stepBalance b r) rb rows,
      map (\<lambda>t. case lastWrite rows rb (tx_id t) of
                  None \<Rightarrow> t | Some v \<Rightarrow> t\<lparr>running_balance := Some v\<rparr>) ts)"
proof (induction rows arbitrary: rb ts)
  case Nil
  then show ?case by simp
next
  case (Cons a rows)
  obtain j r where a: "a = (j, r)" by (cases a)
  show ?case
    unfolding a
    by (simp add: Cons.IH setRunningBalance_def comp_def split: option.splits)
qed

lemma selectLedger_map:
  assumes "\<And>t. \<exists>v. g t = t\<lparr>running_balance := v\<rparr>"
  shows "selectLedger pid (map g ts) = selectLedger pid ts"
proof -
  have f: "tx_id (g t) = tx_id t" "tx_type (g t) = tx_type t" "tx_amount (g t) = tx_amount t"
    "tx_expense_category (g t) = tx_expense_category t" "tx_date (g t) = tx_date t"
    "created_at (g t) = created_at t" "party_id (g t) = party_id t" for t
    using assms [of t] by auto
  have p: "isLedgerRow pid (g t) = isLedgerRow pid t" for t by (simp add: isLedgerRow_def f)
  show ?thesis
    by (simp add: selectLedger_def filter_map comp_def p sort_key_map f)
qed

lemma recalculate_eq:
  "recalculatePartyBalance pid s =
     (if selectLedger pid (transactions s) = [] then (0, s)
      else (foldl (\<lambda>b (j, r). stepBalance b r) 0 (selectLedger pid (transactions s)),
            setBalance pid (foldl (\<lambda>b (j, r). stepBalance b r) 0 (selectLedger pid (transactions s)))
              (s\<lparr>transactions :=
                   map (\<lambda>t. case lastWrite (selectLedger pid (transactions s)) 0 (tx_id t) of
                               None \<Rightarrow> t | Some v \<Rightarrow> t\<lparr>running_balance := Some v\<rparr>)
                     (transactions s)\<rparr>)))"
  by (simp add: recalculatePartyBalance_def recalcLoop_eq Let_def)

subsection \<open>Recalculation\<close>

lemma lastWrite_absent: "i \<notin> set (map fst rows) \<Longrightarrow> lastWrite rows rb i = None"
  by (induction rows arbitrary: rb) auto

lemma lastWrite_distinct:
  "distinct (map fst rows) \<Longrightarrow> k < length rows \<Longrightarrow>
   lastWrite rows rb (fst (rows ! k)) =
     Some (foldl (\<lambda>b (j, r). stepBalance b r) rb (take (Suc k) rows))"
proof (induction rows arbitrary: rb k)
  case Nil
  then show ?case by simp
next
  case (Cons a rows)
  obtain j r where a: "a = (j, r)" by (cases a)
  show ?case
  proof (cases k)
    case 0
    have "j \<notin> set (map fst rows)" using Cons.prems(1) a by simp
    then show ?thesis using 0 a by (simp add: lastWrite_absent)
  next
    case (Suc k')
    have k': "k' < length rows" using Cons.prems(2) Suc by simp
    have d: "distinct (map fst rows)" using Cons.prems(1) by simp
    show ?thesis using Cons.IH [OF d k'] Suc a by simp
  qed
qed

lemma selectLedger_ids:
  "map fst (selectLedger pid ts) =
     map tx_id (sort_key (\<lambda>t. (tx_date t, created_at t)) (filter (isLedgerRow pid) ts))"
  by (simp add: selectLedger_def comp_def)

lemma selectLedger_distinct:
  assumes "distinct (map tx_id ts)"
  shows "distinct (map fst (selectLedger pid ts))"
proof -
  have "distinct (map tx_id (filter (isLedgerRow pid) ts))"
    using assms by (rule distinct_map_filter)
  then show ?thesis
    unfolding selectLedger_ids by (simp add: distinct_map)
qed

lemma foldl_stepBalance:
  "foldl (\<lambda>b (j, r). stepBalance b r) rb rows = rb + sum_list (map (\<lambda>(j, r). stepBalance 0 r) rows)"
proof (induction rows arbitrary: rb)
  case Nil
  then show ?case by simp
next
  case (Cons a rows)
  obtain j ty amt cat where a: "a = (j, ty, amt, cat)" by (cases a)
  have "stepBalance rb (ty, amt, cat) = rb + stepBalance 0 (ty, amt, cat)"
    by (simp add: stepBalance_def)
  then show ?case using Cons.IH [of "stepBalance rb (ty, amt, cat)"] a by simp
qed

lemma sum_list_insort_key:
  "sum_list (map f (insort_key k x xs)) = f x + sum_list (map f xs)"
  for f :: "'a \<Rightarrow> rat"
  by (induction xs) auto

lemma sum_list_sort_key: "sum_list (map f (sort_key k xs)) = sum_list (map f xs)"
  for f :: "'a \<Rightarrow> rat"
  by (induction xs) (auto simp: sum_list_insort_key)

lemma ledger_sum:
  "sum_list (map (\<lambda>(j, r). stepBalance 0 r) (selectLedger pid ts)) =
     sum_list (map tx_amount (filter (\<lambda>t. isLedgerRow pid t \<and> tx_type t = bill) ts))
     - sum_list (map tx_amount (filter (\<lambda>t. isLedgerRow pid t \<and> tx_type t \<noteq> bill) ts))"
proof -
  have 1: "sum_list (map (\<lambda>(j, r). stepBalance 0 r) (selectLedger pid ts)) =
      sum_list (map (\<lambda>t. stepBalance 0 (tx_type t, tx_amount t, tx_expense_category t))
        (filter (isLedgerRow pid) ts))"
    by (simp add: selectLedger_def comp_def sum_list_sort_key)
  have 2: "sum_list (map (\<lambda>t. stepBalance 0 (tx_type t, tx_amount t, tx_expense_category t))
        (filter (isLedgerRow pid) ts)) =
     sum_list (map tx_amount (filter (\<lambda>t. isLedgerRow pid t \<and> tx_type t = bill) ts))
     - sum_list (map tx_amount (filter (\<lambda>t. isLedgerRow pid t \<and> tx_type t \<noteq> bill) ts))"
    by (induction ts) (auto simp: stepBalance_def isLedgerRow_def)
  show ?thesis unfolding 1 2 ..
qed

text \<open>
  What the recalculation does for a party that has at least one Bill or Payment row, in a
  table whose ids are distinct (the primary key): it returns the left fold of the rows in
  the order of \<open>(date, created_at)\<close>, which is the sum of the bills minus the sum of the
  payments of the party; it stores that value as the current balance of the party; and the
  \<open>k\<close>-th row of that order carries the fold of the first \<open>k + 1\<close> rows as running
  balance.
\<close>

lemma recalculate_with_ledger_rows:
  assumes ne: "selectLedger pid (transactions s) \<noteq> []"
      and d: "distinct (map tx_id (transactions s))"
  shows "fst (recalculatePartyBalance pid s) =
           foldl (\<lambda>b (j, r). stepBalance b r) 0 (selectLedger pid (transactions s))"
    and "fst (recalculatePartyBalance pid s) =
           sum_list (map tx_amount
             (filter (\<lambda>t. isLedgerRow pid t \<and> tx_type t = bill) (transactions s)))
           - sum_list (map tx_amount
               (filter (\<lambda>t. isLedgerRow pid t \<and> tx_type t \<noteq> bill) (transactions s)))"
    and "\<forall>p\<in>set (parties (snd (recalculatePartyBalance pid s))).
           p_id p = pid \<longrightarrow> current_balance p = fst (recalculatePartyBalance pid s)"
    and "\<forall>k<length (selectLedger pid (transactions s)).
           \<forall>t\<in>set (transactions (snd (recalculatePartyBalance pid s))).
             tx_id t = fst (selectLedger pid (transactions s) ! k) \<longrightarrow>
             running_balance t =
               Some (foldl (\<lambda>b (j, r). stepBalance b r) 0
                      (take (Suc k) (selectLedger pid (transactions s))))"
proof -
  let ?rows = "selectLedger pid (transactions s)"
  show 1: "fst (recalculatePartyBalance pid s) = foldl (\<lambda>b (j, r). stepBalance b r) 0 ?rows"
    using ne by (simp add: recalculate_eq)
  show "fst (recalculatePartyBalance pid s) =
           sum_list (map tx_amount
             (filter (\<lambda>t. isLedgerRow pid t \<and> tx_type t = bill) (transactions s)))
           - sum_list (map tx_amount
               (filter (\<lambda>t. isLedgerRow pid t \<and> tx_type t \<noteq> bill) (transactions s)))"
    unfolding 1 foldl_stepBalance ledger_sum by simp
  show "\<forall>p\<in>set (parties (snd (recalculatePartyBalance pid s))).
           p_id p = pid \<longrightarrow> current_balance p = fst (recalculatePartyBalance pid s)"
  proof (intro ballI impI)
    fix p
    assume p: "p \<in> set (parties (snd (recalculatePartyBalance pid s)))" and i: "p_id p = pid"
    define b where "b = foldl (\<lambda>b (j, r). stepBalance b r) 0 ?rows"
    have ps: "parties (snd (recalculatePartyBalance pid s)) =
        map (\<lambda>q. if p_id q = pid then q\<lparr>current_balance := b\<rparr> else q) (parties s)"
      using ne by (simp add: recalculate_eq setBalance_def b_def)
    from p have "p \<in> (\<lambda>q. if p_id q = pid then q\<lparr>current_balance := b\<rparr> else q) ` set (parties s)"
      unfolding ps by simp
    then obtain q where q: "p = (if p_id q = pid then q\<lparr>current_balance := b\<rparr> else q)"
      by blast
    have "current_balance p = b"
      using q i by (cases "p_id q = pid") simp_all
    then show "current_balance p = fst (recalculatePartyBalance pid s)"
      unfolding 1 b_def .
  qed
  show "\<forall>k<length ?rows.
           \<forall>t\<in>set (transactions (snd (recalculatePartyBalance pid s))).
             tx_id t = fst (?rows ! k) \<longrightarrow>
             running_balance t = Some (foldl (\<lambda>b (j, r). stepBalance b r) 0 (take (Suc k) ?rows))"
  proof (intro allI impI ballI)
    fix k t
    assume k: "k < length ?rows"
      and t: "t \<in> set (transactions (snd (recalculatePartyBalance pid s)))"
      and i: "tx_id t = fst (?rows ! k)"
    from t ne obtain t0 where t0: "t0 \<in> set (transactions s)"
      and tt: "t = (case lastWrite ?rows 0 (tx_id t0) of
                      None \<Rightarrow> t0 | Some v \<Rightarrow> t0\<lparr>running_balance := Some v\<rparr>)"
      by (auto simp: recalculate_eq setBalance_def)
    have id: "tx_id t = tx_id t0" using tt by (simp split: option.splits)
    have lw: "lastWrite ?rows 0 (tx_id t0) =
        Some (foldl (\<lambda>b (j, r). stepBalance b r) 0 (take (Suc k) ?rows))"
      using lastWrite_distinct [OF selectLedger_distinct [OF d] k, where rb = 0] i id by simp
    show "running_balance t = Some (foldl (\<lambda>b (j, r). stepBalance b r) 0 (take (Suc k) ?rows))"
      using tt lw by simp
  qed
qed

text \<open>
  C3. Recalculating the balance of a party twice in succession is idempotent: a second call,
  made at any later time \<open>t\<close> on the store the first call left, returns the value the first
  call returned and leaves that store as it is, so every running balance and every stored
  current balance is the same.
\<close>

theorem recalculate_idempotent:
  "recalculatePartyBalance partyId ((snd (recalculatePartyBalance partyId s))\<lparr>now := t\<rparr>) =
     (fst (recalculatePartyBalance partyId s), (snd (recalculatePartyBalance partyId s))\<lparr>now := t\<rparr>)"
proof (cases "selectLedger partyId (transactions s) = []")
  case True
  then show ?thesis by (simp add: recalculate_eq)
next
  case False
  define rows where "rows = selectLedger partyId (transactions s)"
  define b where "b = foldl (\<lambda>b (j, r). stepBalance b r) 0 rows"
  define g :: "Transaction \<Rightarrow> Transaction" where "g = (\<lambda>t. case lastWrite rows 0 (tx_id t) of
                  None \<Rightarrow> t | Some v \<Rightarrow> t\<lparr>running_balance := Some v\<rparr>)"
  have r1: "recalculatePartyBalance partyId s =
      (b, setBalance partyId b (s\<lparr>transactions := map g (transactions s)\<rparr>))"
    using False by (simp add: recalculate_eq rows_def b_def g_def)
  have gex: "\<exists>v. g x = x\<lparr>running_balance := v\<rparr>" for x
    by (cases "lastWrite rows 0 (tx_id x)") (auto simp: g_def intro: exI [of _ "running_balance x"])
  have sel: "selectLedger partyId (map g (transactions s)) = rows"
    unfolding rows_def by (rule selectLedger_map) (rule gex)
  have gg: "g (g x) = g x" for x
    by (cases "lastWrite rows 0 (tx_id x)") (simp_all add: g_def)
  have tx: "transactions ((setBalance partyId b (s\<lparr>transactions := map g (transactions s)\<rparr>))\<lparr>now := t\<rparr>)
      = map g (transactions s)"
    by (simp add: setBalance_def)
  have r2: "recalculatePartyBalance partyId
       ((setBalance partyId b (s\<lparr>transactions := map g (transactions s)\<rparr>))\<lparr>now := t\<rparr>) =
      (b, setBalance partyId b
            (((setBalance partyId b (s\<lparr>transactions := map g (transactions s)\<rparr>))\<lparr>now := t\<rparr>)
               \<lparr>transactions := map g (map g (transactions s))\<rparr>))"
    using False unfolding recalculate_eq tx sel
    by (simp add: rows_def [symmetric] b_def [symmetric] g_def [symmetric] Let_def)
  have st: "setBalance partyId b
            (((setBalance partyId b (s\<lparr>transactions := map g (transactions s)\<rparr>))\<lparr>now := t\<rparr>)
               \<lparr>transactions := map g (map g (transactions s))\<rparr>)
        = (setBalance partyId b (s\<lparr>transactions := map g (transactions s)\<rparr>))\<lparr>now := t\<rparr>"
    by (auto simp: setBalance_def comp_def gg)
  show ?thesis unfolding r1 fst_conv snd_conv r2 st by (rule refl)
qed

text \<open>
  C2 at a party that has no Bill or Payment row. A credit sale applied by \<open>submitEntries\<close>
  to an empty store creates the party \<open>Maa\<close> with balance 9300 and one sale row. For that
  party \<open>recalculatePartyBalance\<close> returns 0, the final accumulator of the empty fold and
  the sum of the bills minus the sum of the payments, and returns before the update of
  the party: the stored current balance stays 9300, where the claim has it equal to the
  accumulator.
\<close>

theorem recalculate_skips_party_without_ledger_rows:
  "submitEntries (\<lambda>k. ''p1'')
     [\<lparr>entry_type = sale,
       data = \<lparr>entry_id = ''e1'', date = ''2025-01-20'', amount = 9300,
               payment_mode = Some ''credit'', party_name = Some ''Maa'', staff_name = None,
               description = None, billNumber = None, hasGST = 0, expense_category = None\<rparr>\<rparr>]
     \<lparr>parties = [], staff = [], transactions = [], snapshot = None, now = 1000\<rparr>
   = (Inr (),
      \<lparr>parties = [\<lparr>p_id = ''p1'', p_name = ''Maa'', credit_limit = 0, current_balance = 9300\<rparr>],
       staff = [],
       transactions =
         [\<lparr>tx_id = ''e1'', tx_date = ''2025-01-20'', tx_type = sale, tx_amount = 9300,
           tx_payment_mode = Some ''credit'', tx_expense_category = None, has_gst = 0,
           bill_number = None, tx_description = None, party_id = Some ''p1'', staff_id = None,
           running_balance = None, created_at = 1000\<rparr>],
       snapshot = None, now = 1000\<rparr>)
   \<and> recalculatePartyBalance ''p1''
       \<lparr>parties = [\<lparr>p_id = ''p1'', p_name = ''Maa'', credit_limit = 0, current_balance = 9300\<rparr>],
        staff = [],
        transactions =
          [\<lparr>tx_id = ''e1'', tx_date = ''2025-01-20'', tx_type = sale, tx_amount = 9300,
            tx_payment_mode = Some ''credit'', tx_expense_category = None, has_gst = 0,
            bill_number = None, tx_description = None, party_id = Some ''p1'', staff_id = None,
            running_balance = None, created_at = 1000\<rparr>],
        snapshot = None, now = 1000\<rparr>
     = (0,
        \<lparr>parties = [\<lparr>p_id = ''p1'', p_name = ''Maa'', credit_limit = 0, current_balance = 9300\<rparr>],
         staff = [],
         transactions =
           [\<lparr>tx_id = ''e1'', tx_date = ''2025-01-20'', tx_type = sale, tx_amount = 9300,
             tx_payment_mode = Some ''credit'', tx_expense_category = None, has_gst = 0,
             bill_number = None, tx_description = None, party_id = Some ''p1'', staff_id = None,
             running_balance = None, created_at = 1000\<rparr>],
         snapshot = None, now = 1000\<rparr>)"
  by (simp add: db_defs submit_defs)

subsection \<open>Party lookup\<close>

text \<open>
  C7 at a name that differs from a stored one in case only. With a stored party \<open>Maa\<close>,
  \<open>resolveParty\<close> does not resolve the name \<open>maa\<close> to it and inserts a second party,
  while the lookup of pages/Sales.tsx finds the stored party for the same name.
\<close>

theorem party_lookup_is_case_sensitive:
  "resolveParty ''n1'' (Some ''maa'')
     \<lparr>parties = [\<lparr>p_id = ''p1'', p_name = ''Maa'', credit_limit = 0, current_balance = 0\<rparr>],
      staff = [], transactions = [], snapshot = None, now = 1000\<rparr>
   = (Inr (Some ''n1''),
      \<lparr>parties = [\<lparr>p_id = ''p1'', p_name = ''Maa'', credit_limit = 0, current_balance = 0\<rparr>,
                  \<lparr>p_id = ''n1'', p_name = ''maa'', credit_limit = 0, current_balance = 0\<rparr>],
       staff = [], transactions = [], snapshot = None, now = 1000\<rparr>)
   \<and> lookupPartySales ''maa''
       \<lparr>parties = [\<lparr>p_id = ''p1'', p_name = ''Maa'', credit_limit = 0, current_balance = 0\<rparr>],
        staff = [], transactions = [], snapshot = None, now = 1000\<rparr>
     = Some ''p1''"
  by (simp add: db_defs submit_defs lookupPartySales_def toLowerCase_def)

subsection \<open>Duplicate detection\<close>

lemma billClause_bill:
  "billClause bill billNo t =
     (bill_number t = None \<or> (truthy billNo \<noteq> None \<and> bill_number t = billNo))"
  by (auto simp: billClause_def)

lemma sameKind_typeClause: "sameKind ty t \<Longrightarrow> typeClause ty t"
  by (auto simp: sameKind_def typeClause_def split: if_splits)

lemma checkDuplicate_eq:
  assumes "truthy partyId = Some pid" "convertToSQLDate d = Inr sqlDate"
  shows "checkDuplicateTransaction s partyId d amt ty billNo =
     Inr (\<exists>t\<in>set (transactions s). party_id t = Some pid \<and> tx_date t = sqlDate \<and> tx_amount t = amt
            \<and> typeClause ty t \<and> billClause ty billNo t \<and> inWindow s t)"
  using assms by (auto simp: checkDuplicateTransaction_def filter_empty_conv)

lemma billClause_iff:
  "billClause ty billNo t =
     (ty = bill \<longrightarrow> bill_number t = None \<or> (truthy billNo \<noteq> None \<and> bill_number t = billNo))"
  by (cases "ty = bill") (auto simp: billClause_bill, simp add: billClause_def)

lemma typeClause_sameKind:
  "tx_type t \<noteq> payment
   \<Longrightarrow> ty = payment \<or> \<not> (tx_type t = expense \<and> tx_expense_category t = Some ''party_payment'')
   \<Longrightarrow> typeClause ty t \<Longrightarrow> sameKind ty t"
  by (auto simp: sameKind_def typeClause_def)

text \<open>
  C5, as the code has it. \<open>checkDuplicateTransaction\<close> returns false whenever the party id
  is absent (or empty). With a party id and a date that converts: it returns true whenever a
  stored transaction of that party, date, amount and kind was created within the last day
  and, for a Bill, has no bill number or has the submitted one. Whenever it returns true, a
  stored transaction of that party, date and amount, created within the last day, passes the
  kind test of the query (it is of the submitted kind, or it is a party payment) and, for a
  Bill, has no bill number or has the submitted one. And in a table that holds no party
  payment of that party, date and amount created within the last day (or when the submitted
  kind is Payment), it returns true exactly when a stored transaction of the same kind is
  such a row; the schema admits no row of type \<open>payment\<close>. So a transaction created before
  the window never makes it return true, and neither does a stored row of another kind that
  is not a party payment.
\<close>

theorem duplicate_policy:
  "(truthy partyId = None \<longrightarrow> checkDuplicateTransaction s partyId d amt ty billNo = Inr False)
   \<and> (truthy partyId = Some pid \<and> convertToSQLDate d = Inr sqlDate \<longrightarrow>
        ((\<exists>t\<in>set (transactions s).
             party_id t = Some pid \<and> tx_date t = sqlDate \<and> tx_amount t = amt \<and> sameKind ty t
             \<and> inWindow s t
             \<and> (ty = bill \<longrightarrow> bill_number t = None \<or> (truthy billNo \<noteq> None \<and> bill_number t = billNo)))
          \<longrightarrow> checkDuplicateTransaction s partyId d amt ty billNo = Inr True)
        \<and> (checkDuplicateTransaction s partyId d amt ty billNo = Inr True
          \<longrightarrow> (\<exists>t\<in>set (transactions s).
                 party_id t = Some pid \<and> tx_date t = sqlDate \<and> tx_amount t = amt
                 \<and> typeClause ty t \<and> inWindow s t
                 \<and> (ty = bill \<longrightarrow> bill_number t = None
                                 \<or> (truthy billNo \<noteq> None \<and> bill_number t = billNo))))
        \<and> ((\<forall>t\<in>set (transactions s). tx_type t \<noteq> payment)
             \<and> (ty \<noteq> payment \<longrightarrow>
                  \<not> (\<exists>t\<in>set (transactions s).
                        party_id t = Some pid \<and> tx_date t = sqlDate \<and> tx_amount t = amt
                        \<and> tx_type t = expense \<and> tx_expense_category t = Some ''party_payment''
                        \<and> inWindow s t))
          \<longrightarrow> checkDuplicateTransaction s partyId d amt ty billNo =
                Inr (\<exists>t\<in>set (transactions s).
                       party_id t = Some pid \<and> tx_date t = sqlDate \<and> tx_amount t = amt
                       \<and> sameKind ty t \<and> inWindow s t
                       \<and> (ty = bill \<longrightarrow> bill_number t = None
                                       \<or> (truthy billNo \<noteq> None \<and> bill_number t = billNo)))))"
proof (intro conjI impI)
  assume "truthy partyId = None"
  then show "checkDuplicateTransaction s partyId d amt ty billNo = Inr False"
    by (simp add: checkDuplicateTransaction_def)
next
  assume h: "truthy partyId = Some pid \<and> convertToSQLDate d = Inr sqlDate"
    and ex: "\<exists>t\<in>set (transactions s).
             party_id t = Some pid \<and> tx_date t = sqlDate \<and> tx_amount t = amt \<and> sameKind ty t
             \<and> inWindow s t
             \<and> (ty = bill \<longrightarrow> bill_number t = None \<or> (truthy billNo \<noteq> None \<and> bill_number t = billNo))"
  from h have eq: "checkDuplicateTransaction s partyId d amt ty billNo =
     Inr (\<exists>t\<in>set (transactions s). party_id t = Some pid \<and> tx_date t = sqlDate \<and> tx_amount t = amt
            \<and> typeClause ty t \<and> billClause ty billNo t \<and> inWindow s t)"
    by (intro checkDuplicate_eq) simp_all
  from ex sameKind_typeClause
  have "\<exists>t\<in>set (transactions s). party_id t = Some pid \<and> tx_date t = sqlDate \<and> tx_amount t = amt
            \<and> typeClause ty t \<and> billClause ty billNo t \<and> inWindow s t"
    unfolding billClause_iff by blast
  then show "checkDuplicateTransaction s partyId d amt ty billNo = Inr True"
    unfolding eq by simp
next
  assume h: "truthy partyId = Some pid \<and> convertToSQLDate d = Inr sqlDate"
    and r: "checkDuplicateTransaction s partyId d amt ty billNo = Inr True"
  from h have eq: "checkDuplicateTransaction s partyId d amt ty billNo =
     Inr (\<exists>t\<in>set (transactions s). party_id t = Some pid \<and> tx_date t = sqlDate \<and> tx_amount t = amt
            \<and> typeClause ty t \<and> billClause ty billNo t \<and> inWindow s t)"
    by (intro checkDuplicate_eq) simp_all
  from r [unfolded eq]
  show "\<exists>t\<in>set (transactions s).
                 party_id t = Some pid \<and> tx_date t = sqlDate \<and> tx_amount t = amt
                 \<and> typeClause ty t \<and> inWindow s t
                 \<and> (ty = bill \<longrightarrow> bill_number t = None
                                 \<or> (truthy billNo \<noteq> None \<and> bill_number t = billNo))"
    unfolding billClause_iff by auto
next
  assume h: "truthy partyId = Some pid \<and> convertToSQLDate d = Inr sqlDate"
    and H: "(\<forall>t\<in>set (transactions s). tx_type t \<noteq> payment)
             \<and> (ty \<noteq> payment \<longrightarrow>
                  \<not> (\<exists>t\<in>set (transactions s).
                        party_id t = Some pid \<and> tx_date t = sqlDate \<and> tx_amount t = amt
                        \<and> tx_type t = expense \<and> tx_expense_category t = Some ''party_payment''
                        \<and> inWindow s t))"
  from h have eq: "checkDuplicateTransaction s partyId d amt ty billNo =
     Inr (\<exists>t\<in>set (transactions s). party_id t = Some pid \<and> tx_date t = sqlDate \<and> tx_amount t = amt
            \<and> typeClause ty t \<and> billClause ty billNo t \<and> inWindow s t)"
    by (intro checkDuplicate_eq) simp_all
  have k: "typeClause ty t = sameKind ty t"
    if "t \<in> set (transactions s)" "party_id t = Some pid" "tx_date t = sqlDate" "tx_amount t = amt"
      "inWindow s t" for t
  proof
    assume "sameKind ty t"
    then show "typeClause ty t" by (rule sameKind_typeClause)
  next
    assume tc: "typeClause ty t"
    have np: "tx_type t \<noteq> payment" using H that(1) by blast
    have "ty = payment \<or> \<not> (tx_type t = expense \<and> tx_expense_category t = Some ''party_payment'')"
      using H that by blast
    with np tc show "sameKind ty t" by (intro typeClause_sameKind)
  qed
  have "(\<exists>t\<in>set (transactions s). party_id t = Some pid \<and> tx_date t = sqlDate \<and> tx_amount t = amt
            \<and> typeClause ty t \<and> billClause ty billNo t \<and> inWindow s t)
        = (\<exists>t\<in>set (transactions s).
                       party_id t = Some pid \<and> tx_date t = sqlDate \<and> tx_amount t = amt
                       \<and> sameKind ty t \<and> inWindow s t
                       \<and> (ty = bill \<longrightarrow> bill_number t = None
                                       \<or> (truthy billNo \<noteq> None \<and> bill_number t = billNo)))"
    unfolding billClause_iff using k by blast
  then show "checkDuplicateTransaction s partyId d amt ty billNo =
                Inr (\<exists>t\<in>set (transactions s).
                       party_id t = Some pid \<and> tx_date t = sqlDate \<and> tx_amount t = amt
                       \<and> sameKind ty t \<and> inWindow s t
                       \<and> (ty = bill \<longrightarrow> bill_number t = None
                                       \<or> (truthy billNo \<noteq> None \<and> bill_number t = billNo)))"
    unfolding eq by simp
qed


theorem duplicate_policy_witness:
  "truthy (Some '''') = None
   \<and> checkDuplicateTransaction
        \<lparr>parties = [], staff = [],
         transactions =
           [\<lparr>tx_id = ''a'', tx_date = ''2025-01-20'', tx_type = bill, tx_amount = 100,
             tx_payment_mode = None, tx_expense_category = None, has_gst = 0,
             bill_number = None, tx_description = None, party_id = Some ''p1'', staff_id = None,
             running_balance = Some 100, created_at = 1000\<rparr>],
         snapshot = None, now = 2000\<rparr>
        (Some '''') ''20/1/25'' 100 bill None = Inr False
   \<and> truthy (Some ''p1'') = Some ''p1'' \<and> convertToSQLDate ''20/1/25'' = Inr ''2025-01-20''
   \<and> checkDuplicateTransaction
        \<lparr>parties = [], staff = [],
         transactions =
           [\<lparr>tx_id = ''a'', tx_date = ''2025-01-20'', tx_type = bill, tx_amount = 100,
             tx_payment_mode = None, tx_expense_category = None, has_gst = 0,
             bill_number = None, tx_description = None, party_id = Some ''p1'', staff_id = None,
             running_balance = Some 100, created_at = 1000\<rparr>],
         snapshot = None, now = 2000\<rparr>
        (Some ''p1'') ''20/1/25'' 100 bill None = Inr True
   \<and> checkDuplicateTransaction
        \<lparr>parties = [], staff = [],
         transactions =
           [\<lparr>tx_id = ''a'', tx_date = ''2025-01-20'', tx_type = bill, tx_amount = 100,
             tx_payment_mode = None, tx_expense_category = None, has_gst = 0,
             bill_number = None, tx_description = None, party_id = Some ''p1'', staff_id = None,
             running_balance = Some 100, created_at = 1000\<rparr>],
         snapshot = None, now = 90000\<rparr>
        (Some ''p1'') ''20/1/25'' 100 bill None = Inr False
   \<and> checkDuplicateTransaction
        \<lparr>parties = [], staff = [],
         transactions =
           [\<lparr>tx_id = ''a'', tx_date = ''2025-01-20'', tx_type = bill, tx_amount = 100,
             tx_payment_mode = None, tx_expense_category = None, has_gst = 0,
             bill_number = None, tx_description = None, party_id = Some ''p1'', staff_id = None,
             running_balance = Some 100, created_at = 1000\<rparr>],
         snapshot = None, now = 2000\<rparr>
        (Some ''p1'') ''20/1/25'' 100 sale None = Inr False"
proof -
  let ?t = "\<lparr>tx_id = ''a'', tx_date = ''2025-01-20'', tx_type = bill, tx_amount = 100,
             tx_payment_mode = None, tx_expense_category = None, has_gst = 0,
             bill_number = None, tx_description = None, party_id = Some ''p1'', staff_id = None,
             running_balance = Some 100, created_at = 1000\<rparr>"
  let ?s = "\<lparr>parties = [], staff = [], transactions = [?t], snapshot = None, now = 2000\<rparr>"
  let ?s' = "\<lparr>parties = [], staff = [], transactions = [?t], snapshot = None, now = 90000\<rparr>"
  have a: "truthy (Some '''') = None" by (simp add: truthy_def)
  have b: "truthy (Some ''p1'') = Some ''p1'' \<and> convertToSQLDate ''20/1/25'' = Inr ''2025-01-20''"
    by (simp add: db_defs str_defs)
  have c: "\<exists>t\<in>set (transactions ?s).
             party_id t = Some ''p1'' \<and> tx_date t = ''2025-01-20'' \<and> tx_amount t = 100
             \<and> sameKind bill t \<and> inWindow ?s t
             \<and> (bill = bill \<longrightarrow> bill_number t = None \<or> (truthy None \<noteq> None \<and> bill_number t = None))"
    by (simp add: sameKind_def inWindow_def)
  have r1: "checkDuplicateTransaction ?s (Some '''') ''20/1/25'' 100 bill None = Inr False"
    using duplicate_policy [of "Some ''''" ?s "''20/1/25''" 100 bill None] a by blast
  have r2: "checkDuplicateTransaction ?s (Some ''p1'') ''20/1/25'' 100 bill None = Inr True"
    using duplicate_policy [of "Some ''p1''" ?s "''20/1/25''" 100 bill None "''p1''" "''2025-01-20''"]
      b c by blast
  have n: "\<not> (\<exists>t\<in>set (transactions ?s').
                 party_id t = Some ''p1'' \<and> tx_date t = ''2025-01-20'' \<and> tx_amount t = 100
                 \<and> typeClause bill t \<and> inWindow ?s' t
                 \<and> (bill = bill \<longrightarrow> bill_number t = None
                                 \<or> (truthy None \<noteq> None \<and> bill_number t = None)))"
    by (simp add: inWindow_def)
  have tot: "checkDuplicateTransaction ?s' (Some ''p1'') ''20/1/25'' 100 bill None = Inr True
      \<or> checkDuplicateTransaction ?s' (Some ''p1'') ''20/1/25'' 100 bill None = Inr False"
    using b by (auto simp: checkDuplicateTransaction_def)
  have r3: "checkDuplicateTransaction ?s' (Some ''p1'') ''20/1/25'' 100 bill None = Inr False"
    using duplicate_policy [of "Some ''p1''" ?s' "''20/1/25''" 100 bill None "''p1''" "''2025-01-20''"]
      b n tot by blast
  have h: "(\<forall>t\<in>set (transactions ?s). tx_type t \<noteq> payment)
             \<and> (sale \<noteq> payment \<longrightarrow>
                  \<not> (\<exists>t\<in>set (transactions ?s).
                        party_id t = Some ''p1'' \<and> tx_date t = ''2025-01-20'' \<and> tx_amount t = 100
                        \<and> tx_type t = expense \<and> tx_expense_category t = Some ''party_payment''
                        \<and> inWindow ?s t))"
    by simp
  have k: "\<not> (\<exists>t\<in>set (transactions ?s).
                       party_id t = Some ''p1'' \<and> tx_date t = ''2025-01-20'' \<and> tx_amount t = 100
                       \<and> sameKind sale t \<and> inWindow ?s t
                       \<and> (sale = bill \<longrightarrow> bill_number t = None
                                       \<or> (truthy None \<noteq> None \<and> bill_number t = None)))"
    by (simp add: sameKind_def)
  from duplicate_policy [of "Some ''p1''" ?s "''20/1/25''" 100 sale None "''p1''" "''2025-01-20''"]
    b h
  have "checkDuplicateTransaction ?s (Some ''p1'') ''20/1/25'' 100 sale None =
      Inr (\<exists>t\<in>set (transactions ?s).
                       party_id t = Some ''p1'' \<and> tx_date t = ''2025-01-20'' \<and> tx_amount t = 100
                       \<and> sameKind sale t \<and> inWindow ?s t
                       \<and> (sale = bill \<longrightarrow> bill_number t = None
                                       \<or> (truthy None \<noteq> None \<and> bill_number t = None)))"
    by blast
  with k have r4: "checkDuplicateTransaction ?s (Some ''p1'') ''20/1/25'' 100 sale None = Inr False"
    by simp
  from a b r1 r2 r3 r4 show ?thesis by blast
qed

text \<open>
  A Bill submitted with bill number \<open>SV1\<close> is reported as a duplicate of a stored bill
  that has no bill number, although the numbers do not match and are not both absent.
\<close>

theorem duplicate_with_unnumbered_stored_bill:
  "checkDuplicateTransaction
     \<lparr>parties = [], staff = [],
      transactions =
        [\<lparr>tx_id = ''a'', tx_date = ''2025-01-20'', tx_type = bill, tx_amount = 100,
          tx_payment_mode = None, tx_expense_category = None, has_gst = 0,
          bill_number = None, tx_description = None, party_id = Some ''p1'', staff_id = None,
          running_balance = Some 100, created_at = 1000\<rparr>],
      snapshot = None, now = 2000\<rparr>
     (Some ''p1'') ''2025-01-20'' 100 bill (Some ''SV1'') = Inr True
   \<and> \<not> specDuplicate
        \<lparr>parties = [], staff = [],
         transactions =
           [\<lparr>tx_id = ''a'', tx_date = ''2025-01-20'', tx_type = bill, tx_amount = 100,
             tx_payment_mode = None, tx_expense_category = None, has_gst = 0,
             bill_number = None, tx_description = None, party_id = Some ''p1'', staff_id = None,
             running_balance = Some 100, created_at = 1000\<rparr>],
         snapshot = None, now = 2000\<rparr>
        (Some ''p1'') ''2025-01-20'' 100 bill (Some ''SV1'')"
  by (simp add: db_defs str_defs specDuplicate_def sameKind_def)

text \<open>
  The kind test of the query accepts a party payment for every submitted kind: a Bill is
  reported as a duplicate of a stored Payment of the same party, date and amount.
\<close>

theorem bill_matches_stored_payment:
  "checkDuplicateTransaction
     \<lparr>parties = [], staff = [],
      transactions =
        [\<lparr>tx_id = ''a'', tx_date = ''2025-01-20'', tx_type = expense, tx_amount = 100,
          tx_payment_mode = None, tx_expense_category = Some ''party_payment'', has_gst = 0,
          bill_number = None, tx_description = None, party_id = Some ''p1'', staff_id = None,
          running_balance = Some (- 100), created_at = 1000\<rparr>],
      snapshot = None, now = 2000\<rparr>
     (Some ''p1'') ''2025-01-20'' 100 bill None = Inr True"
  by (simp add: db_defs str_defs)

subsection \<open>Applying one entry\<close>

lemma insertTransaction_Inr:
  "insertTransaction row s = Inr s1 \<Longrightarrow> s1 = s\<lparr>transactions := transactions s @ [row]\<rparr>"
  by (auto simp: insertTransaction_def split: if_splits)

lemma processEntry_effect:
  assumes "processEntry entry staffId partyId s = Inr s'"
  shows "(\<exists>row. transactions s' = transactions s @ [row] \<and> tx_id row = entry_id (data entry)
            \<and> tx_amount row = amount (data entry) \<and> tx_date row = date (data entry))
         \<and> parties s' = (case truthy partyId of
                           Some pid \<Rightarrow> parties (addToBalance pid (balanceDelta entry) s)
                         | None \<Rightarrow> parties s)"
proof (cases "entry_type entry")
  case sale
  then show ?thesis
    using assms
    by (auto simp: processEntry_def processSaleEntry_def balanceDelta_def addToBalance_def map_idI
        split: sum.splits option.splits if_splits dest!: insertTransaction_Inr)
next
  case expense
  then show ?thesis
    using assms
    by (auto simp: processEntry_def processExpenseEntry_def balanceDelta_def addToBalance_def
        addToAdvance_def map_idI Let_def
        split: sum.splits option.splits if_splits dest!: insertTransaction_Inr)
next
  case bill
  then show ?thesis
    using assms
    by (auto simp: processEntry_def processBillEntry_def balanceDelta_def addToBalance_def
        split: sum.splits option.splits dest!: insertTransaction_Inr)
next
  case payment
  then show ?thesis
    using assms
    by (auto simp: processEntry_def processPaymentEntry_def balanceDelta_def addToBalance_def
        split: sum.splits option.splits dest!: insertTransaction_Inr)
qed

lemma resolveParty_transactions:
  "resolveParty newId pname s = (r, s1) \<Longrightarrow> transactions s1 = transactions s"
  by (auto simp: resolveParty_def insertParty_def split: option.splits sum.splits if_splits)

lemma submitStep_length:
  assumes "submitStep newId entry s = (Inr u, s')"
  shows "length (transactions s') = length (transactions s) + 1"
proof -
  from assms obtain partyId s1 where
    r: "resolveParty newId (party_name (data entry)) s = (Inr partyId, s1)"
    and p: "processEntry entry (resolveStaff (staff_name (data entry)) s1) partyId s1 = Inr s'"
    by (auto simp: submitStep_def split: prod.splits sum.splits)
  from processEntry_effect [OF p] have "length (transactions s') = length (transactions s1) + 1"
    by auto
  with resolveParty_transactions [OF r] show ?thesis by simp
qed

lemma submitLoop_length:
  "submitLoop gen k es s = (Inr u, s') \<Longrightarrow>
   length (transactions s') = length (transactions s) + length es"
proof (induction es arbitrary: k s)
  case Nil
  then show ?case by simp
next
  case (Cons e es)
  from Cons.prems obtain v s1 where
    1: "submitStep (gen k) e s = (Inr v, s1)" and 2: "submitLoop gen (Suc k) es s1 = (Inr u, s')"
    by (auto split: prod.splits sum.splits)
  from submitStep_length [OF 1] Cons.IH [OF 2] show ?case by simp
qed

lemma submitEntries_length:
  assumes "submitEntries gen es s = (Inr u, s')"
  shows "length (transactions s') = length (transactions s) + length es"
proof -
  from assms obtain s0 v s1 where
    b: "begin_transaction s = Inr s0" and l: "submitLoop gen 0 es s0 = (Inr v, s1)"
    and c: "commit s1 = Inr s'"
    by (auto simp: submitEntries_def rollbackAndThrow_def
        split: sum.splits prod.splits option.splits)
  have "transactions s0 = transactions s"
    using b by (auto simp: begin_transaction_def split: option.splits)
  moreover have "transactions s' = transactions s1"
    using c by (auto simp: commit_def split: option.splits)
  ultimately show ?thesis using submitLoop_length [OF l] by simp
qed

lemma bulkStep_effect:
  assumes nd: "checkDuplicateTransaction s (truthy partyId) (date (data entry)) (amount (data entry))
                 (entry_type entry) (billNumber (data entry)) = Inr False"
      and st: "bulkStep gen k partyId entry s = (Inr k', s1)"
  shows "if entry_type entry = bill \<or> entry_type entry = payment
         then (\<exists>row. transactions s1 = transactions s @ [row] \<and> tx_id row = gen k
                  \<and> tx_amount row = amount (data entry)
                  \<and> convertToSQLDate (date (data entry)) = Inr (tx_date row)
                  \<and> party_id row = truthy partyId)
              \<and> parties s1 = (case truthy partyId of
                                Some pid \<Rightarrow> parties (addToBalance pid (balanceDelta entry) s)
                              | None \<Rightarrow> parties s)
         else s1 = s"
  using st unfolding bulkStep_def nd
  by (cases "entry_type entry")
     (auto simp: balanceDelta_def addToBalance_def
        split: sum.splits option.splits if_splits dest!: insertTransaction_Inr)

text \<open>
  C6, as the code has it. In \<open>handleSubmit\<close>, applying an entry of any kind inserts exactly
  one transaction row, with the id, amount and date of the entry, and changes the balance of
  the resolved party by the amount for a Bill, by minus the amount for a Payment, by the
  amount for a Sale on credit, and not at all otherwise; a batch that is committed has added
  one row for each of its entries. In \<open>processBulkEntries\<close>, an entry that is not skipped
  as a duplicate inserts exactly one row and changes the balance of the given party in the
  same way when it is a Bill or a Payment; a Sale or an Expense entry leaves the store as it
  is there.
\<close>

theorem apply_step_effect:
  "(processEntry entry staffId partyId s = Inr s' \<longrightarrow>
      (\<exists>row. transactions s' = transactions s @ [row] \<and> tx_id row = entry_id (data entry)
          \<and> tx_amount row = amount (data entry) \<and> tx_date row = date (data entry))
      \<and> parties s' = (case truthy partyId of
                        Some pid \<Rightarrow> parties (addToBalance pid (balanceDelta entry) s)
                      | None \<Rightarrow> parties s))
   \<and> (submitEntries gen validEntries s = (Inr u, s2) \<longrightarrow>
        length (transactions s2) = length (transactions s) + length validEntries)
   \<and> (checkDuplicateTransaction s (truthy partyId) (date (data entry)) (amount (data entry))
          (entry_type entry) (billNumber (data entry)) = Inr False
        \<and> bulkStep gen k partyId entry s = (Inr k', s1) \<longrightarrow>
        (if entry_type entry = bill \<or> entry_type entry = payment
         then (\<exists>row. transactions s1 = transactions s @ [row] \<and> tx_id row = gen k
                  \<and> tx_amount row = amount (data entry)
                  \<and> convertToSQLDate (date (data entry)) = Inr (tx_date row)
                  \<and> party_id row = truthy partyId)
              \<and> parties s1 = (case truthy partyId of
                                Some pid \<Rightarrow> parties (addToBalance pid (balanceDelta entry) s)
                              | None \<Rightarrow> parties s)
         else s1 = s))"
  using processEntry_effect [of entry staffId partyId s s']
    submitEntries_length [of gen validEntries s u s2]
    bulkStep_effect [of s partyId entry gen k k' s1]
  by blast

theorem apply_step_effect_witness:
  "processEntry
     \<lparr>entry_type = bill,
      data = \<lparr>entry_id = ''e1'', date = ''2025-01-20'', amount = 100, payment_mode = None,
              party_name = Some ''Maa'', staff_name = None, description = None,
              billNumber = None, hasGST = 0, expense_category = None\<rparr>\<rparr>
     None (Some ''p1'')
     \<lparr>parties = [\<lparr>p_id = ''p1'', p_name = ''Maa'', credit_limit = 0, current_balance = 0\<rparr>],
      staff = [], transactions = [], snapshot = None, now = 1000\<rparr>
   = Inr \<lparr>parties = [\<lparr>p_id = ''p1'', p_name = ''Maa'', credit_limit = 0, current_balance = 100\<rparr>],
          staff = [],
          transactions =
            [\<lparr>tx_id = ''e1'', tx_date = ''2025-01-20'', tx_type = bill, tx_amount = 100,
              tx_payment_mode = None, tx_expense_category = None, has_gst = 0,
              bill_number = None, tx_description = None, party_id = Some ''p1'',
              staff_id = None, running_balance = None, created_at = 1000\<rparr>],
          snapshot = None, now = 1000\<rparr>
   \<and> submitEntries (\<lambda>k. ''a'')
       [\<lparr>entry_type = bill,
         data = \<lparr>entry_id = ''e1'', date = ''2025-01-20'', amount = 100, payment_mode = None,
                 party_name = Some ''Maa'', staff_name = None, description = None,
                 billNumber = None, hasGST = 0, expense_category = None\<rparr>\<rparr>]
       \<lparr>parties = [\<lparr>p_id = ''p1'', p_name = ''Maa'', credit_limit = 0, current_balance = 0\<rparr>],
        staff = [], transactions = [], snapshot = None, now = 1000\<rparr>
     = (Inr (),
        \<lparr>parties = [\<lparr>p_id = ''p1'', p_name = ''Maa'', credit_limit = 0, current_balance = 100\<rparr>],
          staff = [],
          transactions =
            [\<lparr>tx_id = ''e1'', tx_date = ''2025-01-20'', tx_type = bill, tx_amount = 100,
              tx_payment_mode = None, tx_expense_category = None, has_gst = 0,
              bill_number = None, tx_description = None, party_id = Some ''p1'',
              staff_id = None, running_balance = None, created_at = 1000\<rparr>],
          snapshot = None, now = 1000\<rparr>)
   \<and> checkDuplicateTransaction
       \<lparr>parties = [\<lparr>p_id = ''p1'', p_name = ''Maa'', credit_limit = 0, current_balance = 0\<rparr>],
        staff = [], transactions = [], snapshot = None, now = 1000\<rparr>
       (truthy (Some ''p1'')) ''2025-01-20'' 100 bill None = Inr False
   \<and> bulkStep (\<lambda>k. ''a'') 0 (Some ''p1'')
       \<lparr>entry_type = bill,
        data = \<lparr>entry_id = ''e1'', date = ''2025-01-20'', amount = 100, payment_mode = None,
                party_name = Some ''Maa'', staff_name = None, description = None,
                billNumber = None, hasGST = 0, expense_category = None\<rparr>\<rparr>
       \<lparr>parties = [\<lparr>p_id = ''p1'', p_name = ''Maa'', credit_limit = 0, current_balance = 0\<rparr>],
        staff = [], transactions = [], snapshot = None, now = 1000\<rparr>
     = (Inr 1,
        \<lparr>parties = [\<lparr>p_id = ''p1'', p_name = ''Maa'', credit_limit = 0, current_balance = 100\<rparr>],
          staff = [],
          transactions =
            [\<lparr>tx_id = ''a'', tx_date = ''2025-01-20'', tx_type = bill, tx_amount = 100,
              tx_payment_mode = None, tx_expense_category = None, has_gst = 0,
              bill_number = None, tx_description = None, party_id = Some ''p1'',
              staff_id = None, running_balance = None, created_at = 1000\<rparr>],
          snapshot = None, now = 1000\<rparr>)
   \<and> parties (addToBalance ''p1''
         (balanceDelta
            \<lparr>entry_type = bill,
             data = \<lparr>entry_id = ''e1'', date = ''2025-01-20'', amount = 100, payment_mode = None,
                     party_name = Some ''Maa'', staff_name = None, description = None,
                     billNumber = None, hasGST = 0, expense_category = None\<rparr>\<rparr>)
         \<lparr>parties = [\<lparr>p_id = ''p1'', p_name = ''Maa'', credit_limit = 0, current_balance = 0\<rparr>],
          staff = [], transactions = [], snapshot = None, now = 1000\<rparr>)
     = [\<lparr>p_id = ''p1'', p_name = ''Maa'', credit_limit = 0, current_balance = 100\<rparr>]"
proof -
  let ?Ebill = "\<lparr>entry_type = bill,
      data = \<lparr>entry_id = ''e1'', date = ''2025-01-20'', amount = 100::rat, payment_mode = None,
              party_name = Some ''Maa'', staff_name = None, description = None,
              billNumber = None, hasGST = 0, expense_category = None\<rparr>\<rparr>"
  let ?pzero = "\<lparr>p_id = ''p1'', p_name = ''Maa'', credit_limit = 0, current_balance = 0\<rparr>"
  let ?phundred = "\<lparr>p_id = ''p1'', p_name = ''Maa'', credit_limit = 0, current_balance = 100\<rparr>"
  let ?Sinit = "\<lparr>parties = [?pzero], staff = [], transactions = [], snapshot = None, now = 1000\<rparr>"
  let ?Sfirst = "\<lparr>parties = [?phundred], staff = [],
          transactions =
            [\<lparr>tx_id = ''e1'', tx_date = ''2025-01-20'', tx_type = bill, tx_amount = 100,
              tx_payment_mode = None, tx_expense_category = None, has_gst = 0,
              bill_number = None, tx_description = None, party_id = Some ''p1'',
              staff_id = None, running_balance = None, created_at = 1000\<rparr>],
          snapshot = None, now = 1000\<rparr>"
  let ?Ssecond = "\<lparr>parties = [?phundred], staff = [],
          transactions =
            [\<lparr>tx_id = ''a'', tx_date = ''2025-01-20'', tx_type = bill, tx_amount = 100,
              tx_payment_mode = None, tx_expense_category = None, has_gst = 0,
              bill_number = None, tx_description = None, party_id = Some ''p1'',
              staff_id = None, running_balance = None, created_at = 1000\<rparr>],
          snapshot = None, now = 1000\<rparr>"
  let ?A = "\<lambda>k::nat. ''a''"
  let ?CD = "checkDuplicateTransaction ?Sinit (truthy (Some ''p1'')) ''2025-01-20'' 100 bill None = Inr False"
  let ?PB = "parties (addToBalance ''p1'' (balanceDelta ?Ebill) ?Sinit) = [?phundred]"
  have h1: "processEntry ?Ebill None (Some ''p1'') ?Sinit = Inr ?Sfirst" by (simp add: db_defs submit_defs)
  have h2: "submitEntries ?A [?Ebill] ?Sinit = (Inr (), ?Sfirst)" by (simp add: db_defs submit_defs)
  have h3: ?CD by (simp add: db_defs str_defs)
  have h4: "bulkStep ?A 0 (Some ''p1'') ?Ebill ?Sinit = (Inr 1, ?Ssecond)" by (simp add: db_defs str_defs)
  have h3': "checkDuplicateTransaction ?Sinit (truthy (Some ''p1'')) (date (data ?Ebill))
      (amount (data ?Ebill)) (entry_type ?Ebill) (billNumber (data ?Ebill)) = Inr False"
    using h3 by simp
  have t: "truthy (Some ''p1'') = Some ''p1''" by (simp add: truthy_def)
  from apply_step_effect [where entry = ?Ebill and staffId = None and partyId = "Some ''p1''"
      and s = ?Sinit and s' = ?Sfirst and gen = ?A and validEntries = "[?Ebill]" and u = "()"
      and ?s2.0 = ?Sfirst and k = 0 and k' = 1 and ?s1.0 = ?Ssecond] h1 h2 h3' h4
  have "parties ?Sfirst = (case truthy (Some ''p1'') of
                        Some pid \<Rightarrow> parties (addToBalance pid (balanceDelta ?Ebill) ?Sinit)
                      | None \<Rightarrow> parties ?Sinit)"
    by blast
  then have h5: ?PB by (simp add: t)
  from h1 h2 h3 h4 h5 show ?thesis by blast
qed

text \<open>
  A Sale on credit handed to the loop of \<open>processBulkEntries\<close> is not a duplicate, and the
  step inserts no row and changes no balance.
\<close>

theorem bulk_step_ignores_credit_sale:
  "checkDuplicateTransaction
     \<lparr>parties = [\<lparr>p_id = ''p1'', p_name = ''Maa'', credit_limit = 0, current_balance = 0\<rparr>],
      staff = [], transactions = [], snapshot = None, now = 1000\<rparr>
     (truthy (Some ''p1'')) ''2025-01-20'' 9300 sale None = Inr False
   \<and> bulkStep (\<lambda>k. ''a'') 0 (Some ''p1'')
       \<lparr>entry_type = sale,
        data = \<lparr>entry_id = ''e1'', date = ''2025-01-20'', amount = 9300,
                payment_mode = Some ''credit'', party_name = Some ''Maa'', staff_name = None,
                description = None, billNumber = None, hasGST = 0, expense_category = None\<rparr>\<rparr>
       \<lparr>parties = [\<lparr>p_id = ''p1'', p_name = ''Maa'', credit_limit = 0, current_balance = 0\<rparr>],
        staff = [], transactions = [], snapshot = None, now = 1000\<rparr>
     = (Inr 0,
        \<lparr>parties = [\<lparr>p_id = ''p1'', p_name = ''Maa'', credit_limit = 0, current_balance = 0\<rparr>],
         staff = [], transactions = [], snapshot = None, now = 1000\<rparr>)"
  by (simp add: db_defs str_defs)

subsection \<open>All or nothing\<close>

lemma truthy_idem: "truthy (truthy x) = truthy x"
  by (auto simp: truthy_def split: option.splits)

lemma addToBalance_fields:
  "snapshot (addToBalance pid x s) = snapshot s" "now (addToBalance pid x s) = now s"
  "staff (addToBalance pid x s) = staff s" "transactions (addToBalance pid x s) = transactions s"
  by (simp_all add: addToBalance_def)

lemma bulkStep_frame:
  assumes "bulkStep gen k partyId entry s = (r, s1)"
  shows "snapshot s1 = snapshot s \<and> now s1 = now s \<and> staff s1 = staff s
         \<and> (\<exists>new. transactions s1 = transactions s @ new)"
  using assms
  by (auto simp: bulkStep_def addToBalance_fields
      split: sum.splits option.splits if_splits dest!: insertTransaction_Inr)

lemma bulkLoop_frame:
  "bulkLoop gen k partyId es s = (r, s1) \<Longrightarrow>
   snapshot s1 = snapshot s \<and> now s1 = now s \<and> staff s1 = staff s
   \<and> (\<exists>new. transactions s1 = transactions s @ new)"
proof (induction es arbitrary: k s)
  case Nil
  then show ?case by simp
next
  case (Cons e es)
  obtain r0 s0 where st: "bulkStep gen k partyId e s = (r0, s0)" by (cases "bulkStep gen k partyId e s")
  note f0 = bulkStep_frame [OF st]
  show ?case
  proof (cases r0)
    case (Inl err)
    with Cons.prems st have "s1 = s0" by simp
    with f0 show ?thesis by simp
  next
    case (Inr k1)
    with Cons.prems st have "bulkLoop gen k1 partyId es s0 = (r, s1)" by simp
    from Cons.IH [OF this] f0 show ?thesis by auto
  qed
qed

lemma sortEntries_set: "sortEntries getTime entries = Inr es \<Longrightarrow> set es = set entries"
  by (auto simp: sortEntries_def split: if_splits)

lemma checkDuplicate_store:
  "transactions s1 = transactions s \<Longrightarrow> now s1 = now s \<Longrightarrow>
   checkDuplicateTransaction s1 p d a ty b = checkDuplicateTransaction s p d a ty b"
  by (simp add: checkDuplicateTransaction_def inWindow_def split: option.splits sum.splits)

lemma checkDuplicate_row:
  "checkDuplicateTransaction s (truthy partyId) (date (data e)) (amount (data e)) (entry_type e)
     (billNumber (data e)) = Inr True
   \<longleftrightarrow> truthy partyId \<noteq> None \<and> (\<exists>t\<in>set (transactions s). duplicateOf partyId e t \<and> inWindow s t)"
proof (cases "truthy partyId")
  case None
  then show ?thesis by (simp add: checkDuplicateTransaction_def truthy_def)
next
  case (Some pid)
  have tt: "truthy (truthy partyId) = Some pid" unfolding truthy_idem by (rule Some)
  show ?thesis
  proof (cases "convertToSQLDate (date (data e))")
    case (Inl err)
    then show ?thesis using tt by (simp add: checkDuplicateTransaction_def duplicateOf_def)
  next
    case (Inr sqlDate)
    show ?thesis
      unfolding checkDuplicate_eq [OF tt Inr] duplicateOf_def Inr using Some by auto
  qed
qed

lemma checkDuplicate_append:
  assumes tr: "transactions s1 = transactions s @ new" and nw: "now s1 = now s"
      and dup: "checkDuplicateTransaction s1 (truthy partyId) (date (data e)) (amount (data e))
                  (entry_type e) (billNumber (data e)) = Inr True"
  shows "checkDuplicateTransaction s (truthy partyId) (date (data e)) (amount (data e))
           (entry_type e) (billNumber (data e)) = Inr True
         \<or> (\<exists>t\<in>set new. duplicateOf partyId e t)"
proof -
  from dup obtain t where p: "truthy partyId \<noteq> None" and t: "t \<in> set (transactions s1)"
    "duplicateOf partyId e t" "inWindow s1 t"
    unfolding checkDuplicate_row by blast
  from t(1) tr have "t \<in> set (transactions s) \<or> t \<in> set new" by simp
  then show ?thesis
  proof
    assume "t \<in> set (transactions s)"
    moreover have "inWindow s t" using t(3) nw by (simp add: inWindow_def)
    ultimately show ?thesis unfolding checkDuplicate_row using p t(2) by blast
  next
    assume "t \<in> set new"
    with t(2) show ?thesis by blast
  qed
qed

lemma checkDuplicate_mono:
  fixes e :: "rat ParsedEntry"
  assumes tr: "transactions s1 = transactions s @ new" and nw: "now s1 = now s"
      and dup: "checkDuplicateTransaction s (truthy partyId) (date (data e)) (amount (data e))
                  (entry_type e) (billNumber (data e)) = Inr True"
  shows "checkDuplicateTransaction s1 (truthy partyId) (date (data e)) (amount (data e))
           (entry_type e) (billNumber (data e)) = Inr True"
proof -
  from dup obtain t where p: "truthy partyId \<noteq> None" and t: "t \<in> set (transactions s)"
    "duplicateOf partyId e t" "inWindow s t"
    unfolding checkDuplicate_row by blast
  have "t \<in> set (transactions s1)" using t(1) tr by simp
  moreover have "inWindow s1 t" using t(3) nw by (simp add: inWindow_def)
  ultimately show ?thesis unfolding checkDuplicate_row using p t(2) by blast
qed

lemma billClause_own:
  "bill_number t = (if ty = bill then truthy billNo else None) \<Longrightarrow> billClause ty billNo t"
  by (auto simp: billClause_def truthy_def split: option.splits if_splits)

lemma postedRow_duplicateOf: "postedRow partyId c e t \<Longrightarrow> duplicateOf partyId e t"
  unfolding postedRow_def duplicateOf_def
  by (auto intro: billClause_own sameKind_typeClause)

lemma bulkStep_cases:
  assumes st: "bulkStep gen k partyId e s = (Inr k', s1)"
  shows "now s1 = now s
         \<and> ((transactions s1 = transactions s
              \<and> (entry_type e = bill \<or> entry_type e = payment \<longrightarrow>
                   checkDuplicateTransaction s (truthy partyId) (date (data e)) (amount (data e))
                     (entry_type e) (billNumber (data e)) = Inr True))
            \<or> (\<exists>row. transactions s1 = transactions s @ [row] \<and> postedRow partyId (now s) e row
                  \<and> checkDuplicateTransaction s (truthy partyId) (date (data e)) (amount (data e))
                       (entry_type e) (billNumber (data e)) = Inr False))"
proof -
  from st obtain dup where
    cd: "checkDuplicateTransaction s (truthy partyId) (date (data e)) (amount (data e))
           (entry_type e) (billNumber (data e)) = Inr dup"
    by (auto simp: bulkStep_def split: sum.splits)
  have nw: "now s1 = now s" using bulkStep_frame [OF st] by simp
  show ?thesis
  proof (cases dup)
    case True
    with st cd have "s1 = s" by (simp add: bulkStep_def)
    with cd True show ?thesis by simp
  next
    case False
    have cdF: "checkDuplicateTransaction s (truthy partyId) (date (data e))
           (amount (data e)) (entry_type e) (billNumber (data e)) = Inr False"
      using cd False by simp
    show ?thesis
    proof (cases "entry_type e = bill \<or> entry_type e = payment")
      case ty: True
      from st obtain sqlDate where sq: "convertToSQLDate (date (data e)) = Inr sqlDate"
        unfolding bulkStep_def cdF by (auto split: sum.splits)
      have "\<exists>row. transactions s1 = transactions s @ [row] \<and> postedRow partyId (now s) e row"
        using st ty unfolding bulkStep_def cdF sq
        by (auto simp: postedRow_def sameKind_def addToBalance_fields sq
            split: sum.splits option.splits if_splits dest!: insertTransaction_Inr)
      with nw cdF show ?thesis by blast
    next
      case ty: False
      from bulkStep_effect [OF cdF st] ty have "s1 = s" by simp
      with ty show ?thesis by simp
    qed
  qed
qed

lemma bulkLoop_inv:
  "bulkLoop gen k partyId es s = (Inr k', s1) \<Longrightarrow>
   \<exists>new. transactions s1 = transactions s @ new
     \<and> length new \<le> length (filter (\<lambda>e. entry_type e = bill \<or> entry_type e = payment) es)
     \<and> (\<forall>t\<in>set new. \<exists>e\<in>set es. postedRow partyId (now s) e t
           \<and> checkDuplicateTransaction s (truthy partyId) (date (data e)) (amount (data e))
               (entry_type e) (billNumber (data e)) \<noteq> Inr True)
     \<and> (\<forall>e\<in>set es. entry_type e = bill \<or> entry_type e = payment \<longrightarrow>
           checkDuplicateTransaction s (truthy partyId) (date (data e)) (amount (data e))
             (entry_type e) (billNumber (data e)) = Inr True
           \<or> (\<exists>t\<in>set new. duplicateOf partyId e t))"
proof (induction es arbitrary: k s)
  case Nil
  then show ?case by simp
next
  case (Cons e es)
  from Cons.prems obtain k1 s0 where st: "bulkStep gen k partyId e s = (Inr k1, s0)"
    and lp: "bulkLoop gen k1 partyId es s0 = (Inr k', s1)"
    by (auto split: prod.splits sum.splits)
  from bulkStep_cases [OF st] have nw: "now s0 = now s" by simp
  have "\<exists>new0. transactions s0 = transactions s @ new0
      \<and> length new0 \<le> (if entry_type e = bill \<or> entry_type e = payment then 1 else 0)
      \<and> (\<forall>t\<in>set new0. postedRow partyId (now s) e t
            \<and> checkDuplicateTransaction s (truthy partyId) (date (data e)) (amount (data e))
                (entry_type e) (billNumber (data e)) \<noteq> Inr True)
      \<and> (entry_type e = bill \<or> entry_type e = payment \<longrightarrow>
           checkDuplicateTransaction s (truthy partyId) (date (data e)) (amount (data e))
             (entry_type e) (billNumber (data e)) = Inr True
           \<or> (\<exists>t\<in>set new0. duplicateOf partyId e t))"
  proof -
    from bulkStep_cases [OF st] consider
      (skip) "transactions s0 = transactions s"
        "entry_type e = bill \<or> entry_type e = payment \<longrightarrow>
           checkDuplicateTransaction s (truthy partyId) (date (data e)) (amount (data e))
             (entry_type e) (billNumber (data e)) = Inr True"
      | (ins) row where "transactions s0 = transactions s @ [row]" "postedRow partyId (now s) e row"
        "checkDuplicateTransaction s (truthy partyId) (date (data e)) (amount (data e))
          (entry_type e) (billNumber (data e)) = Inr False"
      by blast
    then show ?thesis
    proof cases
      case skip
      then show ?thesis by (intro exI [of _ "[]"]) simp
    next
      case ins
      from ins(2) have ty: "entry_type e = bill \<or> entry_type e = payment" by (simp add: postedRow_def)
      from ins(2) have "duplicateOf partyId e row" by (rule postedRow_duplicateOf)
      with ins ty show ?thesis by (intro exI [of _ "[row]"]) simp
    qed
  qed
  then obtain new0 where
    tr0: "transactions s0 = transactions s @ new0"
    and len0: "length new0 \<le> (if entry_type e = bill \<or> entry_type e = payment then 1 else 0)"
    and rows0: "\<forall>t\<in>set new0. postedRow partyId (now s) e t
            \<and> checkDuplicateTransaction s (truthy partyId) (date (data e)) (amount (data e))
                (entry_type e) (billNumber (data e)) \<noteq> Inr True"
    and own0: "entry_type e = bill \<or> entry_type e = payment \<longrightarrow>
           checkDuplicateTransaction s (truthy partyId) (date (data e)) (amount (data e))
             (entry_type e) (billNumber (data e)) = Inr True
           \<or> (\<exists>t\<in>set new0. duplicateOf partyId e t)"
    by blast
  from Cons.IH [OF lp] obtain new1 where
    tr1: "transactions s1 = transactions s0 @ new1"
    and len1: "length new1 \<le> length (filter (\<lambda>e. entry_type e = bill \<or> entry_type e = payment) es)"
    and rows1: "\<forall>t\<in>set new1. \<exists>e\<in>set es. postedRow partyId (now s0) e t
            \<and> checkDuplicateTransaction s0 (truthy partyId) (date (data e)) (amount (data e))
                (entry_type e) (billNumber (data e)) \<noteq> Inr True"
    and dup1: "\<forall>e\<in>set es. entry_type e = bill \<or> entry_type e = payment \<longrightarrow>
           checkDuplicateTransaction s0 (truthy partyId) (date (data e)) (amount (data e))
             (entry_type e) (billNumber (data e)) = Inr True
           \<or> (\<exists>t\<in>set new1. duplicateOf partyId e t)"
    by blast
  have tr: "transactions s1 = transactions s @ (new0 @ new1)" using tr0 tr1 by simp
  have len: "length (new0 @ new1)
      \<le> length (filter (\<lambda>e. entry_type e = bill \<or> entry_type e = payment) (e # es))"
    using len0 len1 by (auto split: if_splits)
  have rows: "\<forall>t\<in>set (new0 @ new1). \<exists>x\<in>set (e # es). postedRow partyId (now s) x t
            \<and> checkDuplicateTransaction s (truthy partyId) (date (data x)) (amount (data x))
                (entry_type x) (billNumber (data x)) \<noteq> Inr True"
  proof
    fix t
    assume "t \<in> set (new0 @ new1)"
    then consider "t \<in> set new0" | "t \<in> set new1" by auto
    then show "\<exists>x\<in>set (e # es). postedRow partyId (now s) x t
            \<and> checkDuplicateTransaction s (truthy partyId) (date (data x)) (amount (data x))
                (entry_type x) (billNumber (data x)) \<noteq> Inr True"
    proof cases
      case 1
      with rows0 show ?thesis by simp
    next
      case 2
      with rows1 obtain x where x: "x \<in> set es" "postedRow partyId (now s0) x t"
        "checkDuplicateTransaction s0 (truthy partyId) (date (data x)) (amount (data x))
          (entry_type x) (billNumber (data x)) \<noteq> Inr True"
        by blast
      from x(3) checkDuplicate_mono [OF tr0 nw, of partyId x]
      have "checkDuplicateTransaction s (truthy partyId) (date (data x)) (amount (data x))
          (entry_type x) (billNumber (data x)) \<noteq> Inr True"
        by blast
      with x(1,2) nw show ?thesis by auto
    qed
  qed
  have dups: "checkDuplicateTransaction s (truthy partyId) (date (data x)) (amount (data x))
             (entry_type x) (billNumber (data x)) = Inr True
           \<or> (\<exists>t\<in>set (new0 @ new1). duplicateOf partyId x t)"
    if x: "x \<in> set (e # es)" and ty: "entry_type x = bill \<or> entry_type x = payment" for x
  proof (cases "x = e")
    case True
    with own0 ty show ?thesis by auto
  next
    case False
    with x have "x \<in> set es" by simp
    with dup1 ty have "checkDuplicateTransaction s0 (truthy partyId) (date (data x)) (amount (data x))
             (entry_type x) (billNumber (data x)) = Inr True
           \<or> (\<exists>t\<in>set new1. duplicateOf partyId x t)" by blast
    then show ?thesis
    proof
      assume "checkDuplicateTransaction s0 (truthy partyId) (date (data x)) (amount (data x))
             (entry_type x) (billNumber (data x)) = Inr True"
      from checkDuplicate_append [OF tr0 nw this] show ?thesis by auto
    next
      assume "\<exists>t\<in>set new1. duplicateOf partyId x t"
      then show ?thesis by auto
    qed
  qed
  from tr len rows dups show ?case by blast
qed

lemma length_filter_insort_key:
  "length (filter P (insort_key f x xs)) = length (filter P (x # xs))"
  by (induction xs) auto

lemma length_filter_sort_key: "length (filter P (sort_key f xs)) = length (filter P xs)"
  by (induction xs) (auto simp: length_filter_insort_key)

lemma sortEntries_filter:
  "sortEntries getTime entries = Inr es \<Longrightarrow> length (filter P es) = length (filter P entries)"
  by (auto simp: sortEntries_def length_filter_sort_key split: if_splits)

lemma recalculate_rows:
  "\<exists>g. (\<forall>t. \<exists>v. g t = t\<lparr>running_balance := v\<rparr>)
     \<and> transactions (snd (recalculatePartyBalance pid s)) = map g (transactions s)
     \<and> snapshot (snd (recalculatePartyBalance pid s)) = snapshot s
     \<and> now (snd (recalculatePartyBalance pid s)) = now s"
proof (cases "selectLedger pid (transactions s) = []")
  case True
  have "\<forall>t::Transaction. \<exists>v. t = t\<lparr>running_balance := v\<rparr>"
  proof
    fix t :: Transaction
    have "t = t\<lparr>running_balance := running_balance t\<rparr>" by simp
    then show "\<exists>v. t = t\<lparr>running_balance := v\<rparr>" ..
  qed
  then show ?thesis
    using True by (intro exI [of _ "\<lambda>t. t"]) (simp add: recalculate_eq)
next
  case False
  define g :: "Transaction \<Rightarrow> Transaction" where
    "g = (\<lambda>t. case lastWrite (selectLedger pid (transactions s)) 0 (tx_id t) of
                 None \<Rightarrow> t | Some v \<Rightarrow> t\<lparr>running_balance := Some v\<rparr>)"
  have gex: "\<exists>v. g x = x\<lparr>running_balance := v\<rparr>" for x
    by (cases "lastWrite (selectLedger pid (transactions s)) 0 (tx_id x)")
       (auto simp: g_def intro: exI [of _ "running_balance x"])
  show ?thesis
    using False gex by (intro exI [of _ g]) (simp add: recalculate_eq g_def setBalance_def)
qed


lemma running_balance_irrelevant:
  "postedRow p c e (t\<lparr>running_balance := v\<rparr>) = postedRow p c e t"
  "duplicateOf p e (t\<lparr>running_balance := v\<rparr>) = duplicateOf p e t"
  "inWindow s (t\<lparr>running_balance := v\<rparr>) = inWindow s t"
  by (simp_all add: postedRow_def duplicateOf_def sameKind_def typeClause_def billClause_def
      inWindow_def)

text \<open>
  C1, as the code has it. If \<open>processBulkEntries\<close> throws, whatever the step that failed
  (the start of the transaction, the conversion of a date in the sort or in the loop, the
  duplicate check, an insertion), the tables afterwards are the tables before the call: no
  row of the batch is kept and no balance is changed. If it completes, the transaction is
  committed and, with \<open>n\<close> the number of rows stored before the call:
  the first \<open>n\<close> rows are the rows stored before the call, up to their running balance;
  every row after them is the row of a Bill or a Payment entry of the batch that the
  duplicate check does not match against a row stored before the call (a bill row with the
  bill number of the entry, or a party payment), for the given party, with the date and
  the amount of the entry, created now; there is at most one such row for each Bill or
  Payment entry, so Sale and Expense entries are not posted by this operation;
  every Bill and Payment entry is matched, under the conditions of the duplicate check, by a
  row of the final table created within the window; an entry that the duplicate check does
  not match against a row stored before the call is matched by a row added by the call;
  and that row is the entry's own row when no other entry of the batch has its date and
  amount.
\<close>

theorem bulk_apply_atomic:
  "(processBulkEntries getTime gen partyId entries s = (Inl e, s') \<longrightarrow>
      parties s' = parties s \<and> staff s' = staff s \<and> transactions s' = transactions s)
   \<and> (processBulkEntries getTime gen partyId entries s = (Inr u, s') \<longrightarrow>
        snapshot s' = None
        \<and> length (transactions s) \<le> length (transactions s')
        \<and> length (transactions s')
            \<le> length (transactions s)
              + length (filter (\<lambda>entry. entry_type entry = bill \<or> entry_type entry = payment) entries)
        \<and> map (\<lambda>t. t\<lparr>running_balance := None\<rparr>) (take (length (transactions s)) (transactions s'))
            = map (\<lambda>t. t\<lparr>running_balance := None\<rparr>) (transactions s)
        \<and> (\<forall>t\<in>set (drop (length (transactions s)) (transactions s')).
              \<exists>entry\<in>set entries. postedRow partyId (now s) entry t
                  \<and> checkDuplicateTransaction s (truthy partyId) (date (data entry))
                        (amount (data entry)) (entry_type entry) (billNumber (data entry))
                      \<noteq> Inr True)
        \<and> (\<forall>entry\<in>set entries. entry_type entry = bill \<or> entry_type entry = payment \<longrightarrow>
              (\<exists>t\<in>set (transactions s'). duplicateOf partyId entry t \<and> inWindow s' t))
        \<and> (\<forall>entry\<in>set entries.
              (entry_type entry = bill \<or> entry_type entry = payment)
              \<and> checkDuplicateTransaction s (truthy partyId) (date (data entry)) (amount (data entry))
                  (entry_type entry) (billNumber (data entry)) \<noteq> Inr True \<longrightarrow>
              (\<exists>t\<in>set (drop (length (transactions s)) (transactions s')). duplicateOf partyId entry t))
        \<and> (\<forall>entry\<in>set entries.
              (entry_type entry = bill \<or> entry_type entry = payment)
              \<and> checkDuplicateTransaction s (truthy partyId) (date (data entry)) (amount (data entry))
                  (entry_type entry) (billNumber (data entry)) \<noteq> Inr True
              \<and> (\<forall>other\<in>set entries. other \<noteq> entry \<longrightarrow>
                    amount (data other) \<noteq> amount (data entry)
                    \<or> convertToSQLDate (date (data other)) \<noteq> convertToSQLDate (date (data entry))) \<longrightarrow>
              (\<exists>t\<in>set (drop (length (transactions s)) (transactions s')).
                  postedRow partyId (now s) entry t)))"
proof (cases "begin_transaction s")
  case (Inl err)
  then show ?thesis by (simp add: processBulkEntries_def)
next
  case (Inr s0)
  then have s0: "s0 = s\<lparr>snapshot := Some (parties s, staff s, transactions s)\<rparr>"
    by (auto simp: begin_transaction_def split: option.splits)
  have rb: "rollbackAndThrow x t = (Inl x, t\<lparr>parties := parties s, staff := staff s,
                transactions := transactions s, snapshot := None\<rparr>)"
    if "snapshot t = Some (parties s, staff s, transactions s)" for x t
    using that by (simp add: rollbackAndThrow_def rollback_def)
  show ?thesis
  proof (cases "sortEntries getTime entries")
    case (Inl err)
    have "processBulkEntries getTime gen partyId entries s = rollbackAndThrow err s0"
      using Inr Inl by (simp add: processBulkEntries_def)
    also have "\<dots> = (Inl err, s0\<lparr>parties := parties s, staff := staff s,
                transactions := transactions s, snapshot := None\<rparr>)"
      by (rule rb) (simp add: s0)
    finally show ?thesis by auto
  next
    case srt: (Inr sortedEntries)
    obtain r s1 where lp: "bulkLoop gen 0 partyId sortedEntries s0 = (r, s1)"
      by (cases "bulkLoop gen 0 partyId sortedEntries s0")
    note fr = bulkLoop_frame [OF lp]
    have sn1: "snapshot s1 = Some (parties s, staff s, transactions s)" using fr by (simp add: s0)
    show ?thesis
    proof (cases r)
      case (Inl err)
      have "processBulkEntries getTime gen partyId entries s = rollbackAndThrow err s1"
        using Inr srt lp Inl by (simp add: processBulkEntries_def)
      also have "\<dots> = (Inl err, s1\<lparr>parties := parties s, staff := staff s,
                transactions := transactions s, snapshot := None\<rparr>)"
        by (rule rb) (rule sn1)
      finally show ?thesis by auto
    next
      case ok: (Inr k')
      define s2 where "s2 = (case truthy partyId of
                                 Some pid \<Rightarrow> snd (recalculatePartyBalance pid s1)
                               | None \<Rightarrow> s1)"
      define sf where "sf = s2\<lparr>snapshot := None\<rparr>"
      define n where "n = length (transactions s)"
      have tr0: "transactions s0 = transactions s" and nw0: "now s0 = now s" by (simp_all add: s0)
      from bulkLoop_inv [OF lp [unfolded ok]] obtain new where
        tr1: "transactions s1 = transactions s0 @ new"
        and len1: "length new
            \<le> length (filter (\<lambda>e. entry_type e = bill \<or> entry_type e = payment) sortedEntries)"
        and rows1: "\<forall>t\<in>set new. \<exists>e\<in>set sortedEntries. postedRow partyId (now s0) e t
            \<and> checkDuplicateTransaction s0 (truthy partyId) (date (data e)) (amount (data e))
                (entry_type e) (billNumber (data e)) \<noteq> Inr True"
        and dup1: "\<forall>e\<in>set sortedEntries. entry_type e = bill \<or> entry_type e = payment \<longrightarrow>
           checkDuplicateTransaction s0 (truthy partyId) (date (data e)) (amount (data e))
             (entry_type e) (billNumber (data e)) = Inr True
           \<or> (\<exists>t\<in>set new. duplicateOf partyId e t)"
        by blast
      have "\<exists>g. (\<forall>t. \<exists>v. g t = t\<lparr>running_balance := v\<rparr>)
          \<and> transactions s2 = map g (transactions s1)
          \<and> snapshot s2 = snapshot s1 \<and> now s2 = now s1"
      proof (cases "truthy partyId")
        case None
        have "\<exists>v. t = t\<lparr>running_balance := v\<rparr>" for t :: Transaction
          by (rule exI [of _ "running_balance t"]) simp
        then show ?thesis using None by (intro exI [of _ "\<lambda>t. t"]) (simp add: s2_def)
      next
        case (Some pid)
        then have "s2 = snd (recalculatePartyBalance pid s1)" by (simp add: s2_def)
        with recalculate_rows [of pid s1] show ?thesis by simp
      qed
      then obtain g where g: "\<And>t. \<exists>v. g t = t\<lparr>running_balance := v\<rparr>"
        and tr2: "transactions s2 = map g (transactions s1)"
        and sn2: "snapshot s2 = snapshot s1" and nw2: "now s2 = now s1"
        by blast
      have cm: "commit s2 = Inr sf"
        using sn2 sn1 by (simp add: commit_def sf_def)
      have res: "processBulkEntries getTime gen partyId entries s = (Inr (), sf)"
        using Inr srt lp ok cm by (simp add: processBulkEntries_def s2_def Let_def)
      have gp: "postedRow p c x (g t) = postedRow p c x t" for p c x t
        using g [of t] by (auto simp: running_balance_irrelevant)
      have gd: "duplicateOf p x (g t) = duplicateOf p x t" for p x t
        using g [of t] by (auto simp: running_balance_irrelevant)
      have gw: "inWindow z (g t) = inWindow z t" for z t
        using g [of t] by (auto simp: running_balance_irrelevant)
      have gn: "(g t)\<lparr>running_balance := None\<rparr> = t\<lparr>running_balance := None\<rparr>" for t
        using g [of t] by auto
      have trf: "transactions sf = map g (transactions s) @ map g new"
        by (simp add: sf_def tr2 tr1 tr0)
      have tk: "take n (transactions sf) = map g (transactions s)"
        by (simp add: trf n_def)
      have dr: "drop n (transactions sf) = map g new"
        by (simp add: trf n_def)
      have nwf: "now sf = now s" using fr by (simp add: sf_def nw2 nw0)
      have sets: "set sortedEntries = set entries" using sortEntries_set [OF srt] .
      have c1: "snapshot sf = None" by (simp add: sf_def)
      have c2: "n \<le> length (transactions sf)" by (simp add: trf n_def)
      have c3: "length (transactions sf)
            \<le> n + length (filter (\<lambda>entry. entry_type entry = bill \<or> entry_type entry = payment) entries)"
        using len1 by (simp add: trf n_def sortEntries_filter [OF srt])
      have c4: "map (\<lambda>t. t\<lparr>running_balance := None\<rparr>) (take n (transactions sf))
            = map (\<lambda>t. t\<lparr>running_balance := None\<rparr>) (transactions s)"
        by (simp add: tk gn)
      have c5: "\<forall>t\<in>set (drop n (transactions sf)).
              \<exists>entry\<in>set entries. postedRow partyId (now s) entry t
                  \<and> checkDuplicateTransaction s (truthy partyId) (date (data entry))
                        (amount (data entry)) (entry_type entry) (billNumber (data entry))
                      \<noteq> Inr True"
        using rows1 by (auto simp: dr gp sets nw0 checkDuplicate_store [OF tr0 nw0])
      have dupS: "checkDuplicateTransaction s (truthy partyId) (date (data x)) (amount (data x))
             (entry_type x) (billNumber (data x)) = Inr True
           \<or> (\<exists>t\<in>set new. duplicateOf partyId x t)"
        if "x \<in> set entries" "entry_type x = bill \<or> entry_type x = payment" for x
        using dup1 that sets checkDuplicate_store [OF tr0 nw0] by auto
      have c7: "\<forall>entry\<in>set entries.
              (entry_type entry = bill \<or> entry_type entry = payment)
              \<and> checkDuplicateTransaction s (truthy partyId) (date (data entry)) (amount (data entry))
                  (entry_type entry) (billNumber (data entry)) \<noteq> Inr True \<longrightarrow>
              (\<exists>t\<in>set (drop n (transactions sf)). duplicateOf partyId entry t)"
      proof (intro ballI impI)
        fix x
        assume x: "x \<in> set entries"
          and h: "(entry_type x = bill \<or> entry_type x = payment)
              \<and> checkDuplicateTransaction s (truthy partyId) (date (data x)) (amount (data x))
                  (entry_type x) (billNumber (data x)) \<noteq> Inr True"
        from dupS [OF x] h obtain t where "t \<in> set new" "duplicateOf partyId x t" by blast
        then have "g t \<in> set (map g new)" "duplicateOf partyId x (g t)" by (simp_all add: gd)
        then show "\<exists>t\<in>set (drop n (transactions sf)). duplicateOf partyId x t"
          unfolding dr by blast
      qed
      have c6: "\<forall>entry\<in>set entries. entry_type entry = bill \<or> entry_type entry = payment \<longrightarrow>
              (\<exists>t\<in>set (transactions sf). duplicateOf partyId entry t \<and> inWindow sf t)"
      proof (intro ballI impI)
        fix x
        assume x: "x \<in> set entries" and ty: "entry_type x = bill \<or> entry_type x = payment"
        from dupS [OF x ty]
        show "\<exists>t\<in>set (transactions sf). duplicateOf partyId x t \<and> inWindow sf t"
        proof
          assume "checkDuplicateTransaction s (truthy partyId) (date (data x)) (amount (data x))
             (entry_type x) (billNumber (data x)) = Inr True"
          then obtain t where t: "t \<in> set (transactions s)" "duplicateOf partyId x t" "inWindow s t"
            unfolding checkDuplicate_row by blast
          have "g t \<in> set (transactions sf)" using t(1) by (simp add: trf)
          moreover have "duplicateOf partyId x (g t)" using t(2) by (simp add: gd)
          moreover have "inWindow sf t" using t(3) nwf by (simp add: inWindow_def)
          then have "inWindow sf (g t)" by (simp only: gw)
          ultimately show ?thesis by blast
        next
          assume "\<exists>t\<in>set new. duplicateOf partyId x t"
          then obtain t where t: "t \<in> set new" "duplicateOf partyId x t" by blast
          from rows1 t(1) have "created_at t = now s" by (auto simp: postedRow_def nw0)
          then have "inWindow sf t" using nwf by (simp add: inWindow_def)
          then have "inWindow sf (g t)" by (simp only: gw)
          moreover have "g t \<in> set (transactions sf)" using t(1) by (simp add: trf)
          moreover have "duplicateOf partyId x (g t)" using t(2) by (simp add: gd)
          ultimately show ?thesis by blast
        qed
      qed
      have c8: "\<forall>entry\<in>set entries.
              (entry_type entry = bill \<or> entry_type entry = payment)
              \<and> checkDuplicateTransaction s (truthy partyId) (date (data entry)) (amount (data entry))
                  (entry_type entry) (billNumber (data entry)) \<noteq> Inr True
              \<and> (\<forall>other\<in>set entries. other \<noteq> entry \<longrightarrow>
                    amount (data other) \<noteq> amount (data entry)
                    \<or> convertToSQLDate (date (data other)) \<noteq> convertToSQLDate (date (data entry))) \<longrightarrow>
              (\<exists>t\<in>set (drop n (transactions sf)). postedRow partyId (now s) entry t)"
      proof (intro ballI impI)
        fix x
        assume x: "x \<in> set entries"
          and h: "(entry_type x = bill \<or> entry_type x = payment)
              \<and> checkDuplicateTransaction s (truthy partyId) (date (data x)) (amount (data x))
                  (entry_type x) (billNumber (data x)) \<noteq> Inr True
              \<and> (\<forall>other\<in>set entries. other \<noteq> x \<longrightarrow>
                    amount (data other) \<noteq> amount (data x)
                    \<or> convertToSQLDate (date (data other)) \<noteq> convertToSQLDate (date (data x)))"
        from c7 x h obtain t where t: "t \<in> set (drop n (transactions sf))" "duplicateOf partyId x t"
          by blast
        from c5 t(1) obtain y where y: "y \<in> set entries" "postedRow partyId (now s) y t" by blast
        have "amount (data y) = amount (data x)"
          using y(2) t(2) by (simp add: postedRow_def duplicateOf_def)
        moreover have "convertToSQLDate (date (data y)) = convertToSQLDate (date (data x))"
          using y(2) t(2) by (simp add: postedRow_def duplicateOf_def)
        ultimately have "y = x" using h y(1) by blast
        with y(2) t(1) show "\<exists>t\<in>set (drop n (transactions sf)). postedRow partyId (now s) x t"
          by blast
      qed
      show ?thesis
      proof (rule conjI; rule impI)
        assume "processBulkEntries getTime gen partyId entries s = (Inl e, s')"
        with res show "parties s' = parties s \<and> staff s' = staff s \<and> transactions s' = transactions s"
          by simp
      next
        assume "processBulkEntries getTime gen partyId entries s = (Inr u, s')"
        with res have s': "s' = sf" by simp
        from c1 c2 c3 c4 c5 c6 c7 c8
        show "snapshot s' = None
        \<and> length (transactions s) \<le> length (transactions s')
        \<and> length (transactions s')
            \<le> length (transactions s)
              + length (filter (\<lambda>entry. entry_type entry = bill \<or> entry_type entry = payment) entries)
        \<and> map (\<lambda>t. t\<lparr>running_balance := None\<rparr>) (take (length (transactions s)) (transactions s'))
            = map (\<lambda>t. t\<lparr>running_balance := None\<rparr>) (transactions s)
        \<and> (\<forall>t\<in>set (drop (length (transactions s)) (transactions s')).
              \<exists>entry\<in>set entries. postedRow partyId (now s) entry t
                  \<and> checkDuplicateTransaction s (truthy partyId) (date (data entry))
                        (amount (data entry)) (entry_type entry) (billNumber (data entry))
                      \<noteq> Inr True)
        \<and> (\<forall>entry\<in>set entries. entry_type entry = bill \<or> entry_type entry = payment \<longrightarrow>
              (\<exists>t\<in>set (transactions s'). duplicateOf partyId entry t \<and> inWindow s' t))
        \<and> (\<forall>entry\<in>set entries.
              (entry_type entry = bill \<or> entry_type entry = payment)
              \<and> checkDuplicateTransaction s (truthy partyId) (date (data entry)) (amount (data entry))
                  (entry_type entry) (billNumber (data entry)) \<noteq> Inr True \<longrightarrow>
              (\<exists>t\<in>set (drop (length (transactions s)) (transactions s')). duplicateOf partyId entry t))
        \<and> (\<forall>entry\<in>set entries.
              (entry_type entry = bill \<or> entry_type entry = payment)
              \<and> checkDuplicateTransaction s (truthy partyId) (date (data entry)) (amount (data entry))
                  (entry_type entry) (billNumber (data entry)) \<noteq> Inr True
              \<and> (\<forall>other\<in>set entries. other \<noteq> entry \<longrightarrow>
                    amount (data other) \<noteq> amount (data entry)
                    \<or> convertToSQLDate (date (data other)) \<noteq> convertToSQLDate (date (data entry))) \<longrightarrow>
              (\<exists>t\<in>set (drop (length (transactions s)) (transactions s')).
                  postedRow partyId (now s) entry t))"
          unfolding s' n_def by blast
      qed
    qed
  qed
qed


theorem bulk_apply_atomic_witness:
  "processBulkEntries (\<lambda>d. 0) (\<lambda>k. ''a'') (Some ''p1'')
     [\<lparr>entry_type = bill,
       data = \<lparr>entry_id = ''e1'', date = ''2025-01-20'', amount = 100, payment_mode = None,
               party_name = Some ''Maa'', staff_name = None, description = None,
               billNumber = None, hasGST = 0, expense_category = None\<rparr>\<rparr>,
      \<lparr>entry_type = payment,
       data = \<lparr>entry_id = ''e2'', date = ''2025-01-21'', amount = 30, payment_mode = None,
               party_name = Some ''Maa'', staff_name = None, description = None,
               billNumber = None, hasGST = 0, expense_category = Some ''party_payment''\<rparr>\<rparr>]
     \<lparr>parties = [\<lparr>p_id = ''p1'', p_name = ''Maa'', credit_limit = 0, current_balance = 0\<rparr>],
      staff = [], transactions = [], snapshot = None, now = 1000\<rparr>
   = (Inl ConstraintFailed,
      \<lparr>parties = [\<lparr>p_id = ''p1'', p_name = ''Maa'', credit_limit = 0, current_balance = 0\<rparr>],
       staff = [], transactions = [], snapshot = None, now = 1000\<rparr>)
   \<and> bulkLoop (\<lambda>k. ''a'') 0 (Some ''p1'')
     [\<lparr>entry_type = bill,
       data = \<lparr>entry_id = ''e1'', date = ''2025-01-20'', amount = 100, payment_mode = None,
               party_name = Some ''Maa'', staff_name = None, description = None,
               billNumber = None, hasGST = 0, expense_category = None\<rparr>\<rparr>,
      \<lparr>entry_type = payment,
       data = \<lparr>entry_id = ''e2'', date = ''2025-01-21'', amount = 30, payment_mode = None,
               party_name = Some ''Maa'', staff_name = None, description = None,
               billNumber = None, hasGST = 0, expense_category = Some ''party_payment''\<rparr>\<rparr>]
     \<lparr>parties = [\<lparr>p_id = ''p1'', p_name = ''Maa'', credit_limit = 0, current_balance = 0\<rparr>],
      staff = [], transactions = [],
      snapshot = Some ([\<lparr>p_id = ''p1'', p_name = ''Maa'', credit_limit = 0, current_balance = 0\<rparr>],
                       [], []),
      now = 1000\<rparr>
   = (Inl ConstraintFailed,
      \<lparr>parties = [\<lparr>p_id = ''p1'', p_name = ''Maa'', credit_limit = 0, current_balance = 100\<rparr>],
       staff = [],
       transactions =
         [\<lparr>tx_id = ''a'', tx_date = ''2025-01-20'', tx_type = bill, tx_amount = 100,
           tx_payment_mode = None, tx_expense_category = None, has_gst = 0,
           bill_number = None, tx_description = None, party_id = Some ''p1'',
           staff_id = None, running_balance = None, created_at = 1000\<rparr>],
       snapshot = Some ([\<lparr>p_id = ''p1'', p_name = ''Maa'', credit_limit = 0, current_balance = 0\<rparr>],
                        [], []),
       now = 1000\<rparr>)
   \<and> processBulkEntries (\<lambda>d. 0) (\<lambda>k. ''a'') (Some ''p1'')
       [\<lparr>entry_type = bill,
         data = \<lparr>entry_id = ''e1'', date = ''2025-01-20'', amount = 100, payment_mode = None,
                 party_name = Some ''Maa'', staff_name = None, description = None,
                 billNumber = None, hasGST = 0, expense_category = None\<rparr>\<rparr>,
        \<lparr>entry_type = sale,
         data = \<lparr>entry_id = ''e3'', date = ''2025-01-20'', amount = 23500,
                 payment_mode = Some ''cash'', party_name = None, staff_name = None,
                 description = None, billNumber = None, hasGST = 0, expense_category = None\<rparr>\<rparr>]
       \<lparr>parties = [\<lparr>p_id = ''p1'', p_name = ''Maa'', credit_limit = 0, current_balance = 0\<rparr>],
        staff = [], transactions = [], snapshot = None, now = 1000\<rparr>
     = (Inr (),
        \<lparr>parties = [\<lparr>p_id = ''p1'', p_name = ''Maa'', credit_limit = 0, current_balance = 100\<rparr>],
         staff = [],
         transactions =
           [\<lparr>tx_id = ''a'', tx_date = ''2025-01-20'', tx_type = bill, tx_amount = 100,
             tx_payment_mode = None, tx_expense_category = None, has_gst = 0,
             bill_number = None, tx_description = None, party_id = Some ''p1'',
             staff_id = None, running_balance = Some 100, created_at = 1000\<rparr>],
         snapshot = None, now = 1000\<rparr>)
   \<and> checkDuplicateTransaction
       \<lparr>parties = [\<lparr>p_id = ''p1'', p_name = ''Maa'', credit_limit = 0, current_balance = 0\<rparr>],
        staff = [], transactions = [], snapshot = None, now = 1000\<rparr>
       (truthy (Some ''p1'')) ''2025-01-20'' 100 bill None = Inr False
   \<and> (\<exists>t\<in>set [\<lparr>tx_id = ''a'', tx_date = ''2025-01-20'', tx_type = bill, tx_amount = 100,
             tx_payment_mode = None, tx_expense_category = None, has_gst = 0,
             bill_number = None, tx_description = None, party_id = Some ''p1'',
             staff_id = None, running_balance = Some 100, created_at = 1000\<rparr>].
         postedRow (Some ''p1'') 1000
           \<lparr>entry_type = bill,
            data = \<lparr>entry_id = ''e1'', date = ''2025-01-20'', amount = 100, payment_mode = None,
                    party_name = Some ''Maa'', staff_name = None, description = None,
                    billNumber = None, hasGST = 0, expense_category = None\<rparr>\<rparr> t)"
proof -
  let ?T = "\<lambda>d::string. 0::int"
  let ?A = "\<lambda>k::nat. ''a''"
  let ?P = "Some ''p1''"
  let ?Ebill = "\<lparr>entry_type = bill,
       data = \<lparr>entry_id = ''e1'', date = ''2025-01-20'', amount = 100::rat, payment_mode = None,
               party_name = Some ''Maa'', staff_name = None, description = None,
               billNumber = None, hasGST = 0, expense_category = None\<rparr>\<rparr>"
  let ?Epay = "\<lparr>entry_type = payment,
       data = \<lparr>entry_id = ''e2'', date = ''2025-01-21'', amount = 30::rat, payment_mode = None,
               party_name = Some ''Maa'', staff_name = None, description = None,
               billNumber = None, hasGST = 0, expense_category = Some ''party_payment''\<rparr>\<rparr>"
  let ?Esale = "\<lparr>entry_type = sale,
       data = \<lparr>entry_id = ''e3'', date = ''2025-01-20'', amount = 23500::rat,
               payment_mode = Some ''cash'', party_name = None, staff_name = None,
               description = None, billNumber = None, hasGST = 0, expense_category = None\<rparr>\<rparr>"
  let ?pzero = "\<lparr>p_id = ''p1'', p_name = ''Maa'', credit_limit = 0, current_balance = 0\<rparr>"
  let ?phundred = "\<lparr>p_id = ''p1'', p_name = ''Maa'', credit_limit = 0, current_balance = 100\<rparr>"
  let ?Sinit = "\<lparr>parties = [?pzero], staff = [], transactions = [], snapshot = None, now = 1000\<rparr>"
  let ?Sbegun = "\<lparr>parties = [?pzero], staff = [], transactions = [],
      snapshot = Some ([?pzero], [], []), now = 1000\<rparr>"
  let ?rnew = "\<lparr>tx_id = ''a'', tx_date = ''2025-01-20'', tx_type = bill, tx_amount = 100,
           tx_payment_mode = None, tx_expense_category = None, has_gst = 0,
           bill_number = None, tx_description = None, party_id = Some ''p1'',
           staff_id = None, running_balance = None, created_at = 1000\<rparr>"
  let ?rdone = "\<lparr>tx_id = ''a'', tx_date = ''2025-01-20'', tx_type = bill, tx_amount = 100,
           tx_payment_mode = None, tx_expense_category = None, has_gst = 0,
           bill_number = None, tx_description = None, party_id = Some ''p1'',
           staff_id = None, running_balance = Some 100, created_at = 1000\<rparr>"
  let ?Sfirst = "\<lparr>parties = [?phundred], staff = [], transactions = [?rnew],
      snapshot = Some ([?pzero], [], []), now = 1000\<rparr>"
  let ?Sdone = "\<lparr>parties = [?phundred], staff = [], transactions = [?rdone], snapshot = None, now = 1000\<rparr>"
  have f: "processBulkEntries ?T ?A ?P [?Ebill, ?Epay] ?Sinit = (Inl ConstraintFailed, ?Sinit)"
    by (simp add: db_defs str_defs)
  have l: "bulkLoop ?A 0 ?P [?Ebill, ?Epay] ?Sbegun = (Inl ConstraintFailed, ?Sfirst)"
    by (simp add: db_defs str_defs)
  have k: "processBulkEntries ?T ?A ?P [?Ebill, ?Esale] ?Sinit = (Inr (), ?Sdone)"
    by (simp add: db_defs str_defs)
  have same: "parties ?Sinit = parties ?Sinit \<and> staff ?Sinit = staff ?Sinit
      \<and> transactions ?Sinit = transactions ?Sinit"
    using bulk_apply_atomic [where getTime = ?T and gen = ?A and partyId = ?P
        and entries = "[?Ebill, ?Epay]" and s = ?Sinit and e = ConstraintFailed and s' = ?Sinit] f
    by blast
  have nd: "checkDuplicateTransaction ?Sinit (truthy ?P) ''2025-01-20'' 100 bill None = Inr False"
    by (simp add: db_defs str_defs)
  have h: "?Ebill \<in> set [?Ebill, ?Esale]"
    "(entry_type ?Ebill = bill \<or> entry_type ?Ebill = payment)
     \<and> checkDuplicateTransaction ?Sinit (truthy ?P) (date (data ?Ebill)) (amount (data ?Ebill))
         (entry_type ?Ebill) (billNumber (data ?Ebill)) \<noteq> Inr True
     \<and> (\<forall>other\<in>set [?Ebill, ?Esale]. other \<noteq> ?Ebill \<longrightarrow>
           amount (data other) \<noteq> amount (data ?Ebill)
           \<or> convertToSQLDate (date (data other)) \<noteq> convertToSQLDate (date (data ?Ebill)))"
    using nd by simp_all
  from bulk_apply_atomic [where getTime = ?T and gen = ?A and partyId = ?P
        and entries = "[?Ebill, ?Esale]" and s = ?Sinit and s' = ?Sdone and u = "()"] k h
  have "\<exists>t\<in>set (drop (length (transactions ?Sinit)) (transactions ?Sdone)).
          postedRow ?P (now ?Sinit) ?Ebill t"
    by blast
  then have ex: "\<exists>t\<in>set [?rdone]. postedRow ?P 1000 ?Ebill t" by simp
  from f l k nd ex same show ?thesis by blast
qed

text \<open>
  A batch that holds one Sale entry completes normally, and the entry, which was not
  skipped as a duplicate, is not committed: the store is unchanged.
\<close>

theorem bulk_import_drops_sale_entry:
  "processBulkEntries (\<lambda>d. 0) (\<lambda>k. ''a'') (Some ''p1'')
     [\<lparr>entry_type = sale,
       data = \<lparr>entry_id = ''e1'', date = ''2025-01-20'', amount = 23500,
               payment_mode = Some ''cash'', party_name = None, staff_name = None,
               description = None, billNumber = None, hasGST = 0, expense_category = None\<rparr>\<rparr>]
     \<lparr>parties = [\<lparr>p_id = ''p1'', p_name = ''Maa'', credit_limit = 0, current_balance = 0\<rparr>],
      staff = [], transactions = [], snapshot = None, now = 1000\<rparr>
   = (Inr (),
      \<lparr>parties = [\<lparr>p_id = ''p1'', p_name = ''Maa'', credit_limit = 0, current_balance = 0\<rparr>],
       staff = [], transactions = [], snapshot = None, now = 1000\<rparr>)"
  by (simp add: db_defs str_defs)

end
